theory Spec2Isabelle
  imports Complex_Main
begin

section \<open>Conventions of the embedding\<close>

text \<open>
  The development embeds \<^verbatim>\<open>AbstractSustain.py\<close>. numpy arrays are nested lists in
  numpy's own axis order, Python dictionaries are maps, exceptions are values of
  \<open>py_error\<close> on the left of a sum. Floating-point numbers are read as the real
  numbers they denote. The values computed from them are those of exact arithmetic;
  rounding is modelled where the source decides on the outcome of an operation on given
  doubles: in the convergence test of the EM loop and in the choice of the thinned
  draws. NaN is modelled only where the source tests for it. The abstract methods of the
  class and the random number generator are parameters; a random operation takes the
  generator's state and returns the state it leaves.
\<close>

datatype py_error =
    KeyError string
  | UnboundLocalError string
  | ValueError
  | IndexError
  | TypeError
  | OverflowError

section \<open>Checkpoints of the cross-validation (lines 197--267)\<close>

text \<open>
  \<^verbatim>\<open>str(n)\<close> for a non-negative integer, used in the checkpoint's file name.
\<close>

definition digit_char :: "nat \<Rightarrow> char" where
  "digit_char d = char_of (48 + d)"

fun str_nat :: "nat \<Rightarrow> string" where
  "str_nat n = (if n < 10 then [digit_char n] else str_nat (n div 10) @ [digit_char (n mod 10)])"

declare str_nat.simps [simp del]

text \<open>The eight variables a (fold, subtype-count) step of the cross-validation holds.\<close>

record 'v cv_vars =
  cv_ml_sequence_EM :: 'v
  cv_ml_sequence_prev_EM :: 'v
  cv_ml_f_EM :: 'v
  cv_ml_f_prev_EM :: 'v
  cv_samples_likelihood :: 'v
  cv_samples_sequence :: 'v
  cv_samples_f :: 'v
  cv_samples_likelihood_subj_test :: 'v

text \<open>\<^verbatim>\<open>d[k]\<close> on a dictionary raises KeyError on a missing key.\<close>

definition py_getitem :: "(string \<rightharpoonup> 'v) \<Rightarrow> string \<Rightarrow> py_error + 'v" where
  "py_getitem d k = (case d k of None \<Rightarrow> Inl (KeyError k) | Some v \<Rightarrow> Inr v)"

definition bind_err :: "'e + 'a \<Rightarrow> ('a \<Rightarrow> 'e + 'b) \<Rightarrow> 'e + 'b" where
  "bind_err m f = (case m of Inl e \<Rightarrow> Inl e | Inr x \<Rightarrow> f x)"

text \<open>
  Lines 252--263: the dictionary that is pickled. \<^verbatim>\<open>save_variables\<close> is bound to a
  fresh dictionary a second time after the four EM entries have been stored.
\<close>

definition cv_save_variables :: "'v cv_vars \<Rightarrow> (string \<rightharpoonup> 'v)" where
  "cv_save_variables v =
    (let save_variables = Map.empty;
         save_variables = save_variables(''ml_sequence_EM'' \<mapsto> cv_ml_sequence_EM v);
         save_variables = save_variables(''ml_sequence_prev_EM'' \<mapsto> cv_ml_sequence_prev_EM v);
         save_variables = save_variables(''ml_f_EM'' \<mapsto> cv_ml_f_EM v);
         save_variables = save_variables(''ml_f_prev_EM'' \<mapsto> cv_ml_f_prev_EM v);
         save_variables = Map.empty;
         save_variables = save_variables(''samples_sequence'' \<mapsto> cv_samples_sequence v);
         save_variables = save_variables(''samples_f'' \<mapsto> cv_samples_f v);
         save_variables = save_variables(''samples_likelihood'' \<mapsto> cv_samples_likelihood v);
         save_variables = save_variables(''samples_likelihood_subj_test'' \<mapsto>
                            cv_samples_likelihood_subj_test v)
     in save_variables)"

text \<open>Lines 209--218: the reads of the load path, in the source's order.\<close>

definition cv_load_variables :: "(string \<rightharpoonup> 'v) \<Rightarrow> py_error + 'v cv_vars" where
  "cv_load_variables loaded_variables =
    bind_err (py_getitem loaded_variables ''ml_sequence_EM'') (\<lambda>a.
    bind_err (py_getitem loaded_variables ''ml_sequence_prev_EM'') (\<lambda>b.
    bind_err (py_getitem loaded_variables ''ml_f_EM'') (\<lambda>c.
    bind_err (py_getitem loaded_variables ''ml_f_prev_EM'') (\<lambda>d.
    bind_err (py_getitem loaded_variables ''samples_likelihood'') (\<lambda>e.
    bind_err (py_getitem loaded_variables ''samples_sequence'') (\<lambda>f.
    bind_err (py_getitem loaded_variables ''samples_f'') (\<lambda>g.
    bind_err (py_getitem loaded_variables ''samples_likelihood_subj_test'') (\<lambda>h.
      Inr \<lparr> cv_ml_sequence_EM = a, cv_ml_sequence_prev_EM = b, cv_ml_f_EM = c,
            cv_ml_f_prev_EM = d, cv_samples_likelihood = e, cv_samples_sequence = f,
            cv_samples_f = g, cv_samples_likelihood_subj_test = h \<rparr>))))))))"

definition pickle_filename_fold_s :: "string \<Rightarrow> string \<Rightarrow> nat \<Rightarrow> nat \<Rightarrow> string" where
  "pickle_filename_fold_s output_folder dataset_name fold_no s =
     output_folder @ ''/'' @ dataset_name @ ''_fold'' @ str_nat fold_no @ ''_subtype'' @ str_nat s
       @ ''.pickle''"

text \<open>
  One (fold, subtype-count) step: the file system is a map from file names to pickled
  dictionaries; \<open>fit\<close> stands for lines 223--244, the fit computed when no checkpoint
  exists. The step returns the variables it holds afterwards and the file system.
\<close>

definition cv_fold_subtype ::
  "(string \<rightharpoonup> (string \<rightharpoonup> 'v)) \<Rightarrow> string \<Rightarrow> 'v cv_vars \<Rightarrow>
     py_error + ('v cv_vars \<times> (string \<rightharpoonup> (string \<rightharpoonup> 'v)))" where
  "cv_fold_subtype files filename fit =
     (case files filename of
        Some loaded_variables \<Rightarrow>
          bind_err (cv_load_variables loaded_variables) (\<lambda>v. Inr (v, files))
      | None \<Rightarrow> Inr (fit, files(filename \<mapsto> cv_save_variables fit)))"

section \<open>Random two-cluster initialisation (lines 521--530)\<close>

text \<open>
  \<^verbatim>\<open>np.sum((cluster_assignment == s).astype(int), 0)\<close>: the number of subjects
  assigned to cluster \<open>s\<close>.
\<close>

definition count_cluster :: "int list \<Rightarrow> int \<Rightarrow> int" where
  "count_cluster cluster_assignment s = int (length (filter (\<lambda>x. x = s) cluster_assignment))"

text \<open>
  Lines 527--529: \<^verbatim>\<open>temp_N_cluster\<close> is rebound, not indexed, at every \<open>s\<close> of
  \<^verbatim>\<open>range(1, N_S + 1)\<close>.
\<close>

definition temp_N_cluster_loop :: "nat \<Rightarrow> int list \<Rightarrow> int" where
  "temp_N_cluster_loop N_S cluster_assignment =
     fold (\<lambda>s temp_N_cluster. count_cluster cluster_assignment (int s)) [1..<N_S + 1] 0"

text \<open>Line 530: \<^verbatim>\<open>min([temp_N_cluster])\<close>, the minimum of a one-element list.\<close>

definition min_N_cluster :: "int list \<Rightarrow> int" where
  "min_N_cluster cluster_assignment = Min (set [temp_N_cluster_loop 2 cluster_assignment])"

text \<open>
  Line 525: \<open>rand n\<close> stands for \<^verbatim>\<open>np.random.rand(n)\<close>, \<open>n\<close> numbers of \<open>[0, 1)\<close>;
  each is doubled and rounded up.
\<close>

definition draw_cluster_assignment ::
  "(nat \<Rightarrow> 'r \<Rightarrow> real list \<times> 'r) \<Rightarrow> nat \<Rightarrow> 'r \<Rightarrow> int list \<times> 'r" where
  "draw_cluster_assignment rand M r =
     (case rand M r of (u, r') \<Rightarrow> (map (\<lambda>x. \<lceil>2 * x\<rceil>) u, r'))"

text \<open>
  Lines 522--530: the redraw loop. It has no bound, so it is a partial function: \<open>None\<close>
  is the run that never leaves the loop.
\<close>

partial_function (option) redraw_cluster_assignment ::
  "(nat \<Rightarrow> 'r \<Rightarrow> real list \<times> 'r) \<Rightarrow> nat \<Rightarrow> 'r \<Rightarrow> (int list \<times> 'r) option" where
  "redraw_cluster_assignment rand M r =
     (case draw_cluster_assignment rand M r of (cluster_assignment, r') \<Rightarrow>
        if min_N_cluster cluster_assignment = 0
        then redraw_cluster_assignment rand M r'
        else Some (cluster_assignment, r'))"

section \<open>The abstract methods and the data provider\<close>

text \<open>
  The methods a subclass supplies (lines 822--841) and the data provider's methods
  (lines 21--41), as a record of functions over a data type \<open>'d\<close> and a generator state
  \<open>'r\<close>. A sequence matrix is a list of \<open>N_S\<close> rows of \<open>N\<close> stage indices, a fraction
  vector a list of \<open>N_S\<close> reals, the stage likelihood of one row an \<open>M \<times> (N + 1)\<close>
  matrix. Arrays are taken to have these shapes: what numpy does on other shapes
  (broadcasting, shape errors) is outside the model. The samples of a chain are indexed
  \<open>[subtype][position][draw]\<close> and \<open>[subtype][draw]\<close>, as in the source. A proposal
  scale handed to \<^verbatim>\<open>_perform_mcmc\<close> is a scalar (\<open>Inl\<close>) or an array (\<open>Inr\<close>).
  \<open>random_rand n\<close> is \<^verbatim>\<open>np.random.rand(n)\<close>.
\<close>

record ('d, 'r) sustain_methods =
  getNumSamples :: "'d \<Rightarrow> nat"
  getNumStages :: "'d \<Rightarrow> nat"
  reindex :: "'d \<Rightarrow> bool list \<Rightarrow> 'd"
  initialise_sequence :: "'d \<Rightarrow> 'r \<Rightarrow> int list list \<times> 'r"
  calculate_likelihood_stage :: "'d \<Rightarrow> int list \<Rightarrow> real list list"
  optimise_parameters ::
    "'d \<Rightarrow> int list list \<Rightarrow> real list \<Rightarrow> 'r \<Rightarrow> (int list list \<times> real list \<times> real) \<times> 'r"
  perform_mcmc ::
    "'d \<Rightarrow> int list list \<Rightarrow> real list \<Rightarrow> nat \<Rightarrow> real + real list list \<Rightarrow> real + real list \<Rightarrow> 'r \<Rightarrow>
       (int list list \<times> real list \<times> real \<times> int list list list \<times> real list list \<times> real list) \<times> 'r"
  random_rand :: "nat \<Rightarrow> 'r \<Rightarrow> real list \<times> 'r"

section \<open>The likelihood engine (lines 695--731)\<close>

definition np_zeros3 :: "nat \<Rightarrow> nat \<Rightarrow> nat \<Rightarrow> real list list list" where
  "np_zeros3 a b c = replicate a (replicate b (replicate c 0))"

text \<open>\<^verbatim>\<open>np.tile(X, (ra, rb, rc))\<close> for a three-dimensional \<open>X\<close>.\<close>

definition np_tile3 :: "nat \<Rightarrow> nat \<Rightarrow> nat \<Rightarrow> 'a list list list \<Rightarrow> 'a list list list" where
  "np_tile3 ra rb rc X =
     concat (replicate ra
       (map (\<lambda>plane. concat (replicate rb (map (\<lambda>row. concat (replicate rc row)) plane))) X))"

text \<open>
  \<^verbatim>\<open>np.transpose(X, (2, 1, 0))\<close> for \<open>X\<close> of shape \<open>(d0, d1, d2)\<close>: the result has shape
  \<open>(d2, d1, d0)\<close>.
\<close>

definition np_transpose_210 :: "nat \<Rightarrow> nat \<Rightarrow> nat \<Rightarrow> 'a list list list \<Rightarrow> 'a list list list" where
  "np_transpose_210 d0 d1 d2 X =
     map (\<lambda>i. map (\<lambda>j. map (\<lambda>k. X ! k ! j ! i) [0..<d0]) [0..<d1]) [0..<d2]"

text \<open>\<^verbatim>\<open>P[:, :, s] = X\<close> for \<open>X\<close> of the shape of the slice.\<close>

definition set_slice_axis2 :: "'a list list list \<Rightarrow> nat \<Rightarrow> 'a list list \<Rightarrow> 'a list list list" where
  "set_slice_axis2 P s X = map2 (\<lambda>plane rowX. map2 (\<lambda>cell x. cell[s := x]) plane rowX) P X"

definition arr3_mult :: "real list list list \<Rightarrow> real list list list \<Rightarrow> real list list list" where
  "arr3_mult A B = map2 (map2 (map2 (\<lambda>x y. x * y))) A B"

text \<open>\<^verbatim>\<open>np.sum(A, 1)\<close> for \<open>A\<close> of shape \<open>(d0, d1, d2)\<close>, and \<^verbatim>\<open>np.sum(A, 2)\<close>.\<close>

definition np_sum_axis1 :: "nat \<Rightarrow> real list list list \<Rightarrow> real list list" where
  "np_sum_axis1 d2 A = map (\<lambda>plane. map (\<lambda>s. sum_list (map (\<lambda>row. row ! s) plane)) [0..<d2]) A"

definition np_sum_axis2 :: "real list list list \<Rightarrow> real list list" where
  "np_sum_axis2 A = map (map sum_list) A"

text \<open>
  \<^verbatim>\<open>np.squeeze\<close> of a \<open>d0 \<times> d1\<close> matrix drops the axes of length one: the result is a
  scalar, a vector or the matrix itself.
\<close>

datatype squeezed = Sq0 real | Sq1 "real list" | Sq2 "real list list"

definition np_squeeze2 :: "nat \<Rightarrow> nat \<Rightarrow> real list list \<Rightarrow> squeezed" where
  "np_squeeze2 d0 d1 X =
     (if d0 = 1 \<and> d1 = 1 then Sq0 (X ! 0 ! 0)
      else if d0 = 1 then Sq1 (X ! 0)
      else if d1 = 1 then Sq1 (map (\<lambda>row. row ! 0) X)
      else Sq2 X)"

record likelihood_result =
  loglike :: real
  total_prob_subj :: "real list"
  total_prob_stage :: "real list list"
  total_prob_cluster :: squeezed
  p_perm_k :: "real list list list"

definition calculate_likelihood ::
  "('d, 'r) sustain_methods \<Rightarrow> 'd \<Rightarrow> int list list \<Rightarrow> real list \<Rightarrow> likelihood_result" where
  "calculate_likelihood ops sustainData S f =
     (let M = getNumSamples ops sustainData;
          N_S = length S;
          N = getNumStages ops sustainData;
          f = map (\<lambda>x. [[x]]) f;
          f_val_mat = np_tile3 1 (N + 1) M f;
          f_val_mat = np_transpose_210 N_S (N + 1) M f_val_mat;
          p_perm_k = np_zeros3 M (N + 1) N_S;
          p_perm_k = fold (\<lambda>s p_perm_k.
                        set_slice_axis2 p_perm_k s (calculate_likelihood_stage ops sustainData (S ! s)))
                      [0..<N_S] p_perm_k;
          total_prob_cluster = np_squeeze2 M N_S (np_sum_axis1 N_S (arr3_mult p_perm_k f_val_mat));
          total_prob_stage = np_sum_axis2 (arr3_mult p_perm_k f_val_mat);
          total_prob_subj = map sum_list total_prob_stage;
          loglike = sum_list (map (\<lambda>x. ln (x + 1 / 10 ^ 250)) total_prob_subj)
      in \<lparr> loglike = loglike, total_prob_subj = total_prob_subj,
           total_prob_stage = total_prob_stage, total_prob_cluster = total_prob_cluster,
           p_perm_k = p_perm_k \<rparr>)"

text \<open>The shape of a matrix: \<open>M\<close> rows of \<open>K\<close> entries.\<close>

definition has_shape2 :: "nat \<Rightarrow> nat \<Rightarrow> 'a list list \<Rightarrow> bool" where
  "has_shape2 M K X = (length X = M \<and> list_all (\<lambda>row. length row = K) X)"

section \<open>The EM optimiser (lines 647--693)\<close>

definition MaxIter :: nat where
  "MaxIter = 100"

text \<open>
  The arithmetic of the machine. A likelihood is a double, whose value is read as a
  real; an operation on doubles yields the double nearest to the exact result, a tie
  going to the even significand. \<open>round_double\<close> is this rounding to a double of 53
  significant bits with exponents from \<open>-1022\<close> to \<open>1023\<close>: below \<open>2 ^ -1022\<close> the doubles
  are spaced by \<open>2 ^ -1074\<close>, and \<open>None\<close> is a result that is beyond the largest double
  and becomes an infinity.
\<close>

definition round_half_even :: "real \<Rightarrow> int" where
  "round_half_even y =
     (let n = \<lfloor>y\<rfloor>
      in if y - of_int n < 1 / 2 then n
         else if 1 / 2 < y - of_int n then n + 1
         else if even n then n else n + 1)"

definition round_double :: "real \<Rightarrow> real option" where
  "round_double x =
     (if x = 0 then Some 0
      else
        let e = max \<lfloor>log 2 \<bar>x\<bar>\<rfloor> (- 1022);
            ulp = 2 powr (of_int e - 52);
            r = of_int (round_half_even (x / ulp)) * ulp
        in if 2 ^ 1024 \<le> \<bar>r\<bar> then None else Some r)"

text \<open>
  Line 672: \<^verbatim>\<open>np.fabs((candidate_likelihood - current_likelihood) / max(...)) < 1e-6\<close>.
  The difference and the quotient are rounded as the machine rounds them, and the
  literal is the double nearest to \<open>1e-6\<close>. An infinite difference or quotient is not
  below the threshold; a division by zero yields an infinity or NaN, neither of which
  is below the threshold, so that case is written out.
\<close>

definition HAS_converged :: "real \<Rightarrow> real \<Rightarrow> bool" where
  "HAS_converged candidate_likelihood current_likelihood =
     (case round_double (candidate_likelihood - current_likelihood) of
        None \<Rightarrow> False
      | Some d \<Rightarrow>
          if max candidate_likelihood current_likelihood = 0 then False
          else
            (case round_double (d / max candidate_likelihood current_likelihood) of
               None \<Rightarrow> False
             | Some q \<Rightarrow>
                 (case round_double (1 / 10 ^ 6) of
                    None \<Rightarrow> False
                  | Some t \<Rightarrow> \<bar>q\<bar> < t)))"

text \<open>\<^verbatim>\<open>X.shape[1]\<close>, \<^verbatim>\<open>X.reshape(r, c)\<close> and \<^verbatim>\<open>X.T\<close> of a matrix.\<close>

definition shape1 :: "'a list list \<Rightarrow> nat" where
  "shape1 X = (case X of [] \<Rightarrow> 0 | row # _ \<Rightarrow> length row)"

definition np_reshape2 :: "nat \<Rightarrow> nat \<Rightarrow> 'a list list \<Rightarrow> 'a list list" where
  "np_reshape2 r c X = map (\<lambda>i. take c (drop (i * c) (concat X))) [0..<r]"

definition np_transpose2 :: "'a list list \<Rightarrow> 'a list list" where
  "np_transpose2 X = map (\<lambda>j. map (\<lambda>row. row ! j) X) [0..<shape1 X]"

text \<open>
  The variables of the loop. The three traces have \<open>MaxIter\<close> entries; \<open>None\<close> is an
  entry still filled with NaN.
\<close>

record 'r em_state =
  current_sequence :: "int list list"
  current_f :: "real list"
  current_likelihood :: real
  terminate :: nat
  iteration :: nat
  em_samples_sequence :: "int list list option list"
  em_samples_f :: "real list option list"
  em_samples_likelihood :: "real option list"
  em_rng :: 'r

text \<open>
  Lines 668--688, one pass through the body of the loop. The writes at index
  \<open>iteration\<close> raise IndexError beyond the end of the traces.
\<close>

definition em_step ::
  "('d, 'r) sustain_methods \<Rightarrow> 'd \<Rightarrow> 'r em_state \<Rightarrow> py_error + 'r em_state" where
  "em_step ops sustainData st =
     (case optimise_parameters ops sustainData (current_sequence st) (current_f st) (em_rng st) of
        ((candidate_sequence, candidate_f, candidate_likelihood), r') \<Rightarrow>
          let st = st\<lparr>em_rng := r'\<rparr>;
              st = (if HAS_converged candidate_likelihood (current_likelihood st)
                    then st\<lparr>terminate := 1\<rparr>
                    else if candidate_likelihood > current_likelihood st
                    then st\<lparr>current_sequence := candidate_sequence,
                            current_f := candidate_f,
                            current_likelihood := candidate_likelihood\<rparr>
                    else st)
          in if iteration st \<ge> MaxIter then Inl IndexError
             else
               let st = st\<lparr>em_samples_sequence :=
                             (em_samples_sequence st)
                               [iteration st := Some (np_transpose2 (current_sequence st))],
                           em_samples_f :=
                             (em_samples_f st)[iteration st := Some (current_f st)],
                           em_samples_likelihood :=
                             (em_samples_likelihood st)
                               [iteration st := Some (current_likelihood st)]\<rparr>;
                   st = (if iteration st = MaxIter - 1 then st\<lparr>terminate := 1\<rparr> else st)
               in Inr (st\<lparr>iteration := iteration st + 1\<rparr>))"

text \<open>Line 666: \<^verbatim>\<open>while terminate == 0\<close>.\<close>

function em_loop ::
  "('d, 'r) sustain_methods \<Rightarrow> 'd \<Rightarrow> 'r em_state \<Rightarrow> py_error + 'r em_state" where
  "em_loop ops sustainData st =
     (if terminate st = 0
      then (case em_step ops sustainData st of
              Inl e \<Rightarrow> Inl e
            | Inr st' \<Rightarrow> em_loop ops sustainData st')
      else Inr st)"
  by pat_completeness auto
termination
  by (relation "measure (\<lambda>(ops, sustainData, st). MaxIter - iteration st)")
    (auto simp: em_step_def Let_def split: prod.splits if_splits)

declare em_loop.simps [simp del]

text \<open>
  Lines 650--665: the state in which the loop is entered. The arguments
  \<^verbatim>\<open>current_sequence\<close> and \<^verbatim>\<open>current_f\<close> are named \<open>sequence_init\<close> and \<open>f_init\<close>
  here, the names of the variables being those of the state's fields.
\<close>

definition em_init ::
  "('d, 'r) sustain_methods \<Rightarrow> 'd \<Rightarrow> int list list \<Rightarrow> real list \<Rightarrow> 'r \<Rightarrow> 'r em_state" where
  "em_init ops sustainData sequence_init f_init r =
     (let N = getNumStages ops sustainData;
          N_S = length sequence_init;
          likelihood_init = loglike (calculate_likelihood ops sustainData sequence_init f_init)
      in \<lparr> current_sequence = sequence_init,
           current_f = f_init,
           current_likelihood = likelihood_init,
           terminate = 0,
           iteration = 0,
           em_samples_sequence =
             (replicate MaxIter None)
               [0 := Some (np_reshape2 (shape1 sequence_init) N_S sequence_init)],
           em_samples_f = (replicate MaxIter None)[0 := Some f_init],
           em_samples_likelihood = (replicate MaxIter None)[0 := Some likelihood_init],
           em_rng = r \<rparr>)"

text \<open>
  \<^verbatim>\<open>_perform_em\<close>: the six values returned, and the generator's state.
\<close>

definition perform_em ::
  "('d, 'r) sustain_methods \<Rightarrow> 'd \<Rightarrow> int list list \<Rightarrow> real list \<Rightarrow> 'r \<Rightarrow>
     py_error + ((int list list \<times> real list \<times> real \<times>
                  int list list option list \<times> real list option list \<times> real option list) \<times> 'r)" where
  "perform_em ops sustainData sequence_init f_init r =
     (case em_loop ops sustainData (em_init ops sustainData sequence_init f_init r) of
        Inl e \<Rightarrow> Inl e
      | Inr st \<Rightarrow>
          Inr ((current_sequence st, current_f st, current_likelihood st,
                em_samples_sequence st, em_samples_f st, em_samples_likelihood st), em_rng st))"





text \<open>
  The invariant of the loop: the trace is written up to \<open>iteration\<close>, it is
  non-decreasing there and bounded by the current likelihood, and a state in which the
  loop goes on has room for the next write.
\<close>

definition em_inv :: "'r em_state \<Rightarrow> bool" where
  "em_inv st =
     (length (em_samples_likelihood st) = MaxIter \<and>
      (terminate st = 0 \<longrightarrow> iteration st < MaxIter) \<and>
      iteration st \<le> MaxIter \<and>
      (\<forall>k<iteration st. \<exists>x. em_samples_likelihood st ! k = Some x \<and> x \<le> current_likelihood st) \<and>
      (\<forall>j k. j \<le> k \<and> k < iteration st \<longrightarrow>
         the (em_samples_likelihood st ! j) \<le> the (em_samples_likelihood st ! k)) \<and>
      (\<forall>k. max 1 (iteration st) \<le> k \<and> k < MaxIter \<longrightarrow> em_samples_likelihood st ! k = None) \<and>
      (0 < iteration st \<longrightarrow>
         em_samples_likelihood st ! (iteration st - 1) = Some (current_likelihood st)))"

section \<open>A concrete model for the examples\<close>

text \<open>
  One subject, one stage, stage likelihoods \<open>1/4\<close> and \<open>1/4\<close>: the log-likelihood of
  the one-subtype model is \<open>ex_L0 = ln (1/2 + 1e-250)\<close>, about \<open>-0.69\<close>. The optimiser's
  first candidate has likelihood \<open>-10\<close>, its later ones that of the current state; the
  chain repeats its start, and the generator's state counts the calls.
\<close>

definition ex_L0 :: real where
  "ex_L0 = ln (1 / 2 + 1 / 10 ^ 250)"

definition ex_ops :: "(unit, nat) sustain_methods" where
  "ex_ops =
     \<lparr> getNumSamples = (\<lambda>d. 1),
       getNumStages = (\<lambda>d. 1),
       reindex = (\<lambda>d ix. d),
       initialise_sequence = (\<lambda>d r. ([[0]], r + 1)),
       calculate_likelihood_stage = (\<lambda>d S. [[1 / 4, 1 / 4]]),
       optimise_parameters =
         (\<lambda>d S f r. ((S, f, if r = 0 then - 10 else ex_L0), r + 1)),
       perform_mcmc =
         (\<lambda>d S f n seq_sigma f_sigma r.
            ((S, f, ex_L0, map (map (replicate n)) S, map (replicate n) f, replicate n ex_L0),
             r + 1)),
       random_rand = (\<lambda>n r. (replicate n (9 / 10), r + 1)) \<rparr>"

definition ex_st1 :: "nat em_state" where
  "ex_st1 =
     \<lparr> current_sequence = [[0]], current_f = [1], current_likelihood = ex_L0,
       terminate = 0, iteration = 1,
       em_samples_sequence = (replicate MaxIter None)[0 := Some [[0]]],
       em_samples_f = (replicate MaxIter None)[0 := Some [1]],
       em_samples_likelihood = (replicate MaxIter None)[0 := Some ex_L0],
       em_rng = 1 \<rparr>"

definition ex_st2 :: "nat em_state" where
  "ex_st2 =
     \<lparr> current_sequence = [[0]], current_f = [1], current_likelihood = ex_L0,
       terminate = 1, iteration = 2,
       em_samples_sequence = (replicate MaxIter None)[0 := Some [[0]], 1 := Some [[0]]],
       em_samples_f = (replicate MaxIter None)[0 := Some [1], 1 := Some [1]],
       em_samples_likelihood = (replicate MaxIter None)[0 := Some ex_L0, 1 := Some ex_L0],
       em_rng = 2 \<rparr>"

section \<open>Multi-start optimisation (lines 453--644)\<close>

text \<open>
  The per-startpoint arrays \<^verbatim>\<open>ml_sequence_mat\<close>, \<^verbatim>\<open>ml_f_mat\<close> and
  \<^verbatim>\<open>ml_likelihood_mat\<close>, whose last axis is the startpoint, are lists indexed by the
  startpoint. A result is \<open>None\<close> for a run that does not return, and \<open>Some\<close> of an
  exception or of the values and the generator's state otherwise.
\<close>

type_synonym start_mats = "int list list list \<times> real list list \<times> real list"

definition zero_mats :: "nat \<Rightarrow> nat \<Rightarrow> nat \<Rightarrow> start_mats" where
  "zero_mats N_S N N_startpoints =
     (replicate N_startpoints (replicate N_S (replicate N 0)),
      replicate N_startpoints (replicate N_S 0),
      replicate N_startpoints 0)"

text \<open>
  The loop the three functions share (lines 470--489, 518--559 and 622--635): \<open>run\<close> is
  the fit of one startpoint; its result is stored at index \<open>startpoint\<close>, which raises
  IndexError beyond the arrays; the loop ends after the store at
  \<open>N_startpoints - 1\<close>.
\<close>

function startpoint_loop ::
  "('r \<Rightarrow> (py_error + ((int list list \<times> real list \<times> real) \<times> 'r)) option) \<Rightarrow>
     nat \<Rightarrow> nat \<Rightarrow> start_mats \<Rightarrow> 'r \<Rightarrow> (py_error + (start_mats \<times> 'r)) option" where
  "startpoint_loop run N_startpoints startpoint mats r =
     (case run r of
        None \<Rightarrow> None
      | Some (Inl e) \<Rightarrow> Some (Inl e)
      | Some (Inr ((this_ml_sequence, this_ml_f, this_ml_likelihood), r')) \<Rightarrow>
          if startpoint \<ge> N_startpoints then Some (Inl IndexError)
          else
            (case mats of (ml_sequence_mat, ml_f_mat, ml_likelihood_mat) \<Rightarrow>
               let mats' = (ml_sequence_mat[startpoint := this_ml_sequence],
                            ml_f_mat[startpoint := this_ml_f],
                            ml_likelihood_mat[startpoint := this_ml_likelihood])
               in if startpoint = N_startpoints - 1 then Some (Inr (mats', r'))
                  else startpoint_loop run N_startpoints (startpoint + 1) mats' r'))"
  by pat_completeness auto
termination
  by (relation "measure (\<lambda>(run, N_startpoints, startpoint, mats, r). N_startpoints - startpoint)")
    auto

declare startpoint_loop.simps [simp del]

text \<open>
  \<^verbatim>\<open>np.where(xs == v)[0]\<close>, Python's \<^verbatim>\<open>max\<close> of a non-empty array of likelihoods, and
  \<^verbatim>\<open>np.argmax\<close>, the first index of the maximum.
\<close>

definition np_where_eq :: "real list \<Rightarrow> real \<Rightarrow> nat list" where
  "np_where_eq xs v = filter (\<lambda>i. xs ! i = v) [0..<length xs]"

definition py_max :: "real list \<Rightarrow> real" where
  "py_max xs = Max (set xs)"

definition np_argmax :: "real list \<Rightarrow> nat" where
  "np_argmax xs = hd (np_where_eq xs (py_max xs))"

text \<open>Lines 473--481: one startpoint of \<^verbatim>\<open>_find_ml\<close>.\<close>

definition find_ml_run ::
  "('d, 'r) sustain_methods \<Rightarrow> 'd \<Rightarrow> 'r \<Rightarrow>
     (py_error + ((int list list \<times> real list \<times> real) \<times> 'r)) option" where
  "find_ml_run ops sustainData r =
     (case initialise_sequence ops sustainData r of
        (seq_init, r1) \<Rightarrow>
          (case perform_em ops sustainData seq_init [1] r1 of
             Inl e \<Rightarrow> Some (Inl e)
           | Inr ((this_ml_sequence, this_ml_f, this_ml_likelihood, traces), r2) \<Rightarrow>
               Some (Inr ((this_ml_sequence, this_ml_f, this_ml_likelihood), r2))))"

definition find_ml ::
  "('d, 'r) sustain_methods \<Rightarrow> nat \<Rightarrow> 'd \<Rightarrow> 'r \<Rightarrow>
     (py_error + ((int list list \<times> real list \<times> real \<times> start_mats) \<times> 'r)) option" where
  "find_ml ops N_startpoints sustainData r =
     (case startpoint_loop (find_ml_run ops sustainData) N_startpoints 0
             (zero_mats 1 (getNumStages ops sustainData) N_startpoints) r of
        None \<Rightarrow> None
      | Some (Inl e) \<Rightarrow> Some (Inl e)
      | Some (Inr ((ml_sequence_mat, ml_f_mat, ml_likelihood_mat), r')) \<Rightarrow>
          let ix = np_argmax ml_likelihood_mat
          in Some (Inr ((ml_sequence_mat ! ix, ml_f_mat ! ix, ml_likelihood_mat ! ix,
                         (ml_sequence_mat, ml_f_mat, ml_likelihood_mat)), r')))"

text \<open>
  Lines 534--542: the two rows of \<^verbatim>\<open>seq_init\<close>, each the sequence of a one-subtype fit
  to the subjects of one cluster.
\<close>

fun mixture2_seq_init ::
  "('d, 'r) sustain_methods \<Rightarrow> 'd \<Rightarrow> int list \<Rightarrow> nat list \<Rightarrow> int list list \<Rightarrow> 'r \<Rightarrow>
     py_error + (int list list \<times> 'r)" where
  "mixture2_seq_init ops sustainData cluster_assignment [] seq_init r = Inr (seq_init, r)"
| "mixture2_seq_init ops sustainData cluster_assignment (s # ss) seq_init r =
     (let index_s = map (\<lambda>c. c = int (s + 1)) cluster_assignment;
          temp_sustainData = reindex ops sustainData index_s
      in case initialise_sequence ops sustainData r of
           (temp_seq_init, r1) \<Rightarrow>
             (case perform_em ops temp_sustainData temp_seq_init [1] r1 of
                Inl e \<Rightarrow> Inl e
              | Inr ((ml_sequence, rest), r2) \<Rightarrow>
                  mixture2_seq_init ops sustainData cluster_assignment ss
                    (seq_init[s := ml_sequence ! 0]) r2))"

text \<open>Lines 521--550: one startpoint of \<^verbatim>\<open>_find_ml_mixture2\<close>.\<close>

definition find_ml_mixture2_run ::
  "('d, 'r) sustain_methods \<Rightarrow> 'd \<Rightarrow> 'r \<Rightarrow>
     (py_error + ((int list list \<times> real list \<times> real) \<times> 'r)) option" where
  "find_ml_mixture2_run ops sustainData r =
     (case redraw_cluster_assignment (random_rand ops) (getNumSamples ops sustainData) r of
        None \<Rightarrow> None
      | Some (cluster_assignment, r1) \<Rightarrow>
          (case mixture2_seq_init ops sustainData cluster_assignment [0..<2]
                  (replicate 2 (replicate (getNumStages ops sustainData) 0)) r1 of
             Inl e \<Rightarrow> Some (Inl e)
           | Inr (seq_init, r2) \<Rightarrow>
               let f_init = map (\<lambda>x. x / 2) (replicate 2 1)
               in (case perform_em ops sustainData seq_init f_init r2 of
                     Inl e \<Rightarrow> Some (Inl e)
                   | Inr ((this_ml_sequence, this_ml_f, this_ml_likelihood, traces), r3) \<Rightarrow>
                       Some (Inr ((this_ml_sequence, this_ml_f, this_ml_likelihood), r3)))))"

text \<open>
  Lines 561--573. \<^verbatim>\<open>ix\<close> is the one-element list of the first index of the maximum,
  so the values returned keep the startpoint axis, with length one.
\<close>

definition find_ml_mixture2 ::
  "('d, 'r) sustain_methods \<Rightarrow> nat \<Rightarrow> 'd \<Rightarrow> 'r \<Rightarrow>
     (py_error + ((int list list list \<times> real list list \<times> real list \<times> start_mats) \<times> 'r)) option" where
  "find_ml_mixture2 ops N_startpoints sustainData r =
     (case startpoint_loop (find_ml_mixture2_run ops sustainData) N_startpoints 0
             (zero_mats 2 (getNumStages ops sustainData) N_startpoints) r of
        None \<Rightarrow> None
      | Some (Inl e) \<Rightarrow> Some (Inl e)
      | Some (Inr ((ml_sequence_mat, ml_f_mat, ml_likelihood_mat), r')) \<Rightarrow>
          let ix = [np_where_eq ml_likelihood_mat (py_max ml_likelihood_mat) ! 0]
          in Some (Inr ((map (\<lambda>i. ml_sequence_mat ! i) ix, map (\<lambda>i. ml_f_mat ! i) ix,
                         map (\<lambda>i. ml_likelihood_mat ! i) ix,
                         (ml_sequence_mat, ml_f_mat, ml_likelihood_mat)), r')))"

text \<open>Lines 625--627: one startpoint of \<^verbatim>\<open>_find_ml_mixture\<close>.\<close>

definition find_ml_mixture_run ::
  "('d, 'r) sustain_methods \<Rightarrow> 'd \<Rightarrow> int list list \<Rightarrow> real list \<Rightarrow> 'r \<Rightarrow>
     (py_error + ((int list list \<times> real list \<times> real) \<times> 'r)) option" where
  "find_ml_mixture_run ops sustainData seq_init f_init r =
     (case perform_em ops sustainData seq_init f_init r of
        Inl e \<Rightarrow> Some (Inl e)
      | Inr ((this_ml_sequence, this_ml_f, this_ml_likelihood, traces), r1) \<Rightarrow>
          Some (Inr ((this_ml_sequence, this_ml_f, this_ml_likelihood), r1)))"

text \<open>
  Lines 637--644. \<^verbatim>\<open>ix\<close> is the array of all the indices at which the maximum is
  attained, so the values returned have one entry for each of them.
\<close>

definition find_ml_mixture ::
  "('d, 'r) sustain_methods \<Rightarrow> nat \<Rightarrow> 'd \<Rightarrow> int list list \<Rightarrow> real list \<Rightarrow> 'r \<Rightarrow>
     (py_error + ((int list list list \<times> real list list \<times> real list \<times> start_mats) \<times> 'r)) option" where
  "find_ml_mixture ops N_startpoints sustainData seq_init f_init r =
     (case startpoint_loop (find_ml_mixture_run ops sustainData seq_init f_init) N_startpoints 0
             (zero_mats (length seq_init) (getNumStages ops sustainData) N_startpoints) r of
        None \<Rightarrow> None
      | Some (Inl e) \<Rightarrow> Some (Inl e)
      | Some (Inr ((ml_sequence_mat, ml_f_mat, ml_likelihood_mat), r')) \<Rightarrow>
          let ix = np_where_eq ml_likelihood_mat (py_max ml_likelihood_mat)
          in Some (Inr ((map (\<lambda>i. ml_sequence_mat ! i) ix, map (\<lambda>i. ml_f_mat ! i) ix,
                         map (\<lambda>i. ml_likelihood_mat ! i) ix,
                         (ml_sequence_mat, ml_f_mat, ml_likelihood_mat)), r')))"


section \<open>The hierarchical grower (lines 357--451)\<close>

text \<open>
  The last three values returned are the arrays of all the startpoints when there is one
  subtype (lines 375--380) and the entries of the first startpoint otherwise (lines
  443--445).
\<close>

datatype mats_out =
    AllStartpoints start_mats
  | FirstStartpoint "int list list" "real list" real

text \<open>
  Line 389, \<^verbatim>\<open>p_sequence.reshape(p_sequence.shape[0], N_S - 1)\<close> on the squeezed
  \<^verbatim>\<open>total_prob_cluster\<close>: a scalar has no \<^verbatim>\<open>shape[0]\<close>, and a reshape that changes the
  number of entries raises ValueError.
\<close>

definition reshape_p_sequence :: "squeezed \<Rightarrow> nat \<Rightarrow> py_error + real list list" where
  "reshape_p_sequence p K =
     (case p of
        Sq0 x \<Rightarrow> Inl IndexError
      | Sq1 v \<Rightarrow>
          if length v = length v * K then Inr (np_reshape2 (length v) K [v]) else Inl ValueError
      | Sq2 X \<Rightarrow>
          if length (concat X) = length X * K then Inr (np_reshape2 (length X) K X)
          else Inl ValueError)"

text \<open>
  Line 390: every row divided by its sum, the sums being tiled to the shape of the
  matrix. A row that sums to zero gives NaN in numpy; a row of NaN has its
  \<^verbatim>\<open>np.argmax\<close> at index \<open>0\<close>, and so has the row of zeros that HOL's \<open>x / 0 = 0\<close> gives for
  a row of zero likelihoods.
\<close>

definition p_sequence_norm :: "nat \<Rightarrow> real list list \<Rightarrow> real list list" where
  "p_sequence_norm K p_sequence =
     (let row_sums = map (\<lambda>s. [s]) (map sum_list p_sequence);
          tiled = map (\<lambda>row. concat (replicate K row)) row_sums
      in map2 (map2 (\<lambda>x y. x / y)) p_sequence tiled)"

text \<open>Lines 393--399: the cluster of every subject, numbered from one.\<close>

definition ml_cluster_subj :: "nat \<Rightarrow> real list list \<Rightarrow> int list" where
  "ml_cluster_subj M p_norm = map (\<lambda>m. int (np_argmax (p_norm ! m)) + 1) [0..<M]"

text \<open>Line 403: the number of subjects of cluster \<open>ix_cluster_split + 1\<close>.\<close>

definition this_N_cluster :: "int list \<Rightarrow> nat \<Rightarrow> nat" where
  "this_N_cluster cluster_subj ix_cluster_split =
     length (filter (\<lambda>c. c = int (ix_cluster_split + 1)) cluster_subj)"

text \<open>
  The best model found so far: \<open>None\<close> while \<^verbatim>\<open>ml_likelihood\<close> is \<open>-inf\<close> and the other
  five variables are unbound.
\<close>

type_synonym grower_best = "int list list \<times> real list \<times> real \<times> int list list \<times> real list \<times> real"

text \<open>
  Lines 407--446, the fit of one split candidate: the two-subtype fit on the cluster's
  subjects, its two rows spliced into the previous sequences, the fit of the whole
  mixture from there, and the comparison with the best so far, which is strict.
\<close>

definition split_candidate ::
  "('d, 'r) sustain_methods \<Rightarrow> nat \<Rightarrow> 'd \<Rightarrow> int list list \<Rightarrow> nat \<Rightarrow> int list \<Rightarrow>
     nat \<Rightarrow> grower_best option \<Rightarrow> 'r \<Rightarrow> (py_error + (grower_best option \<times> 'r)) option" where
  "split_candidate ops N_startpoints sustainData ml_sequence_prev N_S cluster_subj
       ix_cluster_split best r =
     (let ix_i = map (\<lambda>c. c = int (ix_cluster_split + 1)) cluster_subj;
          sustainData_i = reindex ops sustainData ix_i
      in case find_ml_mixture2 ops N_startpoints sustainData_i r of
           None \<Rightarrow> None
         | Some (Inl e) \<Rightarrow> Some (Inl e)
         | Some (Inr ((this_ml_sequence_split, rest2), r1)) \<Rightarrow>
             let this_seq_init = ml_sequence_prev[ix_cluster_split := this_ml_sequence_split ! 0 ! 0];
                 this_seq_init = this_seq_init @ [this_ml_sequence_split ! 0 ! 1];
                 this_f_init = map (\<lambda>x. x / real N_S) (replicate N_S 1)
             in (case find_ml_mixture ops N_startpoints sustainData this_seq_init this_f_init r1 of
                   None \<Rightarrow> None
                 | Some (Inl e) \<Rightarrow> Some (Inl e)
                 | Some (Inr ((this_ml_sequence, this_ml_f, this_ml_likelihood,
                               (this_ml_sequence_mat, this_ml_f_mat, this_ml_likelihood_mat)), r2)) \<Rightarrow>
                     if (case best of
                           None \<Rightarrow> True
                         | Some (ml_sequence, ml_f, ml_likelihood, mats) \<Rightarrow>
                             this_ml_likelihood ! 0 > ml_likelihood)
                     then Some (Inr (Some (this_ml_sequence ! 0, this_ml_f ! 0,
                                           this_ml_likelihood ! 0, this_ml_sequence_mat ! 0,
                                           this_ml_f_mat ! 0, this_ml_likelihood_mat ! 0), r2))
                     else Some (Inr (best, r2))))"

text \<open>
  Lines 402--448, the loop over the previous subtypes: \<open>N_cluster\<close> counts the subjects
  of a cluster and \<open>candidate\<close> is the fit of lines 407--446; the other branch only
  prints.
\<close>

fun split_loop ::
  "(nat \<Rightarrow> nat) \<Rightarrow> (nat \<Rightarrow> 'b option \<Rightarrow> 'r \<Rightarrow> (py_error + ('b option \<times> 'r)) option) \<Rightarrow>
     nat list \<Rightarrow> 'b option \<Rightarrow> 'r \<Rightarrow> (py_error + ('b option \<times> 'r)) option" where
  "split_loop N_cluster candidate [] best r = Some (Inr (best, r))"
| "split_loop N_cluster candidate (ix_cluster_split # rest) best r =
     (if N_cluster ix_cluster_split > 1
      then (case candidate ix_cluster_split best r of
              None \<Rightarrow> None
            | Some (Inl e) \<Rightarrow> Some (Inl e)
            | Some (Inr (best', r')) \<Rightarrow> split_loop N_cluster candidate rest best' r')
      else split_loop N_cluster candidate rest best r)"

text \<open>
  Line 451: the return statement, which reads \<^verbatim>\<open>ml_sequence\<close> first; the variable is
  unbound when no candidate was ever taken.
\<close>

definition grower_return ::
  "grower_best option \<times> 'r \<Rightarrow>
     (py_error + ((int list list \<times> real list \<times> real \<times> mats_out) \<times> 'r)) option" where
  "grower_return br =
     (case br of
        (None, r) \<Rightarrow> Some (Inl (UnboundLocalError ''ml_sequence''))
      | (Some (ml_sequence, ml_f, ml_likelihood, ml_sequence_mat, ml_f_mat, ml_likelihood_mat), r) \<Rightarrow>
          Some (Inr ((ml_sequence, ml_f, ml_likelihood,
                      FirstStartpoint ml_sequence_mat ml_f_mat ml_likelihood_mat), r)))"

definition estimate_ml_sustain_model_nplus1_clusters ::
  "('d, 'r) sustain_methods \<Rightarrow> nat \<Rightarrow> 'd \<Rightarrow> int list list \<Rightarrow> real list \<Rightarrow> 'r \<Rightarrow>
     (py_error + ((int list list \<times> real list \<times> real \<times> mats_out) \<times> 'r)) option" where
  "estimate_ml_sustain_model_nplus1_clusters ops N_startpoints sustainData ml_sequence_prev
       ml_f_prev r =
     (let N_S = length ml_sequence_prev + 1
      in if N_S = 1
         then (case find_ml ops N_startpoints sustainData r of
                 None \<Rightarrow> None
               | Some (Inl e) \<Rightarrow> Some (Inl e)
               | Some (Inr ((ml_sequence, ml_f, ml_likelihood, mats), r')) \<Rightarrow>
                   Some (Inr ((ml_sequence, ml_f, ml_likelihood, AllStartpoints mats), r')))
         else
           let p_sequence =
                 total_prob_cluster
                   (calculate_likelihood ops sustainData ml_sequence_prev ml_f_prev)
           in (case reshape_p_sequence p_sequence (N_S - 1) of
                 Inl e \<Rightarrow> Some (Inl e)
               | Inr p_sequence \<Rightarrow>
                   let p_norm = p_sequence_norm (N_S - 1) p_sequence;
                       cluster_subj = ml_cluster_subj (getNumSamples ops sustainData) p_norm
                   in (case split_loop (this_N_cluster cluster_subj)
                             (split_candidate ops N_startpoints sustainData ml_sequence_prev N_S
                                cluster_subj)
                             [0..<N_S - 1] None r of
                         None \<Rightarrow> None
                       | Some (Inl e) \<Rightarrow> Some (Inl e)
                       | Some (Inr br) \<Rightarrow> grower_return br)))"

text \<open>
  The fits of a list of candidates one after the other, with no test of the cluster's
  size: the loop to which the claim about the skipped clusters compares \<open>split_loop\<close>.
\<close>

fun evaluate_candidates ::
  "(nat \<Rightarrow> 'b option \<Rightarrow> 'r \<Rightarrow> (py_error + ('b option \<times> 'r)) option) \<Rightarrow>
     nat list \<Rightarrow> 'b option \<Rightarrow> 'r \<Rightarrow> (py_error + ('b option \<times> 'r)) option" where
  "evaluate_candidates candidate [] best r = Some (Inr (best, r))"
| "evaluate_candidates candidate (ix # rest) best r =
     (case candidate ix best r of
        None \<Rightarrow> None
      | Some (Inl e) \<Rightarrow> Some (Inl e)
      | Some (Inr (best', r')) \<Rightarrow> evaluate_candidates candidate rest best' r')"

text \<open>
  A model for the examples of the grower: \<open>M\<close> subjects and two stages; under the
  sequence \<open>[0, 1]\<close> all subjects but the last have likelihood \<open>1/3\<close> at every stage and
  the last has none, and under any other sequence it is the reverse.
\<close>

definition ex2_ops :: "nat \<Rightarrow> (unit, nat) sustain_methods" where
  "ex2_ops M =
     \<lparr> getNumSamples = (\<lambda>d. M),
       getNumStages = (\<lambda>d. 2),
       reindex = (\<lambda>d ix. d),
       initialise_sequence = (\<lambda>d r. ([[0, 1]], r + 1)),
       calculate_likelihood_stage =
         (\<lambda>d S. map (\<lambda>m. if (m < M - 1) = (S = [0, 1]) then [1 / 3, 1 / 3, 1 / 3] else [0, 0, 0])
                   [0..<M]),
       optimise_parameters = (\<lambda>d S f r. ((S, f, ex_L0), r + 1)),
       perform_mcmc =
         (\<lambda>d S f n seq_sigma f_sigma r.
            ((S, f, ex_L0, map (map (replicate n)) S, map (replicate n) f, replicate n ex_L0),
             r + 1)),
       random_rand = (\<lambda>n r. (replicate n (9 / 10), r + 1)) \<rparr>"

text \<open>
  A model for the examples of the chains and of the driver: two subjects and two stages,
  every subject with the likelihood \<open>1/6\<close> at every stage under every sequence; the
  optimiser returns the likelihood \<open>-1/2\<close>; the draws of a chain alternate between the
  start and its reverse for the sequences, and between the start and its half for the
  fractions.
\<close>

definition ex3_ops :: "(unit, nat) sustain_methods" where
  "ex3_ops =
     \<lparr> getNumSamples = (\<lambda>d. 2),
       getNumStages = (\<lambda>d. 2),
       reindex = (\<lambda>d ix. d),
       initialise_sequence = (\<lambda>d r. ([[0, 1]], r + 1)),
       calculate_likelihood_stage = (\<lambda>d S. [[1 / 6, 1 / 6, 1 / 6], [1 / 6, 1 / 6, 1 / 6]]),
       optimise_parameters = (\<lambda>d S f r. ((S, f, - (1 / 2)), r + 1)),
       perform_mcmc =
         (\<lambda>d S f n seq_sigma f_sigma r.
            ((S, f, - (1 / 2),
              map (\<lambda>seq. map (\<lambda>i. map (\<lambda>k. if even k then seq ! i else rev seq ! i) [0..<n])
                               [0..<length seq]) S,
              map (\<lambda>x. map (\<lambda>k. if even k then x else x / 2) [0..<n]) f,
              replicate n (- (1 / 2))),
             r + 1)),
       random_rand = (\<lambda>n r. (replicate n (9 / 10), r + 1)) \<rparr>"

section \<open>The assignment of the subjects (lines 325--354)\<close>

text \<open>
  The second loop of \<^verbatim>\<open>subtype_and_stage_individuals\<close>, over the averaged posteriors
  \<^verbatim>\<open>prob_subtype\<close> (subjects by subtypes) and \<^verbatim>\<open>prob_subtype_stage\<close> (subjects by stages
  by subtypes). An entry is \<open>None\<close> when it is NaN; the four output arrays are filled with
  NaN before the loop.
\<close>

definition has_nan :: "real option list \<Rightarrow> bool" where
  "has_nan xs = (None \<in> set xs)"

type_synonym assignments =
  "nat option list \<times> real option list \<times> nat option list \<times> real option list"

text \<open>
  Lines 331--346 for subject \<open>i\<close>. A posterior over a single subtype is squeezed to a
  scalar, which cannot be indexed: the fallback \<^verbatim>\<open>this_prob_subtype[this_subtype[0][0]]\<close>
  raises IndexError unless the value is exactly one. \<^verbatim>\<open>np.max\<close> of an empty array raises
  ValueError. Where several subtypes attain the maximum, the assignment of the index
  array raises inside \<^verbatim>\<open>try\<close> and the first index is stored.
\<close>

definition assign_subtype ::
  "nat \<Rightarrow> real option list list \<Rightarrow> assignments \<Rightarrow> py_error + assignments" where
  "assign_subtype i prob_subtype out =
     (case out of (ml_subtype, prob_ml_subtype, ml_stage, prob_ml_stage) \<Rightarrow>
        let this_prob_subtype = prob_subtype ! i
        in if \<not> has_nan this_prob_subtype
           then
             (let v = map the this_prob_subtype
              in if v = [] then Inl ValueError
                 else
                   let this_subtype = np_where_eq v (py_max v);
                       ml_subtype = ml_subtype[i := Some (this_subtype ! 0)]
                   in if length v = 1 \<and> v ! 0 = 1
                      then Inr (ml_subtype, prob_ml_subtype[i := Some 1], ml_stage, prob_ml_stage)
                      else if length v = 1 then Inl IndexError
                      else Inr (ml_subtype, prob_ml_subtype[i := Some (v ! (this_subtype ! 0))],
                                ml_stage, prob_ml_stage))
           else Inr out)"

text \<open>
  Lines 348--352. \<^verbatim>\<open>int(ml_subtype[i])\<close> is evaluated whether or not the subtype was
  assigned, and \<^verbatim>\<open>int\<close> of NaN raises ValueError. A posterior over a single stage is
  squeezed to a scalar, and \<^verbatim>\<open>this_prob_stage[this_stage[0][0]]\<close> raises IndexError.
\<close>

definition assign_stage ::
  "nat \<Rightarrow> real option list list list \<Rightarrow> assignments \<Rightarrow> py_error + assignments" where
  "assign_stage i prob_subtype_stage out =
     (case out of (ml_subtype, prob_ml_subtype, ml_stage, prob_ml_stage) \<Rightarrow>
        (case ml_subtype ! i of
           None \<Rightarrow> Inl ValueError
         | Some k \<Rightarrow>
             let this_prob_stage = map (\<lambda>row. row ! k) (prob_subtype_stage ! i)
             in if \<not> has_nan this_prob_stage
                then
                  (let w = map the this_prob_stage
                   in if w = [] then Inl ValueError
                      else
                        let this_stage = np_where_eq w (py_max w);
                            ml_stage = ml_stage[i := Some (this_stage ! 0)]
                        in if length w = 1 then Inl IndexError
                           else Inr (ml_subtype, prob_ml_subtype, ml_stage,
                                     prob_ml_stage[i := Some (w ! (this_stage ! 0))]))
                else Inr out))"

text \<open>Lines 330--352: the loop over the subjects.\<close>

fun assign_subjects ::
  "nat list \<Rightarrow> real option list list \<Rightarrow> real option list list list \<Rightarrow> assignments \<Rightarrow>
     py_error + assignments" where
  "assign_subjects [] prob_subtype prob_subtype_stage out = Inr out"
| "assign_subjects (i # rest) prob_subtype prob_subtype_stage out =
     (case assign_subtype i prob_subtype out of
        Inl e \<Rightarrow> Inl e
      | Inr out1 \<Rightarrow>
          (case assign_stage i prob_subtype_stage out1 of
             Inl e \<Rightarrow> Inl e
           | Inr out2 \<Rightarrow> assign_subjects rest prob_subtype prob_subtype_stage out2))"

text \<open>Lines 325--354.\<close>

definition ml_assignments ::
  "nat \<Rightarrow> real option list list \<Rightarrow> real option list list list \<Rightarrow> py_error + assignments" where
  "ml_assignments nSamples prob_subtype prob_subtype_stage =
     assign_subjects [0..<nSamples] prob_subtype prob_subtype_stage
       (replicate nSamples None, replicate nSamples None,
        replicate nSamples None, replicate nSamples None)"

section \<open>The tuning of the proposal scales (lines 733--803)\<close>

definition n_iterations_MCMC_optimisation :: nat where
  "n_iterations_MCMC_optimisation = 10000"

definition n_passes_optimisation :: nat where
  "n_passes_optimisation = 3"

text \<open>
  Lines 790--792 for one draw: \<^verbatim>\<open>temp_inv[temp_seq.astype(int)] = np.arange(N)\<close> stores
  \<open>j\<close> at index \<open>temp_seq[j]\<close>, for \<open>j\<close> in turn; a negative index counts from the end and
  an index outside the array raises IndexError.
\<close>

fun scatter_arange :: "int list \<Rightarrow> nat \<Rightarrow> nat list \<Rightarrow> py_error + nat list" where
  "scatter_arange [] j temp_inv = Inr temp_inv"
| "scatter_arange (x # xs) j temp_inv =
     (let N = int (length temp_inv)
      in if x < - N \<or> N \<le> x then Inl IndexError
         else scatter_arange xs (j + 1) (temp_inv[nat (if x < 0 then x + N else x) := j]))"

text \<open>\<^verbatim>\<open>samples_sequence_currentpass[s, :, sample]\<close>, for the plane of subtype \<open>s\<close>.\<close>

definition draw_column :: "int list list \<Rightarrow> nat \<Rightarrow> int list" where
  "draw_column plane sample = map (\<lambda>row. row ! sample) plane"

text \<open>
  Lines 789--793 for one subtype: the inverse of every draw of \<^verbatim>\<open>range(n)\<close>, in order.
  \<open>D\<close> is the number of draws the chain holds; reading a draw beyond it raises
  IndexError.
\<close>

fun position_samples ::
  "int list list \<Rightarrow> nat \<Rightarrow> nat \<Rightarrow> nat list \<Rightarrow> py_error + nat list list" where
  "position_samples plane N D [] = Inr []"
| "position_samples plane N D (sample # rest) =
     (if sample \<ge> D then Inl IndexError
      else (case scatter_arange (draw_column plane sample) 0 (replicate N 0) of
              Inl e \<Rightarrow> Inl e
            | Inr temp_inv \<Rightarrow>
                (case position_samples plane N D rest of
                   Inl e \<Rightarrow> Inl e
                 | Inr invs \<Rightarrow> Inr (temp_inv # invs))))"

text \<open>
  The plane of \<^verbatim>\<open>samples_position_currentpass\<close> for one subtype: the array starts as
  zeros of the shape of the samples, and the draws of \<^verbatim>\<open>range(n)\<close> are written.
\<close>

definition position_plane :: "nat \<Rightarrow> nat \<Rightarrow> nat list list \<Rightarrow> real list list" where
  "position_plane N D invs =
     map (\<lambda>j. map (\<lambda>sample. if sample < length invs then real (invs ! sample ! j) else 0) [0..<D])
       [0..<N]"

text \<open>Lines 787--793: the loop over the subtypes of \<^verbatim>\<open>range(N_S)\<close>.\<close>

fun position_planes ::
  "int list list list \<Rightarrow> nat \<Rightarrow> nat \<Rightarrow> nat \<Rightarrow> nat list \<Rightarrow> py_error + real list list list" where
  "position_planes ss N D n [] = Inr []"
| "position_planes ss N D n (s # rest) =
     (if s \<ge> length ss then Inl IndexError
      else (case position_samples (ss ! s) N D [0..<n] of
              Inl e \<Rightarrow> Inl e
            | Inr invs \<Rightarrow>
                (case position_planes ss N D n rest of
                   Inl e \<Rightarrow> Inl e
                 | Inr planes \<Rightarrow> Inr (position_plane N D invs # planes))))"

definition samples_position ::
  "nat \<Rightarrow> nat \<Rightarrow> int list list list \<Rightarrow> py_error + real list list list" where
  "samples_position N_S n ss =
     (let N = (case ss of [] \<Rightarrow> 0 | plane # _ \<Rightarrow> length plane);
          D = (case ss of [] \<Rightarrow> 0 | plane # _ \<Rightarrow> shape1 plane)
      in case position_planes ss N D n [0..<N_S] of
           Inl e \<Rightarrow> Inl e
         | Inr planes \<Rightarrow> Inr (planes @ replicate (length ss - N_S) (replicate N (replicate D 0))))"

text \<open>
  \<^verbatim>\<open>np.std(xs, ddof=1)\<close> along the axis of the draws: the root of the sum of the squared
  deviations from the mean over \<open>n - 1\<close>. For a single draw numpy gives NaN where HOL's
  division gives \<open>0\<close>; the chains here have \<open>10000\<close> draws.
\<close>

definition np_std_ddof1 :: "real list \<Rightarrow> real" where
  "np_std_ddof1 xs =
     (let n = real (length xs);
          mean = sum_list xs / n
      in sqrt (sum_list (map (\<lambda>x. (x - mean)\<^sup>2) xs) / (n - 1)))"

text \<open>Line 796: \<^verbatim>\<open>seq_sigma[seq_sigma < 0.01] = 0.01\<close>.\<close>

definition floor_sigma :: "real \<Rightarrow> real" where
  "floor_sigma x = (if x < 1 / 100 then 1 / 100 else x)"

text \<open>
  Lines 780--798, one pass: the chain at the current scales, and the scales estimated
  from its draws.
\<close>

definition tuning_pass ::
  "('d, 'r) sustain_methods \<Rightarrow> 'd \<Rightarrow> int list list \<Rightarrow> real list \<Rightarrow>
     (real + real list list) \<times> (real + real list) \<times> 'r \<Rightarrow>
     py_error + ((real + real list list) \<times> (real + real list) \<times> 'r)" where
  "tuning_pass ops sustainData seq_init f_init st =
     (case st of (seq_sigma_currentpass, f_sigma_currentpass, r) \<Rightarrow>
        (case perform_mcmc ops sustainData seq_init f_init n_iterations_MCMC_optimisation
                seq_sigma_currentpass f_sigma_currentpass r of
           ((ml_sequence, ml_f, ml_likelihood, samples_sequence_currentpass,
             samples_f_currentpass, samples_likelihood_currentpass), r') \<Rightarrow>
             (case samples_position (length seq_init) n_iterations_MCMC_optimisation
                     samples_sequence_currentpass of
                Inl e \<Rightarrow> Inl e
              | Inr samples_position_currentpass \<Rightarrow>
                  Inr (Inr (map (map (\<lambda>draws. floor_sigma (np_std_ddof1 draws)))
                              samples_position_currentpass),
                       Inr (map np_std_ddof1 samples_f_currentpass),
                       r'))))"

text \<open>Line 778: \<^verbatim>\<open>for i in range(n_passes_optimisation)\<close>.\<close>

fun tuning_passes ::
  "('d, 'r) sustain_methods \<Rightarrow> 'd \<Rightarrow> int list list \<Rightarrow> real list \<Rightarrow> nat list \<Rightarrow>
     (real + real list list) \<times> (real + real list) \<times> 'r \<Rightarrow>
     py_error + ((real + real list list) \<times> (real + real list) \<times> 'r)" where
  "tuning_passes ops sustainData seq_init f_init [] st = Inr st"
| "tuning_passes ops sustainData seq_init f_init (i # rest) st =
     (case tuning_pass ops sustainData seq_init f_init st of
        Inl e \<Rightarrow> Inl e
      | Inr st' \<Rightarrow> tuning_passes ops sustainData seq_init f_init rest st')"

definition optimise_mcmc_settings ::
  "('d, 'r) sustain_methods \<Rightarrow> 'd \<Rightarrow> int list list \<Rightarrow> real list \<Rightarrow> 'r \<Rightarrow>
     py_error + ((real + real list list) \<times> (real + real list) \<times> 'r)" where
  "optimise_mcmc_settings ops sustainData seq_init f_init r =
     tuning_passes ops sustainData seq_init f_init [0..<n_passes_optimisation]
       (Inl 1, Inl (1 / 100), r)"

text \<open>Lines 753--764: the production chain at the tuned scales.\<close>

definition estimate_uncertainty_sustain_model ::
  "('d, 'r) sustain_methods \<Rightarrow> nat \<Rightarrow> 'd \<Rightarrow> int list list \<Rightarrow> real list \<Rightarrow> 'r \<Rightarrow>
     py_error +
       ((int list list \<times> real list \<times> real \<times> int list list list \<times> real list list \<times> real list) \<times> 'r)" where
  "estimate_uncertainty_sustain_model ops N_iterations_MCMC sustainData seq_init f_init r =
     (case optimise_mcmc_settings ops sustainData seq_init f_init r of
        Inl e \<Rightarrow> Inl e
      | Inr (seq_sigma_opt, f_sigma_opt, r') \<Rightarrow>
          Inr (perform_mcmc ops sustainData seq_init f_init N_iterations_MCMC
                 seq_sigma_opt f_sigma_opt r'))"

text \<open>
  For stating the claim: the position of a stage in a sequence, the sequences that are
  permutations of the stages, the shape and content \<^verbatim>\<open>_perform_mcmc\<close> is to return for
  \<open>n\<close> iterations, and the scales as the specification describes them. The array of the
  drawn sequences is indexed by the subtype, the position and the draw: the sequence of
  subtype \<open>s\<close> at draw \<open>k\<close> has the stage \<open>ss ! s ! i ! k\<close> at position \<open>i\<close>.
\<close>

fun position_of :: "int list \<Rightarrow> int \<Rightarrow> nat" where
  "position_of [] j = 0"
| "position_of (x # xs) j = (if x = j then 0 else Suc (position_of xs j))"

definition is_stage_permutation :: "int list \<Rightarrow> nat \<Rightarrow> bool" where
  "is_stage_permutation seq N = (length seq = N \<and> distinct seq \<and> set seq = int ` {..<N})"

definition chain_of_permutations :: "nat \<Rightarrow> nat \<Rightarrow> nat \<Rightarrow> int list list list \<Rightarrow> bool" where
  "chain_of_permutations N_S N n ss =
     (0 < N \<and> length ss = N_S \<and>
      (\<forall>s<N_S. length (ss ! s) = N \<and> (\<forall>j<N. length (ss ! s ! j) = n) \<and>
                (\<forall>k<n. is_stage_permutation (map (\<lambda>i. ss ! s ! i ! k) [0..<N]) N)))"

definition tuned_seq_sigma :: "nat \<Rightarrow> nat \<Rightarrow> nat \<Rightarrow> int list list list \<Rightarrow> real list list" where
  "tuned_seq_sigma N_S N n ss =
     map (\<lambda>s. map (\<lambda>j. floor_sigma
                         (np_std_ddof1
                            (map (\<lambda>k. real (position_of (map (\<lambda>i. ss ! s ! i ! k) [0..<N]) (int j)))
                               [0..<n])))
                [0..<N])
       [0..<N_S]"

definition tuned_f_sigma :: "real list list \<Rightarrow> real list" where
  "tuned_f_sigma sf = map np_std_ddof1 sf"

definition mcmc_samples_sequence ::
  "(int list list \<times> real list \<times> real \<times> int list list list \<times> real list list \<times> real list) \<times> 'r \<Rightarrow>
     int list list list" where
  "mcmc_samples_sequence res = fst (snd (snd (snd (fst res))))"

definition mcmc_samples_f ::
  "(int list list \<times> real list \<times> real \<times> int list list list \<times> real list list \<times> real list) \<times> 'r \<Rightarrow>
     real list list" where
  "mcmc_samples_f res = fst (snd (snd (snd (snd (fst res)))))"

section \<open>The posteriors of the subjects (lines 289--323)\<close>

text \<open>\<^verbatim>\<open>X.shape[2]\<close> of a three-dimensional array.\<close>

definition shape2 :: "'a list list list \<Rightarrow> nat" where
  "shape2 X = (case X of [] \<Rightarrow> 0 | plane # _ \<Rightarrow> shape1 plane)"

text \<open>
  Line 295: \<^verbatim>\<open>np.round(np.linspace(0, n_iterations_MCMC - 1, N_samples))\<close>, as integers.
  NumPy computes in doubles: the end point \<open>stop\<close> and the step \<open>stop / (N_samples - 1)\<close>
  are rounded, the entry \<open>i\<close> is the rounded product \<open>i * step\<close>, or \<open>(i / (N_samples - 1)) *
  stop\<close> when the step is zero, and the last entry is \<open>stop\<close> itself; \<^verbatim>\<open>np.round\<close> rounds a
  half to the even integer. A single entry is \<open>0\<close>. An integer or a product beyond the
  largest double raises OverflowError.
\<close>

definition select_samples :: "nat \<Rightarrow> nat \<Rightarrow> py_error + int list" where
  "select_samples n_iterations_MCMC N_samples =
     (case round_double (of_int (int n_iterations_MCMC - 1)) of
        None \<Rightarrow> Inl OverflowError
      | Some stop \<Rightarrow>
          if N_samples = 0 then Inr []
          else if N_samples = 1 then Inr [0]
          else
            (case round_double (stop / real (N_samples - 1)) of
               None \<Rightarrow> Inl OverflowError
             | Some step \<Rightarrow>
                 (case those
                         (map (\<lambda>i. if i = N_samples - 1 then Some stop
                                    else if step = 0
                                    then (case round_double (real i / real (N_samples - 1)) of
                                            None \<Rightarrow> None
                                          | Some y \<Rightarrow> round_double (y * stop))
                                    else round_double (real i * step))
                            [0..<N_samples]) of
                    None \<Rightarrow> Inl OverflowError
                  | Some ys \<Rightarrow> Inr (map round_half_even ys))))"

text \<open>
  \<^verbatim>\<open>np.mean\<close> of a row, and \<^verbatim>\<open>np.argsort\<close>: the indices in the order of increasing
  values, equal values being left in the order of their indices (NumPy leaves the
  order of equal values to its sorting routine).
\<close>

definition np_mean :: "real list \<Rightarrow> real" where
  "np_mean xs = sum_list xs / real (length xs)"

definition np_argsort :: "real list \<Rightarrow> nat list" where
  "np_argsort xs = sort_key (\<lambda>i. xs ! i) [0..<length xs]"

text \<open>
  An index into an axis of length \<open>n\<close>: a negative index counts from the end, and an
  index outside the axis raises IndexError (\<open>None\<close>).
\<close>

definition py_index :: "nat \<Rightarrow> int \<Rightarrow> nat option" where
  "py_index n j =
     (if - int n \<le> j \<and> j < int n then Some (nat (if j < 0 then j + int n else j)) else None)"

text \<open>
  The division of an entry by the sum of its row or plane. The likelihoods and the
  fractions are probabilities, so a sum that vanishes has vanishing terms, and the
  quotient is \<open>0 / 0\<close>, NaN (\<open>None\<close>).
\<close>

definition np_true_divide :: "real \<Rightarrow> real \<Rightarrow> real option" where
  "np_true_divide x y = (if y = 0 then None else Some (x / y))"

text \<open>
  Line 316, \<^verbatim>\<open>total_prob_subtype.reshape(len(total_prob_subtype), N_S)\<close> on the squeezed
  \<^verbatim>\<open>total_prob_cluster\<close>: \<^verbatim>\<open>len\<close> of a scalar raises TypeError, and a reshape that changes
  the number of entries raises ValueError.
\<close>

definition reshape_total_prob_subtype :: "squeezed \<Rightarrow> nat \<Rightarrow> py_error + real list list" where
  "reshape_total_prob_subtype p N_S =
     (case p of
        Sq0 x \<Rightarrow> Inl TypeError
      | Sq1 v \<Rightarrow>
          if length v = length v * N_S then Inr (np_reshape2 (length v) N_S [v]) else Inl ValueError
      | Sq2 X \<Rightarrow>
          if length (concat X) = length X * N_S then Inr (np_reshape2 (length X) N_S X)
          else Inl ValueError)"

text \<open>
  Lines 305--319 for the draw \<open>sample\<close>: the sequences and fractions of the draw, in the
  order \<open>ix\<close> of the subtypes, their likelihood, and the posteriors of the subtypes and of
  the stages within the subtypes, each normalised over the subject.
  \<^verbatim>\<open>total_prob_stage_norm\<close> of line 318 is not modelled: it goes into \<^verbatim>\<open>prob_stage\<close>
  only, which is never read, and its computation does not raise.
\<close>

definition posterior_draw ::
  "('d, 'r) sustain_methods \<Rightarrow> 'd \<Rightarrow> int list list list \<Rightarrow> real list list \<Rightarrow> nat list \<Rightarrow> int \<Rightarrow>
     py_error + (real option list list \<times> real option list list list)" where
  "posterior_draw ops sustainData samples_sequence samples_f ix sample =
     (case py_index (shape2 samples_sequence) sample of
        None \<Rightarrow> Inl IndexError
      | Some k \<Rightarrow>
          let N_S = length samples_sequence;
              this_S = map (\<lambda>s. draw_column (samples_sequence ! s) k) ix;
              this_f = map (\<lambda>s. samples_f ! s ! k) ix;
              res = calculate_likelihood ops sustainData this_S this_f
          in case reshape_total_prob_subtype (total_prob_cluster res) N_S of
               Inl e \<Rightarrow> Inl e
             | Inr total_prob_subtype \<Rightarrow>
                 Inr (map (\<lambda>row. map (\<lambda>x. np_true_divide x (sum_list row)) row)
                        total_prob_subtype,
                      map (\<lambda>plane.
                             map (map (\<lambda>x. np_true_divide x (sum_list (map sum_list plane)))) plane)
                        (p_perm_k res)))"

text \<open>
  Lines 321--322: \<^verbatim>\<open>i / (i + 1.) * prob + 1. / (i + 1.) * norm\<close>, entry by entry; NaN
  stays NaN.
\<close>

definition average_step :: "nat \<Rightarrow> real option \<Rightarrow> real option \<Rightarrow> real option" where
  "average_step i p q =
     (case (p, q) of
        (Some a, Some b) \<Rightarrow> Some (real i / (real i + 1) * a + 1 / (real i + 1) * b)
      | _ \<Rightarrow> None)"

text \<open>
  Lines 304--323, the loop over the thinned draws: \<open>draw\<close> is the computation of one
  draw, and the list pairs the index \<open>i\<close> with \<^verbatim>\<open>select_samples[i]\<close>.
\<close>

fun posterior_loop ::
  "(int \<Rightarrow> py_error + (real option list list \<times> real option list list list)) \<Rightarrow>
     (nat \<times> int) list \<Rightarrow> real option list list \<times> real option list list list \<Rightarrow>
     py_error + (real option list list \<times> real option list list list)" where
  "posterior_loop draw [] acc = Inr acc"
| "posterior_loop draw ((i, sample) # rest) acc =
     (case draw sample of
        Inl e \<Rightarrow> Inl e
      | Inr (total_prob_subtype_norm, total_prob_subtype_stage_norm) \<Rightarrow>
          posterior_loop draw rest
            (map2 (map2 (average_step i)) (fst acc) total_prob_subtype_norm,
             map2 (map2 (map2 (average_step i))) (snd acc) total_prob_subtype_stage_norm))"

text \<open>
  \<^verbatim>\<open>subtype_and_stage_individuals\<close>: the posteriors averaged over \<open>N_samples\<close> thinned
  draws, the subtypes in the order of decreasing mean fraction, and the assignment of
  the subjects from them.
\<close>

definition subtype_and_stage_individuals ::
  "('d, 'r) sustain_methods \<Rightarrow> 'd \<Rightarrow> int list list list \<Rightarrow> real list list \<Rightarrow> nat \<Rightarrow>
     py_error + assignments" where
  "subtype_and_stage_individuals ops sustainData samples_sequence samples_f N_samples =
     (let nSamples = getNumSamples ops sustainData;
          nStages = getNumStages ops sustainData;
          n_iterations_MCMC = shape2 samples_sequence
      in case select_samples n_iterations_MCMC N_samples of
           Inl e \<Rightarrow> Inl e
         | Inr select \<Rightarrow>
             let N_S = length samples_sequence;
                 temp_mean_f = map np_mean samples_f;
                 ix = rev (np_argsort temp_mean_f);
                 prob_subtype_stage =
                   replicate nSamples (replicate (nStages + 1) (replicate N_S (Some 0)));
                 prob_subtype = replicate nSamples (replicate N_S (Some 0))
             in case posterior_loop (posterior_draw ops sustainData samples_sequence samples_f ix)
                       (zip [0..<N_samples] select) (prob_subtype, prob_subtype_stage) of
                  Inl e \<Rightarrow> Inl e
                | Inr (prob_subtype, prob_subtype_stage) \<Rightarrow>
                    ml_assignments nSamples prob_subtype prob_subtype_stage)"

section \<open>The driver (lines 67--166)\<close>

text \<open>
  The attributes of the object that the driver reads, and the pickled dictionary of one
  subtype count, with an optional entry for each of its eleven keys: \<open>None\<close> is a key
  the dictionary lacks. The file system maps the names of the pickle files to their
  dictionaries. The directory of the output and the image files are not modelled; the
  list \<open>run_plots\<close> records the subtype counts plotted, in order.
\<close>

record sustain_config =
  cfg_N_startpoints :: nat
  cfg_N_S_max :: nat
  cfg_N_iterations_MCMC :: nat
  cfg_output_folder :: string
  cfg_dataset_name :: string

record run_pickle =
  pk_samples_sequence :: "int list list list option"
  pk_samples_f :: "real list list option"
  pk_samples_likelihood :: "real list option"
  pk_ml_subtype :: "nat option list option"
  pk_prob_ml_subtype :: "real option list option"
  pk_ml_stage :: "nat option list option"
  pk_prob_ml_stage :: "real option list option"
  pk_ml_sequence_EM :: "int list list option"
  pk_ml_sequence_prev_EM :: "int list list option"
  pk_ml_f_EM :: "real list option"
  pk_ml_f_prev_EM :: "real list option"

definition pickle_filename_s :: "sustain_config \<Rightarrow> nat \<Rightarrow> string" where
  "pickle_filename_s cfg s =
     cfg_output_folder cfg @ ''/'' @ cfg_dataset_name cfg @ ''_subtype'' @ str_nat s @ ''.pickle''"

text \<open>\<^verbatim>\<open>loaded_variables[key]\<close>.\<close>

definition pickle_get :: "'a option \<Rightarrow> string \<Rightarrow> py_error + 'a" where
  "pickle_get entry key = (case entry of None \<Rightarrow> Inl (KeyError key) | Some v \<Rightarrow> Inr v)"

text \<open>
  The variables of the function that an iteration of the loop binds, and the state the
  loop carries: \<open>run_vars\<close> is \<open>None\<close> before the first iteration, when the variables
  are unbound.
\<close>

record subtype_vars =
  sv_samples_sequence :: "int list list list"
  sv_samples_f :: "real list list"
  sv_samples_likelihood :: "real list"
  sv_ml_sequence_EM :: "int list list"
  sv_ml_f_EM :: "real list"
  sv_ml_subtype :: "nat option list"
  sv_prob_ml_subtype :: "real option list"
  sv_ml_stage :: "nat option list"
  sv_prob_ml_stage :: "real option list"

record 'r run_state =
  run_files :: "string \<rightharpoonup> run_pickle"
  run_ml_sequence_prev_EM :: "int list list"
  run_ml_f_prev_EM :: "real list"
  run_vars :: "subtype_vars option"
  run_plots :: "nat list"
  run_rng :: 'r

text \<open>
  Lines 78--119: the seven variables an iteration obtains, from the pickle file when it
  exists and from the fit otherwise, with the previous model as the next iteration is
  to see it and the generator's state.
\<close>

definition load_or_fit ::
  "('d, 'r) sustain_methods \<Rightarrow> sustain_config \<Rightarrow> 'd \<Rightarrow> nat \<Rightarrow> 'r run_state \<Rightarrow>
     (py_error +
        ((int list list list \<times> real list list \<times> real list \<times> int list list \<times> real list) \<times>
         int list list \<times> real list \<times> 'r)) option" where
  "load_or_fit ops cfg sustainData s st =
     (case run_files st (pickle_filename_s cfg s) of
        Some loaded_variables \<Rightarrow>
          Some
            (bind_err (pickle_get (pk_samples_likelihood loaded_variables) ''samples_likelihood'')
               (\<lambda>samples_likelihood.
             bind_err (pickle_get (pk_samples_sequence loaded_variables) ''samples_sequence'')
               (\<lambda>samples_sequence.
             bind_err (pickle_get (pk_samples_f loaded_variables) ''samples_f'')
               (\<lambda>samples_f.
             bind_err (pickle_get (pk_ml_sequence_EM loaded_variables) ''ml_sequence_EM'')
               (\<lambda>ml_sequence_EM.
             bind_err (pickle_get (pk_ml_sequence_prev_EM loaded_variables) ''ml_sequence_prev_EM'')
               (\<lambda>ml_sequence_prev_EM.
             bind_err (pickle_get (pk_ml_f_EM loaded_variables) ''ml_f_EM'')
               (\<lambda>ml_f_EM.
             bind_err (pickle_get (pk_ml_f_prev_EM loaded_variables) ''ml_f_prev_EM'')
               (\<lambda>ml_f_prev_EM.
               Inr ((samples_sequence, samples_f, samples_likelihood, ml_sequence_EM, ml_f_EM),
                    ml_sequence_prev_EM, ml_f_prev_EM, run_rng st)))))))))
      | None \<Rightarrow>
          (case estimate_ml_sustain_model_nplus1_clusters ops (cfg_N_startpoints cfg) sustainData
                  (run_ml_sequence_prev_EM st) (run_ml_f_prev_EM st) (run_rng st) of
             None \<Rightarrow> None
           | Some (Inl e) \<Rightarrow> Some (Inl e)
           | Some (Inr ((ml_sequence_EM, ml_f_EM, ml_likelihood_EM, mats), r1)) \<Rightarrow>
               (case estimate_uncertainty_sustain_model ops (cfg_N_iterations_MCMC cfg) sustainData
                       ml_sequence_EM ml_f_EM r1 of
                  Inl e \<Rightarrow> Some (Inl e)
                | Inr ((ml_sequence, ml_f, ml_likelihood, samples_sequence, samples_f,
                        samples_likelihood), r2) \<Rightarrow>
                    Some (Inr ((samples_sequence, samples_f, samples_likelihood,
                                ml_sequence_EM, ml_f_EM),
                               ml_sequence_EM, ml_f_EM, r2)))))"

text \<open>
  Lines 76--158, the body of the loop for the subtype count \<open>s\<close>: the variables are
  obtained, the subjects are assigned from \<open>1000\<close> thinned draws, the pickle file is
  written when it did not exist, and the model is plotted.
\<close>

definition run_subtype ::
  "('d, 'r) sustain_methods \<Rightarrow> sustain_config \<Rightarrow>
     'd \<Rightarrow> nat \<Rightarrow> 'r run_state \<Rightarrow> (py_error + 'r run_state) option" where
  "run_subtype ops cfg sustainData s st =
     (case load_or_fit ops cfg sustainData s st of
        None \<Rightarrow> None
      | Some (Inl e) \<Rightarrow> Some (Inl e)
      | Some (Inr ((samples_sequence, samples_f, samples_likelihood, ml_sequence_EM, ml_f_EM),
                   ml_sequence_prev_EM, ml_f_prev_EM, r)) \<Rightarrow>
          (case subtype_and_stage_individuals ops sustainData samples_sequence
                  samples_f 1000 of
             Inl e \<Rightarrow> Some (Inl e)
           | Inr (ml_subtype, prob_ml_subtype, ml_stage, prob_ml_stage) \<Rightarrow>
               let files =
                     (case run_files st (pickle_filename_s cfg s) of
                        Some loaded_variables \<Rightarrow> run_files st
                      | None \<Rightarrow>
                          (run_files st)(pickle_filename_s cfg s \<mapsto>
                            \<lparr> pk_samples_sequence = Some samples_sequence,
                              pk_samples_f = Some samples_f,
                              pk_samples_likelihood = Some samples_likelihood,
                              pk_ml_subtype = Some ml_subtype,
                              pk_prob_ml_subtype = Some prob_ml_subtype,
                              pk_ml_stage = Some ml_stage,
                              pk_prob_ml_stage = Some prob_ml_stage,
                              pk_ml_sequence_EM = Some ml_sequence_EM,
                              pk_ml_sequence_prev_EM = Some ml_sequence_prev_EM,
                              pk_ml_f_EM = Some ml_f_EM,
                              pk_ml_f_prev_EM = Some ml_f_prev_EM \<rparr>))
               in Some (Inr \<lparr> run_files = files,
                               run_ml_sequence_prev_EM = ml_sequence_prev_EM,
                               run_ml_f_prev_EM = ml_f_prev_EM,
                               run_vars =
                                 Some \<lparr> sv_samples_sequence = samples_sequence,
                                        sv_samples_f = samples_f,
                                        sv_samples_likelihood = samples_likelihood,
                                        sv_ml_sequence_EM = ml_sequence_EM,
                                        sv_ml_f_EM = ml_f_EM,
                                        sv_ml_subtype = ml_subtype,
                                        sv_prob_ml_subtype = prob_ml_subtype,
                                        sv_ml_stage = ml_stage,
                                        sv_prob_ml_stage = prob_ml_stage \<rparr>,
                               run_plots = run_plots st @ [s],
                               run_rng = r \<rparr>)))"

text \<open>Line 74: \<^verbatim>\<open>for s in range(self.N_S_max)\<close>.\<close>

fun run_subtypes ::
  "('d, 'r) sustain_methods \<Rightarrow> sustain_config \<Rightarrow>
     'd \<Rightarrow> nat list \<Rightarrow> 'r run_state \<Rightarrow> (py_error + 'r run_state) option" where
  "run_subtypes ops cfg sustainData [] st = Some (Inr st)"
| "run_subtypes ops cfg sustainData (s # rest) st =
     (case run_subtype ops cfg sustainData s st of
        None \<Rightarrow> None
      | Some (Inl e) \<Rightarrow> Some (Inl e)
      | Some (Inr st') \<Rightarrow> run_subtypes ops cfg sustainData rest st')"

text \<open>
  Line 166: the six values returned; \<^verbatim>\<open>samples_sequence\<close> is read first and is unbound
  when the loop made no iteration.
\<close>

definition run_return ::
  "'r run_state \<Rightarrow>
     py_error +
       (int list list list \<times> real list list \<times> nat option list \<times> real option list \<times>
        nat option list \<times> real option list)" where
  "run_return st =
     (case run_vars st of
        None \<Rightarrow> Inl (UnboundLocalError ''samples_sequence'')
      | Some v \<Rightarrow>
          Inr (sv_samples_sequence v, sv_samples_f v, sv_ml_subtype v, sv_prob_ml_subtype v,
               sv_ml_stage v, sv_prob_ml_stage v))"

text \<open>
  \<^verbatim>\<open>run_sustain_algorithm\<close> on the files \<open>files\<close>: the values returned, and the state the
  loop leaves.
\<close>

definition run_sustain_algorithm ::
  "('d, 'r) sustain_methods \<Rightarrow> sustain_config \<Rightarrow>
     'd \<Rightarrow> (string \<rightharpoonup> run_pickle) \<Rightarrow> 'r \<Rightarrow>
     (py_error +
        ((int list list list \<times> real list list \<times> nat option list \<times> real option list \<times>
          nat option list \<times> real option list) \<times> 'r run_state)) option" where
  "run_sustain_algorithm ops cfg sustainData files r =
     (case run_subtypes ops cfg sustainData [0..<cfg_N_S_max cfg]
             \<lparr> run_files = files, run_ml_sequence_prev_EM = [], run_ml_f_prev_EM = [],
               run_vars = None, run_plots = [], run_rng = r \<rparr> of
        None \<Rightarrow> None
      | Some (Inl e) \<Rightarrow> Some (Inl e)
      | Some (Inr st) \<Rightarrow>
          (case run_return st of
             Inl e \<Rightarrow> Some (Inl e)
           | Inr out \<Rightarrow> Some (Inr (out, st))))"

section \<open>Theorems\<close>



text \<open>
  Claim C8, at the failing input. A checkpoint written by the save path holds only the
  four sample entries, so the load path's first read, of \<^verbatim>\<open>ml_sequence_EM\<close>, raises
  KeyError: a first visit of a (fold, subtype-count) step with no file returns and
  writes the file, and the second visit, which finds the file, raises.
\<close>

theorem C8_checkpoint_reload_raises:
  "cv_load_variables (cv_save_variables v) = Inl (KeyError ''ml_sequence_EM'') \<and>
   cv_fold_subtype Map.empty name v = Inr (v, [name \<mapsto> cv_save_variables v]) \<and>
   cv_fold_subtype [name \<mapsto> cv_save_variables v] name v' = Inl (KeyError ''ml_sequence_EM'')"
proof -
  have load: "cv_load_variables (cv_save_variables v) = Inl (KeyError ''ml_sequence_EM'')"
    by (simp add: cv_load_variables_def cv_save_variables_def py_getitem_def bind_err_def)
  show ?thesis
    by (simp add: cv_fold_subtype_def load bind_err_def)
qed



subsection \<open>The EM optimiser\<close>

lemma em_step_current:
  assumes "optimise_parameters ops d (current_sequence st) (current_f st) (em_rng st) = ((S', f', ll'), r')"
    and "iteration st < MaxIter"
  shows "\<exists>st'. em_step ops d st = Inr st' \<and>
    iteration st' = Suc (iteration st) \<and>
    (current_sequence st', current_f st', current_likelihood st') =
      (if \<not> HAS_converged ll' (current_likelihood st) \<and> ll' > current_likelihood st then (S', f', ll')
       else (current_sequence st, current_f st, current_likelihood st)) \<and>
    (terminate st' = 0 \<longleftrightarrow> terminate st = 0 \<and> \<not> HAS_converged ll' (current_likelihood st) \<and> iteration st \<noteq> MaxIter - 1) \<and>
    em_samples_likelihood st' = (em_samples_likelihood st)[iteration st := Some (current_likelihood st')]"
  using assms by (simp add: em_step_def Let_def)

lemma em_step_Inr_iff:
  "em_step ops d st = Inr st' \<Longrightarrow> iteration st < MaxIter"
  by (auto simp: em_step_def Let_def split: prod.splits if_splits)

lemma em_step_inv:
  assumes inv: "em_inv st" and t: "terminate st = 0"
  shows "\<exists>st'. em_step ops d st = Inr st' \<and> em_inv st' \<and> iteration st' = Suc (iteration st)"
proof -
  obtain S' f' ll' r' where opt:
    "optimise_parameters ops d (current_sequence st) (current_f st) (em_rng st) = ((S', f', ll'), r')"
    by (metis prod_cases3 surj_pair)
  from inv t have lt: "iteration st < MaxIter"
    by (simp add: em_inv_def)
  from em_step_current [OF opt lt] obtain st' where all:
    "em_step ops d st = Inr st' \<and>
     iteration st' = Suc (iteration st) \<and>
     (current_sequence st', current_f st', current_likelihood st') =
      (if \<not> HAS_converged ll' (current_likelihood st) \<and> ll' > current_likelihood st then (S', f', ll')
       else (current_sequence st, current_f st, current_likelihood st)) \<and>
     (terminate st' = 0 \<longleftrightarrow> terminate st = 0 \<and> \<not> HAS_converged ll' (current_likelihood st) \<and> iteration st \<noteq> MaxIter - 1) \<and>
     em_samples_likelihood st' = (em_samples_likelihood st)[iteration st := Some (current_likelihood st')]"
    by (rule exE)
  note step = all [THEN conjunct1]
  note it = all [THEN conjunct2, THEN conjunct1]
  note cur = all [THEN conjunct2, THEN conjunct2, THEN conjunct1]
  note tm = all [THEN conjunct2, THEN conjunct2, THEN conjunct2, THEN conjunct1]
  note sl = all [THEN conjunct2, THEN conjunct2, THEN conjunct2, THEN conjunct2]
  from cur have mono: "current_likelihood st \<le> current_likelihood st'"
    by (auto split: if_splits)
  have "em_inv st'"
    unfolding em_inv_def
  proof (intro conjI allI impI)
    show "length (em_samples_likelihood st') = MaxIter"
      using inv by (simp add: sl em_inv_def)
    show "iteration st' < MaxIter" if "terminate st' = 0"
      using that tm lt it by auto
    show "iteration st' \<le> MaxIter"
      using lt it by simp
    show "\<exists>x. em_samples_likelihood st' ! k = Some x \<and> x \<le> current_likelihood st'"
      if "k < iteration st'" for k
    proof (cases "k = iteration st")
      case True
      then show ?thesis using inv lt by (simp add: sl em_inv_def)
    next
      case False
      with that it have "k < iteration st" by simp
      with inv obtain x where "em_samples_likelihood st ! k = Some x" "x \<le> current_likelihood st"
        by (auto simp: em_inv_def)
      with mono False show ?thesis by (simp add: sl)
    qed
    show "the (em_samples_likelihood st' ! j) \<le> the (em_samples_likelihood st' ! k)"
      if "j \<le> k \<and> k < iteration st'" for j k
    proof (cases "k = iteration st")
      case True
      show ?thesis
      proof (cases "j = k")
        case True
        then show ?thesis by simp
      next
        case False
        with that True have "j < iteration st" by simp
        with inv obtain x where "em_samples_likelihood st ! j = Some x" "x \<le> current_likelihood st"
          by (auto simp: em_inv_def)
        with mono True False inv lt show ?thesis by (simp add: sl em_inv_def)
      qed
    next
      case False
      with that it have jk: "j \<le> k \<and> k < iteration st" by simp
      with inv have "the (em_samples_likelihood st ! j) \<le> the (em_samples_likelihood st ! k)"
        unfolding em_inv_def by blast
      moreover from jk have "j \<noteq> iteration st" "k \<noteq> iteration st" by simp_all
      ultimately show ?thesis by (simp add: sl)
    qed
    show "em_samples_likelihood st' ! k = None"
      if "max 1 (iteration st') \<le> k \<and> k < MaxIter" for k
    proof -
      from that it have "max 1 (iteration st) \<le> k \<and> k < MaxIter" "k \<noteq> iteration st" by auto
      with inv show ?thesis unfolding em_inv_def by (simp add: sl)
    qed
    show "em_samples_likelihood st' ! (iteration st' - 1) = Some (current_likelihood st')"
      using inv lt it by (simp add: sl em_inv_def)
  qed
  with step it show ?thesis by blast
qed

lemma em_loop_inv:
  "em_inv st \<Longrightarrow>
     \<exists>fin. em_loop ops d st = Inr fin \<and> em_inv fin \<and> terminate fin \<noteq> 0 \<and>
       iteration st \<le> iteration fin \<and> (terminate st = 0 \<longrightarrow> iteration st < iteration fin)"
proof (induction ops d st rule: em_loop.induct)
  case (1 ops d st)
  show ?case
  proof (cases "terminate st = 0")
    case True
    from em_step_inv [OF "1.prems" True, of ops d] obtain st' where
      step: "em_step ops d st = Inr st'" and inv': "em_inv st'" and it: "iteration st' = Suc (iteration st)"
      by blast
    from "1.IH" [OF True step inv'] obtain fin where
      "em_loop ops d st' = Inr fin" "em_inv fin" "terminate fin \<noteq> 0" "iteration st' \<le> iteration fin"
      by blast
    with True step it show ?thesis
      by (subst em_loop.simps) auto
  next
    case False
    with "1.prems" show ?thesis
      by (subst em_loop.simps) simp
  qed
qed

lemma em_init_inv: "em_inv (em_init ops d S0 f0 r0)"
  by (simp add: em_inv_def em_init_def Let_def MaxIter_def nth_list_update)




lemma ex_L0_bounds: "- 1 < ex_L0 \<and> ex_L0 < 0"
proof
  have "exp (- 1 :: real) = inverse (exp 1)"
    by (simp add: exp_minus)
  also have "\<dots> \<le> inverse 2"
    using exp_ge_add_one_self [of "1 :: real"] by (intro le_imp_inverse_le) simp_all
  also have "\<dots> < 1 / 2 + 1 / 10 ^ 250"
    by simp
  finally have "ln (exp (- 1 :: real)) < ln (1 / 2 + 1 / 10 ^ 250)"
    by (subst ln_less_cancel_iff) simp_all
  then show "- 1 < ex_L0"
    by (simp add: ex_L0_def)
  have "(1 / 2 + 1 / 10 ^ 250 :: real) < 1"
    by simp
  then have "ln (1 / 2 + 1 / 10 ^ 250 :: real) < 0"
    by (subst ln_less_zero_iff) simp_all
  then show "ex_L0 < 0"
    by (simp add: ex_L0_def)
qed

lemma ex_loglike:
  "loglike (calculate_likelihood ex_ops () [[0]] [1]) = ex_L0"
  unfolding ex_L0_def
  by (simp add: calculate_likelihood_def ex_ops_def Let_def np_zeros3_def np_tile3_def
      np_transpose_210_def set_slice_axis2_def arr3_mult_def np_sum_axis2_def)

lemma round_half_even_close: "\<bar>of_int (round_half_even y) - y\<bar> \<le> 1 / 2"
proof -
  define n where "n = \<lfloor>y\<rfloor>"
  have b: "of_int n \<le> y" "y < of_int n + 1"
    unfolding n_def by linarith+
  consider "y - of_int n < 1 / 2" | "1 / 2 < y - of_int n" | "y - of_int n = 1 / 2"
    by linarith
  then show ?thesis
  proof cases
    case 1
    then have "round_half_even y = n"
      by (simp add: round_half_even_def n_def)
    with b 1 show ?thesis by simp
  next
    case 2
    then have "round_half_even y = n + 1"
      by (simp add: round_half_even_def n_def)
    with b 2 show ?thesis by simp
  next
    case 3
    then have "round_half_even y = n \<or> round_half_even y = n + 1"
      by (simp add: round_half_even_def n_def Let_def)
    with b 3 show ?thesis by auto
  qed
qed

lemma round_half_even_int: "round_half_even (of_int k) = k"
  by (simp add: round_half_even_def)

lemma floor_log2_eqI:
  assumes "0 < x" "2 powr of_int k \<le> x" "x < 2 powr (of_int k + 1)"
  shows "\<lfloor>log 2 x\<rfloor> = k"
proof -
  from assms have "of_int k \<le> log 2 x"
    by (simp add: le_log_iff)
  moreover from assms have "log 2 x < of_int k + 1"
    by (simp add: log_less_iff)
  ultimately show ?thesis
    by (simp add: floor_eq_iff)
qed

lemma floor_log2_bounds:
  assumes "0 < x"
  shows "2 powr of_int \<lfloor>log 2 x\<rfloor> \<le> x" "x < 2 powr (of_int \<lfloor>log 2 x\<rfloor> + 1)"
proof -
  have "of_int \<lfloor>log 2 x\<rfloor> \<le> log 2 x"
    by simp
  with le_log_iff [of 2 x "of_int \<lfloor>log 2 x\<rfloor>"] assms
  show "2 powr of_int \<lfloor>log 2 x\<rfloor> \<le> x"
    by simp
  have "log 2 x < of_int \<lfloor>log 2 x\<rfloor> + 1"
    by linarith
  with log_less_iff [of 2 x "of_int \<lfloor>log 2 x\<rfloor> + 1"] assms
  show "x < 2 powr (of_int \<lfloor>log 2 x\<rfloor> + 1)"
    by simp
qed

lemma round_double_zero: "round_double 0 = Some 0"
  by (simp add: round_double_def)

lemma round_double_ulp:
  assumes "x \<noteq> 0"
  defines "e \<equiv> max \<lfloor>log 2 \<bar>x\<bar>\<rfloor> (- 1022)"
  shows "round_double x = Some r \<Longrightarrow> \<bar>r - x\<bar> \<le> 2 powr (of_int e - 53)"
    and "round_double x = None \<Longrightarrow> 2 ^ 1024 \<le> \<bar>x\<bar> + 2 powr (of_int e - 53)"
proof -
  let ?ulp = "2 powr (of_int e - 52) :: real"
  let ?n = "round_half_even (x / ?ulp)"
  have ulp: "0 < ?ulp" by simp
  have half: "?ulp / 2 = 2 powr (of_int e - 53)"
  proof -
    have "(2 :: real) powr (of_int e - 53) = 2 powr ((of_int e - 52) - 1)"
      by simp
    also have "\<dots> = ?ulp / 2 powr 1"
      by (rule powr_diff)
    finally show ?thesis by simp
  qed
  have "\<bar>of_int ?n - x / ?ulp\<bar> \<le> 1 / 2"
    by (rule round_half_even_close)
  then have "\<bar>of_int ?n - x / ?ulp\<bar> * ?ulp \<le> 1 / 2 * ?ulp"
    using ulp by (intro mult_right_mono) simp_all
  moreover have "\<bar>of_int ?n - x / ?ulp\<bar> * ?ulp = \<bar>of_int ?n * ?ulp - x\<bar>"
  proof -
    have "\<bar>of_int ?n - x / ?ulp\<bar> * ?ulp = \<bar>(of_int ?n - x / ?ulp) * ?ulp\<bar>"
      using ulp by (simp add: abs_mult)
    also have "(of_int ?n - x / ?ulp) * ?ulp = of_int ?n * ?ulp - x"
      using ulp by (simp add: field_simps)
    finally show ?thesis .
  qed
  ultimately have close: "\<bar>of_int ?n * ?ulp - x\<bar> \<le> 2 powr (of_int e - 53)"
    using half by simp
  {
    assume "round_double x = Some r"
    with assms(1) have "r = of_int ?n * ?ulp"
      by (simp add: round_double_def Let_def e_def split: if_splits)
    with close show "\<bar>r - x\<bar> \<le> 2 powr (of_int e - 53)"
      by simp
  }
  {
    assume "round_double x = None"
    with assms(1) have "2 ^ 1024 \<le> \<bar>of_int ?n * ?ulp\<bar>"
      by (simp add: round_double_def Let_def e_def split: if_splits)
    with close show "2 ^ 1024 \<le> \<bar>x\<bar> + 2 powr (of_int e - 53)"
      by linarith
  }
qed

lemma powr_minus_1075: "(2 :: real) powr (- 1075) = 1 / 2 ^ 1075"
  by (simp add: powr_minus_divide)

lemma round_double_error:
  assumes "round_double x = Some r"
  shows "\<bar>r - x\<bar> \<le> \<bar>x\<bar> / 2 ^ 53 \<or> \<bar>r - x\<bar> \<le> 1 / 2 ^ 1075"
proof (cases "x = 0")
  case True
  with assms show ?thesis by (simp add: round_double_def)
next
  case False
  let ?lg = "\<lfloor>log 2 \<bar>x\<bar>\<rfloor>"
  let ?e = "max ?lg (- 1022)"
  from round_double_ulp(1) [OF False assms]
  have close: "\<bar>r - x\<bar> \<le> 2 powr (of_int ?e - 53)" .
  show ?thesis
  proof (cases "- 1022 \<le> ?lg")
    case True
    then have e: "?e = ?lg" by simp
    from False have "2 powr of_int ?lg \<le> \<bar>x\<bar>"
      by (intro floor_log2_bounds) simp
    moreover have "(2 :: real) powr (of_int ?lg - 53) = 2 powr of_int ?lg / 2 ^ 53"
      by (simp add: powr_diff)
    ultimately have "2 powr (of_int ?lg - 53) \<le> \<bar>x\<bar> / 2 ^ 53"
      by (simp add: divide_right_mono)
    with close e show ?thesis by simp
  next
    case False
    then have e: "?e = - 1022" by simp
    have "(2 :: real) powr (of_int (- 1022) - 53) = 2 powr (- 1075)"
      by simp
    with close e powr_minus_1075 show ?thesis by simp
  qed
qed

lemma round_double_normal:
  assumes "round_double x = Some r" and "1 / 2 ^ 1022 \<le> \<bar>x\<bar>"
  shows "\<bar>r - x\<bar> \<le> \<bar>x\<bar> / 2 ^ 53"
proof -
  from round_double_error [OF assms(1)] show ?thesis
  proof
    assume "\<bar>r - x\<bar> \<le> 1 / 2 ^ 1075"
    moreover have "(1 :: real) / 2 ^ 1075 = (1 / 2 ^ 1022) / 2 ^ 53"
      by simp
    moreover from assms(2) have "(1 / 2 ^ 1022) / 2 ^ 53 \<le> \<bar>x\<bar> / (2 ^ 53 :: real)"
      by (rule divide_right_mono) simp
    ultimately show ?thesis by linarith
  qed
qed

lemma round_double_half:
  assumes "round_double x = Some r" and "1 / 2 ^ 1022 \<le> \<bar>x\<bar>"
  shows "\<bar>x\<bar> / 2 \<le> \<bar>r\<bar>"
proof -
  from round_double_normal [OF assms] have "\<bar>r - x\<bar> \<le> \<bar>x\<bar> / 2 ^ 53" .
  moreover have "\<bar>x\<bar> / 2 ^ 53 \<le> \<bar>x\<bar> / 2"
    by (rule divide_left_mono) simp_all
  ultimately show ?thesis by linarith
qed

lemma double_1e_6: "round_double (1 / 10 ^ 6) = Some (4722366482869645 / 2 ^ 72)"
proof -
  have e: "\<lfloor>log 2 \<bar>1 / 10 ^ 6 :: real\<bar>\<rfloor> = - 20"
    by (rule floor_log2_eqI) (simp_all add: powr_minus_divide)
  have u: "(2 :: real) powr (of_int (max (- 20) (- 1022)) - 52) = 1 / 2 ^ 72"
    by (simp add: powr_minus_divide)
  have n: "round_half_even (1 / 10 ^ 6 / (1 / 2 ^ 72)) = 4722366482869645"
    by (simp add: round_half_even_def Let_def)
  show ?thesis
    unfolding round_double_def e u n Let_def by simp
qed


lemma HAS_converged_iff:
  "HAS_converged ll' ll \<longleftrightarrow>
     (\<exists>d q. round_double (ll' - ll) = Some d \<and> max ll' ll \<noteq> 0 \<and>
            round_double (d / max ll' ll) = Some q \<and> \<bar>q\<bar> < 4722366482869645 / 2 ^ 72)"
  unfolding HAS_converged_def double_1e_6
  by (auto split: option.splits)

lemma HAS_converged_same:
  assumes "c \<noteq> 0"
  shows "HAS_converged c c"
  unfolding HAS_converged_iff using assms by (simp add: round_double_zero)

lemma not_HAS_converged_far:
  assumes far: "1 / 10 ^ 5 \<le> \<bar>(c - l) / max c l\<bar>"
    and normal: "1 / 2 ^ 1022 \<le> \<bar>c - l\<bar>"
  shows "\<not> HAS_converged c l"
proof
  assume "HAS_converged c l"
  then obtain d q where d: "round_double (c - l) = Some d" and m: "max c l \<noteq> 0"
    and q: "round_double (d / max c l) = Some q" and t: "\<bar>q\<bar> < 4722366482869645 / 2 ^ 72"
    unfolding HAS_converged_iff by blast
  from round_double_half [OF d normal] have dh: "\<bar>c - l\<bar> / 2 \<le> \<bar>d\<bar>" .
  have "\<bar>(c - l) / max c l\<bar> / 2 = (\<bar>c - l\<bar> / 2) / \<bar>max c l\<bar>"
    by simp
  also have "\<dots> \<le> \<bar>d\<bar> / \<bar>max c l\<bar>"
    using dh by (rule divide_right_mono) simp
  also have "\<dots> = \<bar>d / max c l\<bar>"
    by simp
  finally have "\<bar>(c - l) / max c l\<bar> / 2 \<le> \<bar>d / max c l\<bar>" .
  moreover from far have "1 / 10 ^ 5 / 2 \<le> \<bar>(c - l) / max c l\<bar> / 2"
    by (rule divide_right_mono) simp
  ultimately have x2: "1 / 10 ^ 5 / 2 \<le> \<bar>d / max c l\<bar>"
    by (rule order_trans [rotated])
  have "(1 :: real) / 2 ^ 1022 \<le> 1 / 2 ^ 18"
    by (intro divide_left_mono power_increasing) simp_all
  also have "\<dots> \<le> 1 / 10 ^ 5 / 2"
    by simp
  finally have "1 / 2 ^ 1022 \<le> \<bar>d / max c l\<bar>"
    using x2 by linarith
  from round_double_half [OF q this] have "\<bar>d / max c l\<bar> / 2 \<le> \<bar>q\<bar>" .
  moreover from x2 have "1 / 10 ^ 5 / 2 / 2 \<le> \<bar>d / max c l\<bar> / 2"
    by (rule divide_right_mono) simp
  ultimately have "1 / 10 ^ 5 / 2 / 2 \<le> \<bar>q\<bar>"
    by (rule order_trans [rotated])
  moreover have "(4722366482869645 :: real) / 2 ^ 72 < 1 / 10 ^ 5 / 2 / 2"
    by simp
  ultimately show False
    using t by linarith
qed

text \<open>
  The rounding decides the test where the quotient is within an ulp of the threshold:
  at the likelihoods \<open>15000000000000002\<close> and \<open>14999985000000002\<close> the exact quotient is
  below \<open>1e-6\<close>, but its double is the double of \<open>1e-6\<close>, and the test fails.
\<close>

lemma round_double_example: "round_double 15000000000 = Some 15000000000"
proof -
  have e: "\<lfloor>log 2 \<bar>15000000000 :: real\<bar>\<rfloor> = 33"
    by (rule floor_log2_eqI) simp_all
  have u: "(2 :: real) powr (of_int (max 33 (- 1022)) - 52) = 1 / 2 ^ 19"
    by (simp add: powr_minus_divide)
  have n: "round_half_even (15000000000 / (1 / 2 ^ 19)) = 7864320000000000"
    by (simp add: round_half_even_def Let_def)
  show ?thesis
    unfolding round_double_def e u n Let_def of_int_numeral by simp
qed

lemma round_double_example_quotient:
  "round_double (15000000000 / 15000000000000002) = Some (4722366482869645 / 2 ^ 72)"
proof -
  have e: "\<lfloor>log 2 \<bar>15000000000 / 15000000000000002 :: real\<bar>\<rfloor> = - 20"
    by (rule floor_log2_eqI) (simp_all add: powr_minus_divide)
  have u: "(2 :: real) powr (of_int (max (- 20) (- 1022)) - 52) = 1 / 2 ^ 72"
    by (simp add: powr_minus_divide)
  have n: "round_half_even (15000000000 / 15000000000000002 / (1 / 2 ^ 72)) = 4722366482869645"
    by (simp add: round_half_even_def Let_def)
  show ?thesis
    unfolding round_double_def e u n Let_def of_int_numeral by simp
qed

lemma HAS_converged_rounding_example:
  "\<bar>(15000000000000002 - 14999985000000002) / max 15000000000000002 14999985000000002\<bar>
     < (1 / 10 ^ 6 :: real) \<and>
   \<not> HAS_converged 15000000000000002 14999985000000002"
proof -
  have d: "(15000000000000002 :: real) - 14999985000000002 = 15000000000"
    by simp
  have m: "max (15000000000000002 :: real) 14999985000000002 = 15000000000000002"
    by simp
  have "\<not> HAS_converged 15000000000000002 14999985000000002"
  proof
    assume "HAS_converged 15000000000000002 14999985000000002"
    then obtain d' q where a: "round_double 15000000000 = Some d'"
      and b: "round_double (d' / 15000000000000002) = Some q"
      and c: "\<bar>q\<bar> < 4722366482869645 / 2 ^ 72"
      unfolding HAS_converged_iff d m by blast
    from a have "d' = 15000000000"
      by (simp only: round_double_example option.inject)
    with b have "Some q = Some (4722366482869645 / 2 ^ 72)"
      by (simp only: round_double_example_quotient)
    then have "q = 4722366482869645 / 2 ^ 72"
      by (simp only: option.inject)
    with c show False
      by simp
  qed
  moreover have "\<bar>(15000000000000002 - 14999985000000002) / max 15000000000000002 14999985000000002\<bar>
     < (1 / 10 ^ 6 :: real)"
    by simp
  ultimately show ?thesis
    by (intro conjI)
qed

lemma ex_not_converged: "\<not> HAS_converged (- 10) ex_L0"
proof (rule not_HAS_converged_far)
  from ex_L0_bounds have b: "- 1 < ex_L0" "ex_L0 < 0" by simp_all
  then have m: "max (- 10) ex_L0 = ex_L0" by simp
  have "\<bar>(- 10 - ex_L0) / ex_L0\<bar> = (10 + ex_L0) / (- ex_L0)"
    using b by (simp add: abs_if field_simps)
  moreover have "1 \<le> (10 + ex_L0) / (- ex_L0)"
    using b by (simp add: field_simps)
  moreover have "(1 :: real) / 10 ^ 5 \<le> 1"
    by simp
  ultimately show "1 / 10 ^ 5 \<le> \<bar>(- 10 - ex_L0) / max (- 10) ex_L0\<bar>"
    unfolding m by linarith
  have "(1 :: real) / 2 ^ 1022 \<le> 1"
    by simp
  moreover from b have "1 \<le> \<bar>- 10 - ex_L0\<bar>"
    by simp
  ultimately show "1 / 2 ^ 1022 \<le> \<bar>- 10 - ex_L0\<bar>"
    by linarith
qed


lemma ex_converged: "HAS_converged ex_L0 ex_L0"
  using ex_L0_bounds by (intro HAS_converged_same) simp

lemma ex_step0: "em_step ex_ops () (em_init ex_ops () [[0]] [1] 0) = Inr ex_st1"
proof -
  have "optimise_parameters ex_ops () [[0]] [1] 0 = (([[0]], [1], - 10), 1)"
    by (simp add: ex_ops_def)
  moreover have "getNumStages ex_ops () = 1"
    by (simp add: ex_ops_def)
  moreover have "- 10 < ex_L0"
    using ex_L0_bounds by simp
  ultimately show ?thesis
    using ex_not_converged
    by (simp add: em_step_def em_init_def ex_loglike Let_def np_transpose2_def shape1_def
        np_reshape2_def MaxIter_def ex_st1_def)
qed

lemma ex_step1: "em_step ex_ops () ex_st1 = Inr ex_st2"
proof -
  have "optimise_parameters ex_ops () [[0]] [1] 1 = (([[0]], [1], ex_L0), 2)"
    by (simp add: ex_ops_def)
  then show ?thesis
    using ex_converged
    by (simp add: em_step_def Let_def np_transpose2_def shape1_def MaxIter_def ex_st1_def ex_st2_def)
qed

lemma ex_loop: "em_loop ex_ops () (em_init ex_ops () [[0]] [1] 0) = Inr ex_st2"
proof -
  have t0: "terminate (em_init ex_ops () [[0]] [1] 0) = 0"
    by (simp add: em_init_def Let_def)
  have t1: "terminate ex_st1 = 0"
    by (simp add: ex_st1_def)
  have t2: "terminate ex_st2 \<noteq> 0"
    by (simp add: ex_st2_def)
  have l2: "em_loop ex_ops () ex_st2 = Inr ex_st2"
    using t2 by (subst em_loop.simps) simp
  have l1: "em_loop ex_ops () ex_st1 = Inr ex_st2"
    by (subst em_loop.simps) (simp add: t1 ex_step1 l2)
  show ?thesis
    by (subst em_loop.simps) (simp add: t0 ex_step0 l1)
qed

lemma ex_run:
  "perform_em ex_ops () [[0]] [1] 0 =
     Inr (([[0]], [1], ex_L0,
           (replicate MaxIter None)[0 := Some [[0]], 1 := Some [[0]]],
           (replicate MaxIter None)[0 := Some [1], 1 := Some [1]],
           (replicate MaxIter None)[0 := Some ex_L0, 1 := Some ex_L0]), 2)"
  by (simp add: perform_em_def ex_loop) (simp add: ex_st2_def)

text \<open>
  Claim C1. In every pass through the body of the loop the candidate of
  \<^verbatim>\<open>_optimise_parameters\<close> becomes the current (sequence, fraction, likelihood) only when
  the run has not converged and the candidate's likelihood is strictly greater than the
  current one; otherwise the three are unchanged. In every run of \<^verbatim>\<open>_perform_em\<close> the
  entries of \<^verbatim>\<open>samples_likelihood\<close> written by the \<open>n\<close> passes made are non-decreasing,
  the last of them is the likelihood returned, and the entries beyond are still NaN.
\<close>

theorem C1_em_adopts_only_improvements:
  fixes ops :: "('d, 'r) sustain_methods"
  shows
  "(\<forall>(st :: 'r em_state) st' S' f' ll' r'.
      optimise_parameters ops d (current_sequence st) (current_f st) (em_rng st) = ((S', f', ll'), r') \<and>
      em_step ops d st = Inr st' \<longrightarrow>
        (current_sequence st', current_f st', current_likelihood st') =
          (if \<not> HAS_converged ll' (current_likelihood st) \<and> ll' > current_likelihood st
           then (S', f', ll')
           else (current_sequence st, current_f st, current_likelihood st))) \<and>
   (\<forall>ml_sequence ml_f ml_likelihood ss sf sl r1.
      perform_em ops d S0 f0 r0 = Inr ((ml_sequence, ml_f, ml_likelihood, ss, sf, sl), r1) \<longrightarrow>
        (\<exists>n. 1 \<le> n \<and> n \<le> MaxIter \<and> length sl = MaxIter \<and>
             (\<forall>k<n. sl ! k \<noteq> None) \<and>
             (\<forall>k. n \<le> k \<and> k < MaxIter \<longrightarrow> sl ! k = None) \<and>
             (\<forall>j k. j \<le> k \<and> k < n \<longrightarrow> the (sl ! j) \<le> the (sl ! k)) \<and>
             sl ! (n - 1) = Some ml_likelihood))"
proof (intro conjI allI impI)
  fix st st' :: "'r em_state" and S' f' ll' r'
  assume a: "optimise_parameters ops d (current_sequence st) (current_f st) (em_rng st) = ((S', f', ll'), r') \<and>
      em_step ops d st = Inr st'"
  then have lt: "iteration st < MaxIter"
    by (intro em_step_Inr_iff [of ops d st st']) simp
  from em_step_current [OF a [THEN conjunct1] lt] a
  show "(current_sequence st', current_f st', current_likelihood st') =
          (if \<not> HAS_converged ll' (current_likelihood st) \<and> ll' > current_likelihood st
           then (S', f', ll')
           else (current_sequence st, current_f st, current_likelihood st))"
    by auto
next
  fix ml_sequence ml_f ml_likelihood ss sf sl r1
  assume run: "perform_em ops d S0 f0 r0 = Inr ((ml_sequence, ml_f, ml_likelihood, ss, sf, sl), r1)"
  let ?init = "em_init ops d S0 f0 r0"
  have t0: "terminate ?init = 0"
    by (simp add: em_init_def Let_def)
  from em_loop_inv [where st = ?init and ops = ops and d = d, OF em_init_inv] t0 obtain fin where
    loop: "em_loop ops d ?init = Inr fin" and inv: "em_inv fin" and pos: "0 < iteration fin"
    by auto
  from run loop have sl: "sl = em_samples_likelihood fin" and ml: "ml_likelihood = current_likelihood fin"
    by (simp_all add: perform_em_def)
  from inv pos have "1 \<le> iteration fin \<and> iteration fin \<le> MaxIter \<and> length sl = MaxIter \<and>
             (\<forall>k<iteration fin. sl ! k \<noteq> None) \<and>
             (\<forall>k. iteration fin \<le> k \<and> k < MaxIter \<longrightarrow> sl ! k = None) \<and>
             (\<forall>j k. j \<le> k \<and> k < iteration fin \<longrightarrow> the (sl ! j) \<le> the (sl ! k)) \<and>
             sl ! (iteration fin - 1) = Some ml_likelihood"
    unfolding em_inv_def sl ml by (intro conjI) (simp_all, fastforce)
  then show "\<exists>n. 1 \<le> n \<and> n \<le> MaxIter \<and> length sl = MaxIter \<and>
             (\<forall>k<n. sl ! k \<noteq> None) \<and>
             (\<forall>k. n \<le> k \<and> k < MaxIter \<longrightarrow> sl ! k = None) \<and>
             (\<forall>j k. j \<le> k \<and> k < n \<longrightarrow> the (sl ! j) \<le> the (sl ! k)) \<and>
             sl ! (n - 1) = Some ml_likelihood"
    by (rule exI)
qed

text \<open>The run of the example model: two passes, the first candidate rejected.\<close>

theorem C1_em_witness:
  "perform_em ex_ops () [[0]] [1] 0 =
     Inr (([[0]], [1], ex_L0,
           (replicate MaxIter None)[0 := Some [[0]], 1 := Some [[0]]],
           (replicate MaxIter None)[0 := Some [1], 1 := Some [1]],
           (replicate MaxIter None)[0 := Some ex_L0, 1 := Some ex_L0]), 2) \<and>
   (\<exists>n. 1 \<le> n \<and> n \<le> MaxIter \<and>
      length ((replicate MaxIter None)[0 := Some ex_L0, 1 := Some ex_L0]) = MaxIter \<and>
      (\<forall>k<n. (replicate MaxIter None)[0 := Some ex_L0, 1 := Some ex_L0] ! k \<noteq> None) \<and>
      (\<forall>k. n \<le> k \<and> k < MaxIter \<longrightarrow>
           (replicate MaxIter None)[0 := Some ex_L0, 1 := Some ex_L0] ! k = None) \<and>
      (\<forall>j k. j \<le> k \<and> k < n \<longrightarrow>
           the ((replicate MaxIter None)[0 := Some ex_L0, 1 := Some ex_L0] ! j)
             \<le> the ((replicate MaxIter None)[0 := Some ex_L0, 1 := Some ex_L0] ! k)) \<and>
      (replicate MaxIter None)[0 := Some ex_L0, 1 := Some ex_L0] ! (n - 1) = Some ex_L0) \<and>
   em_step ex_ops () (em_init ex_ops () [[0]] [1] 0) = Inr ex_st1 \<and>
   (current_sequence ex_st1, current_f ex_st1, current_likelihood ex_st1) =
     (if \<not> HAS_converged (- 10) (current_likelihood (em_init ex_ops () [[0]] [1] 0)) \<and>
         - 10 > current_likelihood (em_init ex_ops () [[0]] [1] 0)
      then ([[0]], [1], - 10)
      else (current_sequence (em_init ex_ops () [[0]] [1] 0), current_f (em_init ex_ops () [[0]] [1] 0),
            current_likelihood (em_init ex_ops () [[0]] [1] 0)))"
proof -
  note c = C1_em_adopts_only_improvements [of ex_ops "()" "[[0]]" "[1]" 0]
  have opt: "optimise_parameters ex_ops () (current_sequence (em_init ex_ops () [[0]] [1] 0))
      (current_f (em_init ex_ops () [[0]] [1] 0)) (em_rng (em_init ex_ops () [[0]] [1] 0)) =
      (([[0]], [1], - 10), 1)"
    by (simp add: ex_ops_def em_init_def Let_def)
  from c [THEN conjunct2, rule_format, OF ex_run] c [THEN conjunct1, rule_format, OF conjI, OF opt ex_step0]
    ex_run ex_step0
  show ?thesis
    by (intro conjI)
qed








subsection \<open>The likelihood engine\<close>

lemma concat_replicate_single: "concat (replicate n [x]) = replicate n x"
  by (induction n) simp_all

lemma f_val_mat_closed:
  assumes "length f = N_S"
  shows "np_transpose_210 N_S K M (np_tile3 1 K M (map (\<lambda>x. [[x]]) f)) =
         map (\<lambda>m. map (\<lambda>k. map (\<lambda>s. f ! s) [0..<N_S]) [0..<K]) [0..<M]"
proof -
  have tile: "np_tile3 1 K M (map (\<lambda>x. [[x]]) f) = map (\<lambda>x. replicate K (replicate M x)) f"
    by (simp add: np_tile3_def concat_replicate_single comp_def)
  show ?thesis
    unfolding tile np_transpose_210_def using assms by simp
qed

lemma has_shape2_nth:
  "has_shape2 M K X \<Longrightarrow> length X = M \<and> (\<forall>m<M. length (X ! m) = K)"
  by (auto simp: has_shape2_def list_all_length)

lemma set_slice_step:
  assumes "has_shape2 M K X" and "n < N_S"
  shows "set_slice_axis2
           (map (\<lambda>m. map (\<lambda>k. map (\<lambda>s. if s < n then P s m k else 0) [0..<N_S]) [0..<K]) [0..<M]) n X =
         map (\<lambda>m. map (\<lambda>k. map (\<lambda>s. if s < n then P s m k else if s = n then X ! m ! k else (0::real))
                               [0..<N_S]) [0..<K]) [0..<M]"
proof -
  from has_shape2_nth [OF assms(1)] have len: "length X = M" and row: "\<forall>m<M. length (X ! m) = K"
    by simp_all
  show ?thesis
    unfolding set_slice_axis2_def
  proof (rule nth_equalityI)
    show "length (map2 (\<lambda>plane rowX. map2 (\<lambda>cell x. cell[n := x]) plane rowX)
            (map (\<lambda>m. map (\<lambda>k. map (\<lambda>s. if s < n then P s m k else 0) [0..<N_S]) [0..<K]) [0..<M]) X) =
          length (map (\<lambda>m. map (\<lambda>k. map (\<lambda>s. if s < n then P s m k else if s = n then X ! m ! k else 0)
                               [0..<N_S]) [0..<K]) [0..<M])"
      using len by simp
  next
    fix m
    assume "m < length (map2 (\<lambda>plane rowX. map2 (\<lambda>cell x. cell[n := x]) plane rowX)
            (map (\<lambda>m. map (\<lambda>k. map (\<lambda>s. if s < n then P s m k else 0) [0..<N_S]) [0..<K]) [0..<M]) X)"
    then have m: "m < M" using len by simp
    with row have rm: "length (X ! m) = K" by simp
    have "map2 (\<lambda>cell x. cell[n := x]) (map (\<lambda>k. map (\<lambda>s. if s < n then P s m k else 0) [0..<N_S]) [0..<K]) (X ! m) =
          map (\<lambda>k. map (\<lambda>s. if s < n then P s m k else if s = n then X ! m ! k else 0) [0..<N_S]) [0..<K]"
    proof (rule nth_equalityI)
      show "length (map2 (\<lambda>cell x. cell[n := x]) (map (\<lambda>k. map (\<lambda>s. if s < n then P s m k else 0) [0..<N_S]) [0..<K]) (X ! m)) =
            length (map (\<lambda>k. map (\<lambda>s. if s < n then P s m k else if s = n then X ! m ! k else 0) [0..<N_S]) [0..<K])"
        using rm by simp
    next
      fix k
      assume "k < length (map2 (\<lambda>cell x. cell[n := x]) (map (\<lambda>k. map (\<lambda>s. if s < n then P s m k else 0) [0..<N_S]) [0..<K]) (X ! m))"
      then have k: "k < K" using rm by simp
      have "(map (\<lambda>s. if s < n then P s m k else 0) [0..<N_S])[n := X ! m ! k] =
            map (\<lambda>s. if s < n then P s m k else if s = n then X ! m ! k else 0) [0..<N_S]"
        using assms(2) by (intro nth_equalityI) (auto simp: nth_list_update)
      with k rm show "map2 (\<lambda>cell x. cell[n := x]) (map (\<lambda>k. map (\<lambda>s. if s < n then P s m k else 0) [0..<N_S]) [0..<K]) (X ! m) ! k =
            map (\<lambda>k. map (\<lambda>s. if s < n then P s m k else if s = n then X ! m ! k else 0) [0..<N_S]) [0..<K] ! k"
        by (simp cong: if_cong)
    qed
    with m len show "map2 (\<lambda>plane rowX. map2 (\<lambda>cell x. cell[n := x]) plane rowX)
            (map (\<lambda>m. map (\<lambda>k. map (\<lambda>s. if s < n then P s m k else 0) [0..<N_S]) [0..<K]) [0..<M]) X ! m =
          map (\<lambda>m. map (\<lambda>k. map (\<lambda>s. if s < n then P s m k else if s = n then X ! m ! k else 0)
                               [0..<N_S]) [0..<K]) [0..<M] ! m"
      by (simp cong: if_cong)
  qed
qed

lemma p_perm_k_fold:
  assumes "\<forall>s<N_S. has_shape2 M K (X s)" and "n \<le> N_S"
  shows "fold (\<lambda>s p. set_slice_axis2 p s (X s)) [0..<n] (np_zeros3 M K N_S) =
         map (\<lambda>m. map (\<lambda>k. map (\<lambda>s. if s < n then X s ! m ! k else (0::real)) [0..<N_S]) [0..<K]) [0..<M]"
  using assms(2)
proof (induction n)
  case 0
  show ?case
    by (simp add: np_zeros3_def map_replicate_const)
next
  case (Suc n)
  then have n: "n < N_S" by simp
  with assms(1) have sh: "has_shape2 M K (X n)" by simp
  have "fold (\<lambda>s p. set_slice_axis2 p s (X s)) [0..<Suc n] (np_zeros3 M K N_S) =
        set_slice_axis2 (map (\<lambda>m. map (\<lambda>k. map (\<lambda>s. if s < n then X s ! m ! k else 0) [0..<N_S]) [0..<K]) [0..<M]) n (X n)"
    using Suc by simp
  also have "\<dots> = map (\<lambda>m. map (\<lambda>k. map (\<lambda>s. if s < n then X s ! m ! k else if s = n then X n ! m ! k else 0)
                               [0..<N_S]) [0..<K]) [0..<M]"
    by (rule set_slice_step [OF sh n, where P = "\<lambda>s m k. X s ! m ! k"])
  also have "\<dots> = map (\<lambda>m. map (\<lambda>k. map (\<lambda>s. if s < Suc n then X s ! m ! k else 0) [0..<N_S]) [0..<K]) [0..<M]"
    by (intro map_cong refl) (auto simp: less_Suc_eq)
  finally show ?case .
qed

lemma p_perm_k_closed:
  assumes "\<forall>s<N_S. has_shape2 M K (X s)"
  shows "fold (\<lambda>s p. set_slice_axis2 p s (X s)) [0..<N_S] (np_zeros3 M K N_S) =
         map (\<lambda>m. map (\<lambda>k. map (\<lambda>s. X s ! m ! k) [0..<N_S]) [0..<K]) [0..<M]"
proof -
  have "fold (\<lambda>s p. set_slice_axis2 p s (X s)) [0..<N_S] (np_zeros3 M K N_S) =
         map (\<lambda>m. map (\<lambda>k. map (\<lambda>s. if s < N_S then X s ! m ! k else 0) [0..<N_S]) [0..<K]) [0..<M]"
    by (rule p_perm_k_fold [OF assms]) simp
  also have "\<dots> = map (\<lambda>m. map (\<lambda>k. map (\<lambda>s. X s ! m ! k) [0..<N_S]) [0..<K]) [0..<M]"
    by (intro map_cong refl) auto
  finally show ?thesis .
qed

lemma map2_map_upt:
  "map2 h (map f [0..<n]) (map g [0..<n]) = map (\<lambda>i. h (f i) (g i)) [0..<n]"
  by (intro nth_equalityI) simp_all

lemma arr3_mult_closed:
  "arr3_mult (map (\<lambda>m. map (\<lambda>k. map (\<lambda>s. A m k s) [0..<N_S]) [0..<K]) [0..<M])
             (map (\<lambda>m. map (\<lambda>k. map (\<lambda>s. B m k s) [0..<N_S]) [0..<K]) [0..<M]) =
   map (\<lambda>m. map (\<lambda>k. map (\<lambda>s. A m k s * B m k s) [0..<N_S]) [0..<K]) [0..<M]"
  unfolding arr3_mult_def by (simp only: map2_map_upt)

lemma sum_list_upt: "sum_list (map g [0..<n]) = (\<Sum>i<n. (g i :: real))"
  by (simp add: interv_sum_list_conv_sum_set_nat atLeast0LessThan)

lemma np_sum_axis1_closed:
  "np_sum_axis1 N_S (map (\<lambda>m. map (\<lambda>k. map (\<lambda>s. C m k s) [0..<N_S]) [0..<K]) [0..<M]) =
   map (\<lambda>m. map (\<lambda>s. \<Sum>k<K. C m k s) [0..<N_S]) [0..<M]"
  unfolding np_sum_axis1_def
  by (simp add: comp_def sum_list_upt [symmetric] cong: map_cong)

lemma np_sum_axis2_closed:
  "np_sum_axis2 (map (\<lambda>m. map (\<lambda>k. map (\<lambda>s. C m k s) [0..<N_S]) [0..<K]) [0..<M]) =
   map (\<lambda>m. map (\<lambda>k. \<Sum>s<N_S. C m k s) [0..<K]) [0..<M]"
  unfolding np_sum_axis2_def
  by (simp add: comp_def sum_list_upt [symmetric])

lemma calculate_likelihood_closed:
  fixes ops :: "('d, 'r) sustain_methods"
  assumes f: "length f = length S"
    and sh: "\<forall>s<length S. has_shape2 (getNumSamples ops d) (getNumStages ops d + 1)
                (calculate_likelihood_stage ops d (S ! s))"
  shows "calculate_likelihood ops d S f =
    \<lparr> loglike = (\<Sum>m<getNumSamples ops d.
         ln ((\<Sum>k<getNumStages ops d + 1. \<Sum>s<length S.
                calculate_likelihood_stage ops d (S ! s) ! m ! k * f ! s) + 1 / 10 ^ 250)),
      total_prob_subj = map (\<lambda>m. \<Sum>k<getNumStages ops d + 1. \<Sum>s<length S.
                calculate_likelihood_stage ops d (S ! s) ! m ! k * f ! s) [0..<getNumSamples ops d],
      total_prob_stage = map (\<lambda>m. map (\<lambda>k. \<Sum>s<length S.
                calculate_likelihood_stage ops d (S ! s) ! m ! k * f ! s)
                   [0..<getNumStages ops d + 1]) [0..<getNumSamples ops d],
      total_prob_cluster = np_squeeze2 (getNumSamples ops d) (length S)
         (map (\<lambda>m. map (\<lambda>s. \<Sum>k<getNumStages ops d + 1.
                calculate_likelihood_stage ops d (S ! s) ! m ! k * f ! s) [0..<length S])
            [0..<getNumSamples ops d]),
      p_perm_k = map (\<lambda>m. map (\<lambda>k. map (\<lambda>s. calculate_likelihood_stage ops d (S ! s) ! m ! k)
                   [0..<length S]) [0..<getNumStages ops d + 1]) [0..<getNumSamples ops d] \<rparr>"
proof -
  let ?M = "getNumSamples ops d" and ?K = "getNumStages ops d + 1" and ?N_S = "length S"
  let ?X = "\<lambda>s. calculate_likelihood_stage ops d (S ! s)"
  have fv: "np_transpose_210 ?N_S ?K ?M (np_tile3 1 ?K ?M (map (\<lambda>x. [[x]]) f)) =
         map (\<lambda>m. map (\<lambda>k. map (\<lambda>s. f ! s) [0..<?N_S]) [0..<?K]) [0..<?M]"
    by (rule f_val_mat_closed [OF f])
  have pp: "fold (\<lambda>s p. set_slice_axis2 p s (?X s)) [0..<?N_S] (np_zeros3 ?M ?K ?N_S) =
         map (\<lambda>m. map (\<lambda>k. map (\<lambda>s. ?X s ! m ! k) [0..<?N_S]) [0..<?K]) [0..<?M]"
    by (rule p_perm_k_closed [OF sh])
  have pr: "arr3_mult (map (\<lambda>m. map (\<lambda>k. map (\<lambda>s. ?X s ! m ! k) [0..<?N_S]) [0..<?K]) [0..<?M])
                      (map (\<lambda>m. map (\<lambda>k. map (\<lambda>s. f ! s) [0..<?N_S]) [0..<?K]) [0..<?M]) =
         map (\<lambda>m. map (\<lambda>k. map (\<lambda>s. ?X s ! m ! k * f ! s) [0..<?N_S]) [0..<?K]) [0..<?M]"
    by (rule arr3_mult_closed)
  have a1: "np_sum_axis1 ?N_S (map (\<lambda>m. map (\<lambda>k. map (\<lambda>s. ?X s ! m ! k * f ! s) [0..<?N_S]) [0..<?K]) [0..<?M]) =
         map (\<lambda>m. map (\<lambda>s. \<Sum>k<?K. ?X s ! m ! k * f ! s) [0..<?N_S]) [0..<?M]"
    by (rule np_sum_axis1_closed)
  have a2: "np_sum_axis2 (map (\<lambda>m. map (\<lambda>k. map (\<lambda>s. ?X s ! m ! k * f ! s) [0..<?N_S]) [0..<?K]) [0..<?M]) =
         map (\<lambda>m. map (\<lambda>k. \<Sum>s<?N_S. ?X s ! m ! k * f ! s) [0..<?K]) [0..<?M]"
    by (rule np_sum_axis2_closed)
  have subj: "map sum_list (map (\<lambda>m. map (\<lambda>k. \<Sum>s<?N_S. ?X s ! m ! k * f ! s) [0..<?K]) [0..<?M]) =
         map (\<lambda>m. \<Sum>k<?K. \<Sum>s<?N_S. ?X s ! m ! k * f ! s) [0..<?M]"
    by (simp add: comp_def sum_list_upt)
  have ll: "sum_list (map (\<lambda>x. ln (x + 1 / 10 ^ 250))
                (map (\<lambda>m. \<Sum>k<?K. \<Sum>s<?N_S. ?X s ! m ! k * f ! s) [0..<?M])) =
         (\<Sum>m<?M. ln ((\<Sum>k<?K. \<Sum>s<?N_S. ?X s ! m ! k * f ! s) + 1 / 10 ^ 250))"
    by (simp only: map_map comp_def sum_list_upt)
  show ?thesis
    unfolding calculate_likelihood_def Let_def fv pp pr a1 a2 subj ll ..
qed

text \<open>
  Claim C2. For a sequence matrix of \<open>N_S\<close> rows, a fraction vector of \<open>N_S\<close>
  entries and stage likelihoods of shape \<open>M \<times> (N + 1)\<close>, \<^verbatim>\<open>_calculate_likelihood\<close>
  returns as \<^verbatim>\<open>total_prob_cluster\<close> the (squeezed) matrix whose entry for subject \<open>m\<close> and
  subtype \<open>s\<close> is the sum over the stages of stage probability times \<open>f[s]\<close>, as
  \<^verbatim>\<open>total_prob_subj\<close> the sum of these products over all stages and subtypes, and as
  \<^verbatim>\<open>loglike\<close> the sum over the subjects of \<open>ln (total_prob_subj[m] + 1e-250)\<close>.
\<close>

theorem C2_likelihood_totals:
  fixes ops :: "('d, 'r) sustain_methods"
  assumes "length f = length S"
    and "\<forall>s<length S. has_shape2 (getNumSamples ops d) (getNumStages ops d + 1)
                (calculate_likelihood_stage ops d (S ! s))"
  shows "total_prob_cluster (calculate_likelihood ops d S f) =
           np_squeeze2 (getNumSamples ops d) (length S)
             (map (\<lambda>m. map (\<lambda>s. \<Sum>k<getNumStages ops d + 1.
                      calculate_likelihood_stage ops d (S ! s) ! m ! k * f ! s) [0..<length S])
                [0..<getNumSamples ops d]) \<and>
         total_prob_subj (calculate_likelihood ops d S f) =
           map (\<lambda>m. \<Sum>k<getNumStages ops d + 1. \<Sum>s<length S.
                  calculate_likelihood_stage ops d (S ! s) ! m ! k * f ! s) [0..<getNumSamples ops d] \<and>
         loglike (calculate_likelihood ops d S f) =
           (\<Sum>m<getNumSamples ops d.
              ln ((\<Sum>k<getNumStages ops d + 1. \<Sum>s<length S.
                     calculate_likelihood_stage ops d (S ! s) ! m ! k * f ! s) + 1 / 10 ^ 250))"
  by (simp only: calculate_likelihood_closed [OF assms] likelihood_result.simps simp_thms)

text \<open>The example model: one subject, one subtype, total probability \<open>1/2\<close>.\<close>

theorem C2_likelihood_witness:
  "length [1 :: real] = length [[0 :: int]] \<and>
   has_shape2 (getNumSamples ex_ops ()) (getNumStages ex_ops () + 1)
     (calculate_likelihood_stage ex_ops () ([[0]] ! 0)) \<and>
   total_prob_cluster (calculate_likelihood ex_ops () [[0]] [1]) = Sq0 (1 / 2) \<and>
   total_prob_subj (calculate_likelihood ex_ops () [[0]] [1]) = [1 / 2] \<and>
   loglike (calculate_likelihood ex_ops () [[0]] [1]) = ln (1 / 2 + 1 / 10 ^ 250)"
proof -
  have sh: "has_shape2 (getNumSamples ex_ops ()) (getNumStages ex_ops () + 1)
     (calculate_likelihood_stage ex_ops () ([[0]] ! 0))"
    by (simp add: ex_ops_def has_shape2_def)
  then have sh': "\<forall>s<length [[0 :: int]]. has_shape2 (getNumSamples ex_ops ()) (getNumStages ex_ops () + 1)
     (calculate_likelihood_stage ex_ops () ([[0]] ! s))"
    by simp
  have len: "length [1 :: real] = length [[0 :: int]]"
    by simp
  have vals: "getNumSamples ex_ops () = 1" "getNumStages ex_ops () = 1"
    "calculate_likelihood_stage ex_ops () [0] = [[1 / 4, 1 / 4]]"
    by (simp_all add: ex_ops_def)
  have two: "{..<Suc (Suc 0)} = {0, Suc 0}"
    by auto
  from C2_likelihood_totals [OF len sh'] sh show ?thesis
    by (simp add: vals np_squeeze2_def two)
qed

subsection \<open>Multi-start optimisation\<close>



lemma where_eq_indices:
  "set (np_where_eq xs v) = {i. i < length xs \<and> xs ! i = v} \<and> sorted (np_where_eq xs v) \<and>
   distinct (np_where_eq xs v)"
  by (auto simp: np_where_eq_def sorted_wrt_filter)






lemma find_ml_mixture2_result:
  assumes "find_ml_mixture2 ops N d r = Some (Inr ((mlS, mlf, mll, (sm, fm, lm)), r'))"
  shows "startpoint_loop (find_ml_mixture2_run ops d) N 0 (zero_mats 2 (getNumStages ops d) N) r =
           Some (Inr ((sm, fm, lm), r')) \<and>
         mlS = [sm ! hd (np_where_eq lm (py_max lm))] \<and>
         mlf = [fm ! hd (np_where_eq lm (py_max lm))] \<and>
         mll = [lm ! hd (np_where_eq lm (py_max lm))] \<or>
         np_where_eq lm (py_max lm) = []"
  using assms unfolding find_ml_mixture2_def Let_def
  by (cases "startpoint_loop (find_ml_mixture2_run ops d) N 0 (zero_mats 2 (getNumStages ops d) N) r")
     (auto split: sum.splits simp: hd_conv_nth)



lemma upt_0_2: "[0..<2] = [0, 1]"
  by (simp add: upt_rec)
















subsection \<open>The hierarchical grower\<close>

lemma split_loop_skips:
  "split_loop N_cluster candidate xs best r =
     evaluate_candidates candidate (filter (\<lambda>ix. 1 < N_cluster ix) xs) best r"
proof (induction xs arbitrary: best r)
  case Nil
  show ?case by simp
next
  case (Cons ix xs)
  show ?case
  proof (cases "1 < N_cluster ix")
    case True
    then show ?thesis
      by (simp add: Cons.IH split: option.split sum.split prod.split)
  next
    case False
    then show ?thesis
      by (simp add: Cons.IH)
  qed
qed

lemma upt_0_3: "[0..<3] = [0, 1, 2]"
  by (simp add: upt_rec)

lemma lessThan_3: "{..<3 :: nat} = {0, 1, 2}"
  by auto

lemma lessThan_2: "{..<2 :: nat} = {0, 1}"
  by auto

lemma ex2_cluster_2:
  "total_prob_cluster (calculate_likelihood (ex2_ops 2) () [[0, 1], [1, 0]] [1 / 2, 1 / 2]) =
     Sq2 [[1 / 2, 0], [0, 1 / 2]]"
proof -
  have sh: "\<forall>s<length [[0, 1], [1, 0 :: int]].
      has_shape2 (getNumSamples (ex2_ops 2) ()) (getNumStages (ex2_ops 2) () + 1)
        (calculate_likelihood_stage (ex2_ops 2) () ([[0, 1], [1, 0]] ! s))"
    by (simp add: ex2_ops_def has_shape2_def upt_0_2 less_Suc_eq)
  have len: "length [1 / 2, 1 / 2 :: real] = length [[0, 1], [1, 0 :: int]]"
    by simp
  show ?thesis
    unfolding calculate_likelihood_closed [OF len sh]
    by (simp add: ex2_ops_def np_squeeze2_def upt_0_2 lessThan_3)
qed

lemma ex2_cluster_3:
  "total_prob_cluster (calculate_likelihood (ex2_ops 3) () [[0, 1], [1, 0]] [1 / 2, 1 / 2]) =
     Sq2 [[1 / 2, 0], [1 / 2, 0], [0, 1 / 2]]"
proof -
  have sh: "\<forall>s<length [[0, 1], [1, 0 :: int]].
      has_shape2 (getNumSamples (ex2_ops 3) ()) (getNumStages (ex2_ops 3) () + 1)
        (calculate_likelihood_stage (ex2_ops 3) () ([[0, 1], [1, 0]] ! s))"
    by (simp add: ex2_ops_def has_shape2_def upt_0_3 less_Suc_eq)
  have len: "length [1 / 2, 1 / 2 :: real] = length [[0, 1], [1, 0 :: int]]"
    by simp
  show ?thesis
    unfolding calculate_likelihood_closed [OF len sh]
    by (simp add: ex2_ops_def np_squeeze2_def upt_0_2 upt_0_3 lessThan_3)
qed

lemma ex2_reshape_2:
  "reshape_p_sequence (Sq2 [[1 / 2, 0], [0, 1 / 2]]) 2 = Inr [[1 / 2, 0], [0, 1 / 2]]"
  by (simp add: reshape_p_sequence_def np_reshape2_def upt_0_2)

lemma ex2_reshape_3:
  "reshape_p_sequence (Sq2 [[1 / 2, 0], [1 / 2, 0], [0, 1 / 2]]) 2 =
     Inr [[1 / 2, 0], [1 / 2, 0], [0, 1 / 2]]"
  by (simp add: reshape_p_sequence_def np_reshape2_def upt_0_3)

lemma argmax_10: "np_argmax [1, 0] = 0"
  by (simp add: np_argmax_def np_where_eq_def py_max_def upt_0_2)

lemma argmax_01: "np_argmax [0, 1] = 1"
  by (simp add: np_argmax_def np_where_eq_def py_max_def upt_0_2)

lemma ex2_clusters_2:
  "ml_cluster_subj 2 (p_sequence_norm 2 [[1 / 2, 0], [0, 1 / 2]]) = [1, 2]"
  by (simp add: ml_cluster_subj_def p_sequence_norm_def upt_0_2 numeral_2_eq_2 argmax_10 argmax_01)

lemma ex2_clusters_3:
  "ml_cluster_subj 3 (p_sequence_norm 2 [[1 / 2, 0], [1 / 2, 0], [0, 1 / 2]]) = [1, 1, 2]"
  by (simp add: ml_cluster_subj_def p_sequence_norm_def upt_0_3 numeral_2_eq_2 argmax_10 argmax_01)

lemma estimate_split_phase:
  fixes ops :: "('d, 'r) sustain_methods"
  assumes prev: "ml_sequence_prev \<noteq> []"
    and reshape: "reshape_p_sequence
           (total_prob_cluster (calculate_likelihood ops d ml_sequence_prev ml_f_prev))
           (length ml_sequence_prev) = Inr p"
  shows "estimate_ml_sustain_model_nplus1_clusters ops N_startpoints d ml_sequence_prev ml_f_prev r =
     (case split_loop
             (this_N_cluster
                (ml_cluster_subj (getNumSamples ops d) (p_sequence_norm (length ml_sequence_prev) p)))
             (split_candidate ops N_startpoints d ml_sequence_prev (length ml_sequence_prev + 1)
                (ml_cluster_subj (getNumSamples ops d) (p_sequence_norm (length ml_sequence_prev) p)))
             [0..<length ml_sequence_prev] None r of
        None \<Rightarrow> None
      | Some (Inl e) \<Rightarrow> Some (Inl e)
      | Some (Inr br) \<Rightarrow> grower_return br)"
  using prev reshape
  by (simp add: estimate_ml_sustain_model_nplus1_clusters_def Let_def)

text \<open>
  The loop over the previous subtypes passes over every subtype with at most one
  assigned subject, without raising, and fits every other one, in the order of the
  indices: it is the run of the fits over the subtypes with more than one subject.
  With more than one subtype, and the posterior of the previous model reshaped, the
  value of \<^verbatim>\<open>_estimate_ml_sustain_model_nplus1_clusters\<close> is the return statement applied
  to the outcome of these fits.
\<close>

lemma split_phase_skips_small_clusters:
  fixes ops :: "('d, 'r) sustain_methods"
  shows
  "split_loop N_cluster candidate xs best r0 =
     evaluate_candidates candidate (filter (\<lambda>ix. 1 < N_cluster ix) xs) best r0 \<and>
   (ml_sequence_prev \<noteq> [] \<and>
    reshape_p_sequence
      (total_prob_cluster (calculate_likelihood ops d ml_sequence_prev ml_f_prev))
      (length ml_sequence_prev) = Inr p \<longrightarrow>
    estimate_ml_sustain_model_nplus1_clusters ops N_startpoints d ml_sequence_prev ml_f_prev r =
      (case evaluate_candidates
              (split_candidate ops N_startpoints d ml_sequence_prev (length ml_sequence_prev + 1)
                 (ml_cluster_subj (getNumSamples ops d) (p_sequence_norm (length ml_sequence_prev) p)))
              (filter
                 (\<lambda>ix. 1 < this_N_cluster
                     (ml_cluster_subj (getNumSamples ops d)
                        (p_sequence_norm (length ml_sequence_prev) p)) ix)
                 [0..<length ml_sequence_prev])
              None r of
         None \<Rightarrow> None
       | Some (Inl e) \<Rightarrow> Some (Inl e)
       | Some (Inr br) \<Rightarrow> grower_return br))"
proof (intro conjI impI)
  show "split_loop N_cluster candidate xs best r0 =
     evaluate_candidates candidate (filter (\<lambda>ix. 1 < N_cluster ix) xs) best r0"
    by (rule split_loop_skips)
next
  assume a: "ml_sequence_prev \<noteq> [] \<and>
    reshape_p_sequence
      (total_prob_cluster (calculate_likelihood ops d ml_sequence_prev ml_f_prev))
      (length ml_sequence_prev) = Inr p"
  show "estimate_ml_sustain_model_nplus1_clusters ops N_startpoints d ml_sequence_prev ml_f_prev r =
      (case evaluate_candidates
              (split_candidate ops N_startpoints d ml_sequence_prev (length ml_sequence_prev + 1)
                 (ml_cluster_subj (getNumSamples ops d) (p_sequence_norm (length ml_sequence_prev) p)))
              (filter
                 (\<lambda>ix. 1 < this_N_cluster
                     (ml_cluster_subj (getNumSamples ops d)
                        (p_sequence_norm (length ml_sequence_prev) p)) ix)
                 [0..<length ml_sequence_prev])
              None r of
         None \<Rightarrow> None
       | Some (Inl e) \<Rightarrow> Some (Inl e)
       | Some (Inr br) \<Rightarrow> grower_return br)"
    unfolding estimate_split_phase [OF a [THEN conjunct1] a [THEN conjunct2]] split_loop_skips ..
qed

lemma ex2_counts_2: "this_N_cluster [1, 2] 0 = 1 \<and> this_N_cluster [1, 2] 1 = 1"
  by (simp add: this_N_cluster_def)

lemma split_loop_all_skipped:
  assumes "\<forall>ix \<in> set xs. N_cluster ix \<le> 1"
  shows "split_loop N_cluster candidate xs best r = Some (Inr (best, r))"
  using assms by (induction xs) simp_all

text \<open>
  Claim C4, where the code departs from it. When every previous subtype has at most one
  assigned subject, the loop passes over all of them without raising and fits nothing,
  as the claim says; but the variable \<^verbatim>\<open>ml_sequence\<close> is then never bound, and the return
  statement of line 451 raises UnboundLocalError: the call does raise.
\<close>

theorem C4_all_skipped_return_raises:
  fixes ops :: "('d, 'r) sustain_methods"
  assumes "ml_sequence_prev \<noteq> []"
    and "reshape_p_sequence
           (total_prob_cluster (calculate_likelihood ops d ml_sequence_prev ml_f_prev))
           (length ml_sequence_prev) = Inr p"
    and "\<forall>ix<length ml_sequence_prev.
           this_N_cluster
             (ml_cluster_subj (getNumSamples ops d) (p_sequence_norm (length ml_sequence_prev) p))
             ix \<le> 1"
  shows "split_loop
           (this_N_cluster
              (ml_cluster_subj (getNumSamples ops d) (p_sequence_norm (length ml_sequence_prev) p)))
           (split_candidate ops N_startpoints d ml_sequence_prev (length ml_sequence_prev + 1)
              (ml_cluster_subj (getNumSamples ops d) (p_sequence_norm (length ml_sequence_prev) p)))
           [0..<length ml_sequence_prev] None r = Some (Inr (None, r)) \<and>
         estimate_ml_sustain_model_nplus1_clusters ops N_startpoints d ml_sequence_prev ml_f_prev r =
           Some (Inl (UnboundLocalError ''ml_sequence''))"
proof -
  let ?cs = "ml_cluster_subj (getNumSamples ops d) (p_sequence_norm (length ml_sequence_prev) p)"
  let ?cand = "split_candidate ops N_startpoints d ml_sequence_prev (length ml_sequence_prev + 1) ?cs"
  from assms(3) have "\<forall>ix \<in> set [0..<length ml_sequence_prev]. this_N_cluster ?cs ix \<le> 1"
    by simp
  then have l: "split_loop (this_N_cluster ?cs) ?cand [0..<length ml_sequence_prev] None r =
      Some (Inr (None, r))"
    by (rule split_loop_all_skipped)
  have "estimate_ml_sustain_model_nplus1_clusters ops N_startpoints d ml_sequence_prev ml_f_prev r =
      Some (Inl (UnboundLocalError ''ml_sequence''))"
    unfolding estimate_split_phase [OF assms(1) assms(2)] l
    by (simp add: grower_return_def)
  with l show ?thesis ..
qed

text \<open>
  The failing input: two subjects, one assigned to each of two previous subtypes. No
  candidate is fitted and the return statement raises.
\<close>

theorem C4_all_skipped_witness:
  "[[0, 1], [1, 0 :: int]] \<noteq> [] \<and>
   reshape_p_sequence
      (total_prob_cluster (calculate_likelihood (ex2_ops 2) () [[0, 1], [1, 0]] [1 / 2, 1 / 2]))
      (length [[0, 1], [1, 0 :: int]]) = Inr [[1 / 2, 0], [0, 1 / 2]] \<and>
   ml_cluster_subj (getNumSamples (ex2_ops 2) ()) (p_sequence_norm 2 [[1 / 2, 0], [0, 1 / 2]]) = [1, 2] \<and>
   this_N_cluster [1, 2] 0 = 1 \<and> this_N_cluster [1, 2] 1 = 1 \<and>
   split_loop (this_N_cluster [1, 2])
      (split_candidate (ex2_ops 2) 1 () [[0, 1], [1, 0]] 3 [1, 2]) [0, 1] None 0 =
     Some (Inr (None, 0)) \<and>
   estimate_ml_sustain_model_nplus1_clusters (ex2_ops 2) 1 () [[0, 1], [1, 0]] [1 / 2, 1 / 2] 0 =
     Some (Inl (UnboundLocalError ''ml_sequence''))"
proof -
  have n: "getNumSamples (ex2_ops 2) () = 2"
    by (simp add: ex2_ops_def)
  have len: "length [[0, 1], [1, 0 :: int]] = 2"
    by simp
  have ne: "[[0, 1], [1, 0 :: int]] \<noteq> []"
    by simp
  have r: "reshape_p_sequence
      (total_prob_cluster (calculate_likelihood (ex2_ops 2) () [[0, 1], [1, 0]] [1 / 2, 1 / 2]))
      (length [[0, 1], [1, 0 :: int]]) = Inr [[1 / 2, 0], [0, 1 / 2]]"
    by (simp only: len ex2_cluster_2 ex2_reshape_2)
  have cl: "ml_cluster_subj (getNumSamples (ex2_ops 2) ()) (p_sequence_norm 2 [[1 / 2, 0], [0, 1 / 2]]) =
      [1, 2]"
    unfolding n by (rule ex2_clusters_2)
  have small: "\<forall>ix<length [[0, 1], [1, 0 :: int]].
      this_N_cluster
        (ml_cluster_subj (getNumSamples (ex2_ops 2) ())
           (p_sequence_norm (length [[0, 1], [1, 0 :: int]]) [[1 / 2, 0], [0, 1 / 2]])) ix \<le> 1"
    unfolding len cl using ex2_counts_2 by (simp add: less_2_cases_iff)
  have three: "2 + 1 = (3 :: nat)"
    by simp
  note t = C4_all_skipped_return_raises [OF ne r small, of 1 0]
  from t have t': "split_loop (this_N_cluster [1, 2])
      (split_candidate (ex2_ops 2) 1 () [[0, 1], [1, 0]] 3 [1, 2]) [0, 1] None 0 =
        Some (Inr (None, 0)) \<and>
      estimate_ml_sustain_model_nplus1_clusters (ex2_ops 2) 1 () [[0, 1], [1, 0]] [1 / 2, 1 / 2] 0 =
        Some (Inl (UnboundLocalError ''ml_sequence''))"
    unfolding len cl upt_0_2 three .
  from ne r cl ex2_counts_2 t' show ?thesis
    by (intro conjI) simp_all
qed

text \<open>
  Three subjects, two assigned to the first subtype and one to the second: the first
  subtype alone is fitted.
\<close>

lemma ex2_split_phase_three_subjects:
  "[[0, 1], [1, 0 :: int]] \<noteq> [] \<and>
   reshape_p_sequence
      (total_prob_cluster (calculate_likelihood (ex2_ops 3) () [[0, 1], [1, 0]] [1 / 2, 1 / 2]))
      (length [[0, 1], [1, 0 :: int]]) = Inr [[1 / 2, 0], [1 / 2, 0], [0, 1 / 2]] \<and>
   ml_cluster_subj (getNumSamples (ex2_ops 3) ())
      (p_sequence_norm 2 [[1 / 2, 0], [1 / 2, 0], [0, 1 / 2]]) = [1, 1, 2] \<and>
   this_N_cluster [1, 1, 2] 0 = 2 \<and> this_N_cluster [1, 1, 2] 1 = 1 \<and>
   estimate_ml_sustain_model_nplus1_clusters (ex2_ops 3) 1 () [[0, 1], [1, 0]] [1 / 2, 1 / 2] 0 =
     (case evaluate_candidates
             (split_candidate (ex2_ops 3) 1 () [[0, 1], [1, 0]] 3 [1, 1, 2]) [0] None 0 of
        None \<Rightarrow> None
      | Some (Inl e) \<Rightarrow> Some (Inl e)
      | Some (Inr br) \<Rightarrow> grower_return br)"
proof -
  have n: "getNumSamples (ex2_ops 3) () = 3"
    by (simp add: ex2_ops_def)
  have r: "reshape_p_sequence
      (total_prob_cluster (calculate_likelihood (ex2_ops 3) () [[0, 1], [1, 0]] [1 / 2, 1 / 2]))
      (length [[0, 1], [1, 0 :: int]]) = Inr [[1 / 2, 0], [1 / 2, 0], [0, 1 / 2]]"
  proof -
    have "length [[0, 1], [1, 0 :: int]] = 2" by simp
    then show ?thesis by (simp only: ex2_cluster_3 ex2_reshape_3)
  qed
  have c: "this_N_cluster [1, 1, 2] 0 = 2 \<and> this_N_cluster [1, 1, 2] 1 = 1"
    by (simp add: this_N_cluster_def)
  have ne: "[[0, 1], [1, 0 :: int]] \<noteq> []"
    by simp
  have len: "length [[0, 1], [1, 0 :: int]] = 2"
    by simp
  have three: "2 + 1 = (3 :: nat)"
    by simp
  have f: "filter (\<lambda>ix. 1 < this_N_cluster [1, 1, 2] ix) [0, 1] = [0]"
    using c by (simp del: One_nat_def)
  note t = split_phase_skips_small_clusters
    [of _ _ "[]" _ _ "[[0, 1], [1, 0]]" "ex2_ops 3" "()" "[1 / 2, 1 / 2]"
        "[[1 / 2, 0], [1 / 2, 0], [0, 1 / 2]]" 1 0,
      THEN conjunct2, rule_format, OF conjI, OF ne r]
  have e: "estimate_ml_sustain_model_nplus1_clusters (ex2_ops 3) 1 () [[0, 1], [1, 0]] [1 / 2, 1 / 2] 0 =
     (case evaluate_candidates
             (split_candidate (ex2_ops 3) 1 () [[0, 1], [1, 0]] 3 [1, 1, 2]) [0] None 0 of
        None \<Rightarrow> None
      | Some (Inl e) \<Rightarrow> Some (Inl e)
      | Some (Inr br) \<Rightarrow> grower_return br)"
    using t unfolding len n ex2_clusters_3 upt_0_2 three f .
  have cl: "ml_cluster_subj (getNumSamples (ex2_ops 3) ())
      (p_sequence_norm 2 [[1 / 2, 0], [1 / 2, 0], [0, 1 / 2]]) = [1, 1, 2]"
    unfolding n by (rule ex2_clusters_3)
  from ne r cl c e show ?thesis
    by (intro conjI) simp_all
qed

subsection \<open>The assignment of the subjects\<close>

lemma assign_subtype_nan:
  assumes "has_nan (prob_subtype ! i)"
  shows "assign_subtype i prob_subtype out = Inr out"
  using assms by (simp add: assign_subtype_def split: prod.split)

lemma assign_subtype_keeps:
  assumes "assign_subtype j prob_subtype (a, b, c, d) = Inr (a', b', c', d')" and "i \<noteq> j"
  shows "a' ! i = a ! i"
  using assms
  by (auto simp: assign_subtype_def Let_def split: if_splits)

lemma assign_stage_keeps:
  assumes "assign_stage j prob_subtype_stage (a, b, c, d) = Inr (a', b', c', d')"
  shows "a' = a"
  using assms
  by (auto simp: assign_stage_def Let_def split: if_splits option.splits)

lemma assign_stage_nan:
  assumes "a ! i = None"
  shows "assign_stage i prob_subtype_stage (a, b, c, d) = Inl ValueError"
  using assms by (simp add: assign_stage_def)

lemma assign_subjects_raises:
  assumes "i \<in> set ixs" and "has_nan (prob_subtype ! i)" and "fst out ! i = None"
  shows "\<exists>e. assign_subjects ixs prob_subtype prob_subtype_stage out = Inl e"
  using assms
proof (induction ixs arbitrary: out)
  case Nil
  then show ?case by simp
next
  case (Cons j rest)
  obtain a b c d where out: "out = (a, b, c, d)"
    by (cases out) auto
  show ?case
  proof (cases "j = i")
    case True
    with Cons.prems out show ?thesis
      by (simp add: assign_subtype_nan assign_stage_nan)
  next
    case False
    with Cons.prems have mem: "i \<in> set rest" by simp
    show ?thesis
    proof (cases "assign_subtype j prob_subtype out")
      case (Inl e)
      then show ?thesis by simp
    next
      case (Inr out1)
      obtain a1 b1 c1 d1 where out1: "out1 = (a1, b1, c1, d1)"
        by (cases out1) auto
      from Inr out out1 False have k1: "a1 ! i = a ! i"
        by (auto dest: assign_subtype_keeps)
      show ?thesis
      proof (cases "assign_stage j prob_subtype_stage out1")
        case (Inl e)
        with Inr show ?thesis by simp
      next
        case (Inr out2)
        obtain a2 b2 c2 d2 where out2: "out2 = (a2, b2, c2, d2)"
          by (cases out2) auto
        from Inr out1 out2 have "a2 = a1"
          by (auto dest: assign_stage_keeps)
        with k1 Cons.prems(3) out out2 have "fst out2 ! i = None"
          by simp
        from Cons.IH [OF mem Cons.prems(2) this] Inr \<open>assign_subtype j prob_subtype out = Inr out1\<close>
        show ?thesis by simp
      qed
    qed
  qed
qed

text \<open>
  Claim C6, where the code departs from it. When the averaged subtype posterior of some
  subject contains a NaN, the loop does not return: for the first such subject the
  subtype stays NaN and \<^verbatim>\<open>int(ml_subtype[i])\<close> raises ValueError, unless an earlier
  subject has raised already.
\<close>

theorem C6_nan_subtype_posterior_raises:
  assumes "i < nSamples" and "has_nan (prob_subtype ! i)"
  shows "\<exists>e. ml_assignments nSamples prob_subtype prob_subtype_stage = Inl e"
  unfolding ml_assignments_def
  using assms by (intro assign_subjects_raises [of i]) simp_all

text \<open>
  Two subjects, two subtypes, two stages: the first subject has the posteriors of equal
  likelihoods, the second, of zero likelihood throughout, has NaN in every entry.
\<close>

theorem C6_nan_subject_witness:
  "(1 :: nat) < 2 \<and> has_nan ([[Some (1 / 2), Some (1 / 2)], [None, None]] ! 1) \<and>
   (\<exists>e. ml_assignments 2 [[Some (1 / 2), Some (1 / 2)], [None, None]]
          [[[Some (1 / 4), Some (1 / 4)], [Some (1 / 4), Some (1 / 4)]],
           [[None, None], [None, None]]] = Inl e) \<and>
   ml_assignments 2 [[Some (1 / 2), Some (1 / 2)], [None, None]]
     [[[Some (1 / 4), Some (1 / 4)], [Some (1 / 4), Some (1 / 4)]],
      [[None, None], [None, None]]] = Inl ValueError"
proof -
  have a: "(1 :: nat) < 2" by simp
  have b: "has_nan ([[Some (1 / 2), Some (1 / 2)], [None, None]] ! 1)"
    by (simp add: has_nan_def)
  note c = C6_nan_subtype_posterior_raises [OF a b,
      of "[[[Some (1 / 4), Some (1 / 4)], [Some (1 / 4), Some (1 / 4)]], [[None, None], [None, None]]]"]
  have w2: "np_where_eq [1 / 2, 1 / 2] (py_max [1 / 2, 1 / 2]) = [0, 1]"
    by (simp add: np_where_eq_def py_max_def upt_0_2)
  have w4: "np_where_eq [1 / 4, 1 / 4] (py_max [1 / 4, 1 / 4]) = [0, 1]"
    by (simp add: np_where_eq_def py_max_def upt_0_2)
  have d: "ml_assignments 2 [[Some (1 / 2), Some (1 / 2)], [None, None]]
     [[[Some (1 / 4), Some (1 / 4)], [Some (1 / 4), Some (1 / 4)]],
      [[None, None], [None, None]]] = Inl ValueError"
    by (simp add: ml_assignments_def upt_0_2 assign_subtype_def assign_stage_def has_nan_def
        w2 w4 numeral_2_eq_2)
  from a b c d show ?thesis by (intro conjI)
qed

subsection \<open>The tuning of the proposal scales\<close>

lemma scatter_arange_distinct:
  assumes "distinct xs" and "\<forall>x\<in>set xs. 0 \<le> x \<and> x < int (length tinv)"
  shows "\<exists>tinv'. scatter_arange xs j tinv = Inr tinv' \<and> length tinv' = length tinv \<and>
           (\<forall>k<length xs. tinv' ! nat (xs ! k) = j + k) \<and>
           (\<forall>i<length tinv. int i \<notin> set xs \<longrightarrow> tinv' ! i = tinv ! i)"
  using assms
proof (induction xs arbitrary: j tinv)
  case Nil
  then show ?case by simp
next
  case (Cons x xs)
  let ?tinv1 = "tinv[nat x := j]"
  from Cons.prems have x: "0 \<le> x" "x < int (length tinv)" and d: "distinct xs" "x \<notin> set xs"
    and r: "\<forall>y\<in>set xs. 0 \<le> y \<and> y < int (length ?tinv1)"
    by simp_all
  from Cons.IH [OF d(1) r, of "j + 1"] obtain tinv' where
    s: "scatter_arange xs (j + 1) ?tinv1 = Inr tinv'" and
    l: "length tinv' = length ?tinv1" and
    p: "\<forall>k<length xs. tinv' ! nat (xs ! k) = j + 1 + k" and
    q: "\<forall>i<length ?tinv1. int i \<notin> set xs \<longrightarrow> tinv' ! i = ?tinv1 ! i"
    by blast
  have step: "scatter_arange (x # xs) j tinv = Inr tinv'"
    using x s by (simp add: Let_def)
  have nx: "nat x < length tinv"
    using x by simp
  have at_x: "tinv' ! nat x = j"
  proof -
    from x d(2) have "int (nat x) \<notin> set xs" by simp
    with q nx have "tinv' ! nat x = ?tinv1 ! nat x" by simp
    with nx show ?thesis by simp
  qed
  have pos: "tinv' ! nat ((x # xs) ! k) = j + k" if "k < length (x # xs)" for k
  proof (cases k)
    case 0
    with at_x show ?thesis by simp
  next
    case (Suc k')
    with that p show ?thesis by simp
  qed
  have keep: "tinv' ! i = tinv ! i" if "i < length tinv" "int i \<notin> set (x # xs)" for i
  proof -
    from that have "int i \<notin> set xs" "int i \<noteq> x" by auto
    then have "i \<noteq> nat x" using x(1) by auto
    with q that(1) \<open>int i \<notin> set xs\<close> show ?thesis by simp
  qed
  from step l pos keep show ?case
    by auto
qed

lemma position_of_nth:
  "distinct seq \<Longrightarrow> k < length seq \<Longrightarrow> position_of seq (seq ! k) = k"
proof (induction seq arbitrary: k)
  case Nil
  then show ?case by simp
next
  case (Cons x xs)
  show ?case
  proof (cases k)
    case 0
    then show ?thesis by simp
  next
    case (Suc k')
    with Cons.prems have "k' < length xs" "xs ! k' \<in> set xs" "x \<notin> set xs" "distinct xs"
      by simp_all
    then have "xs ! k' \<noteq> x" by auto
    with Cons.IH [OF \<open>distinct xs\<close> \<open>k' < length xs\<close>] Suc show ?thesis
      by simp
  qed
qed

lemma scatter_arange_permutation:
  assumes "is_stage_permutation seq N"
  shows "scatter_arange seq 0 (replicate N 0) = Inr (map (\<lambda>j. position_of seq (int j)) [0..<N])"
proof -
  from assms have len: "length seq = N" and d: "distinct seq" and st: "set seq = int ` {..<N}"
    by (simp_all add: is_stage_permutation_def)
  from st have r: "\<forall>x\<in>set seq. 0 \<le> x \<and> x < int (length (replicate N (0 :: nat)))"
    by auto
  from scatter_arange_distinct [OF d r, of 0] obtain tinv' where
    s: "scatter_arange seq 0 (replicate N 0) = Inr tinv'" and
    l: "length tinv' = N" and
    p: "\<forall>k<length seq. tinv' ! nat (seq ! k) = k"
    by auto
  have "tinv' = map (\<lambda>j. position_of seq (int j)) [0..<N]"
  proof (rule nth_equalityI)
    show "length tinv' = length (map (\<lambda>j. position_of seq (int j)) [0..<N])"
      using l by simp
  next
    fix j
    assume "j < length tinv'"
    with l have j: "j < N" by simp
    with st have "int j \<in> set seq" by auto
    then obtain k where k: "k < length seq" "seq ! k = int j"
      by (auto simp: in_set_conv_nth)
    with p have "tinv' ! j = k" by fastforce
    moreover from position_of_nth [OF d k(1)] k(2) have "position_of seq (int j) = k"
      by simp
    ultimately show "tinv' ! j = map (\<lambda>j. position_of seq (int j)) [0..<N] ! j"
      using j by simp
  qed
  with s show ?thesis by simp
qed

lemma position_samples_permutations:
  assumes "\<forall>k\<in>set xs. k < D \<and> is_stage_permutation (draw_column plane k) N"
  shows "position_samples plane N D xs =
           Inr (map (\<lambda>k. map (\<lambda>j. position_of (draw_column plane k) (int j)) [0..<N]) xs)"
  using assms
proof (induction xs)
  case Nil
  show ?case by simp
next
  case (Cons k xs)
  then have "k < D" "is_stage_permutation (draw_column plane k) N" by simp_all
  with Cons show ?case
    by (simp add: scatter_arange_permutation)
qed

lemma position_plane_closed:
  "position_plane N n (map (\<lambda>k. map (\<lambda>j. g k j) [0..<N]) [0..<n]) =
     map (\<lambda>j. map (\<lambda>k. real (g k j)) [0..<n]) [0..<N]"
  unfolding position_plane_def
  by (intro map_cong refl) simp

lemma position_planes_permutations:
  assumes "\<forall>s\<in>set xs. s < length ss \<and> (\<forall>k<n. is_stage_permutation (draw_column (ss ! s) k) N)"
  shows "position_planes ss N n n xs =
           Inr (map (\<lambda>s. map (\<lambda>j. map (\<lambda>k. real (position_of (draw_column (ss ! s) k) (int j)))
                                     [0..<n]) [0..<N]) xs)"
  using assms
proof (induction xs)
  case Nil
  show ?case by simp
next
  case (Cons s xs)
  then have s: "s < length ss" and pm: "\<forall>k<n. is_stage_permutation (draw_column (ss ! s) k) N"
    by simp_all
  have ps: "position_samples (ss ! s) N n [0..<n] =
           Inr (map (\<lambda>k. map (\<lambda>j. position_of (draw_column (ss ! s) k) (int j)) [0..<N]) [0..<n])"
    by (rule position_samples_permutations) (simp add: pm)
  from Cons s show ?case
    by (simp add: ps position_plane_closed)
qed

lemma draw_column_nth:
  assumes "length plane = N"
  shows "draw_column plane k = map (\<lambda>i. plane ! i ! k) [0..<N]"
  unfolding draw_column_def
  using assms by (intro nth_equalityI) simp_all

lemma samples_position_chain:
  assumes "chain_of_permutations N_S N n ss"
  shows "samples_position N_S n ss =
           Inr (map (\<lambda>s. map (\<lambda>j. map (\<lambda>k. real (position_of (map (\<lambda>i. ss ! s ! i ! k) [0..<N]) (int j)))
                                     [0..<n]) [0..<N]) [0..<N_S])"
proof (cases "N_S = 0")
  case True
  with assms have "ss = []"
    by (simp add: chain_of_permutations_def)
  with True show ?thesis
    by (simp add: samples_position_def)
next
  case False
  from assms have N: "0 < N" and len: "length ss = N_S"
    and all0: "\<forall>s<N_S. length (ss ! s) = N \<and> (\<forall>j<N. length (ss ! s ! j) = n) \<and>
                (\<forall>k<n. is_stage_permutation (map (\<lambda>i. ss ! s ! i ! k) [0..<N]) N)"
    by (simp_all add: chain_of_permutations_def)
  have col: "draw_column (ss ! s) k = map (\<lambda>i. ss ! s ! i ! k) [0..<N]" if "s < N_S" for s k
    using all0 that by (intro draw_column_nth) simp
  from all0 col have all: "\<forall>s<N_S. length (ss ! s) = N \<and> (\<forall>j<N. length (ss ! s ! j) = n) \<and>
                (\<forall>k<n. is_stage_permutation (draw_column (ss ! s) k) N)"
    by simp
  from False len obtain plane rest where ss: "ss = plane # rest"
    by (cases ss) auto
  from all False have p0: "length (ss ! 0) = N" "length (ss ! 0 ! 0) = n"
    using N by auto
  with ss have pl: "length plane = N" "shape1 plane = n"
    using N by (auto simp: shape1_def split: list.split)
  have pp: "position_planes ss N n n [0..<N_S] =
           Inr (map (\<lambda>s. map (\<lambda>j. map (\<lambda>k. real (position_of (draw_column (ss ! s) k) (int j)))
                                     [0..<n]) [0..<N]) [0..<N_S])"
    by (rule position_planes_permutations) (simp add: len all)
  have eq: "map (\<lambda>s. map (\<lambda>j. map (\<lambda>k. real (position_of (draw_column (ss ! s) k) (int j)))
                                     [0..<n]) [0..<N]) [0..<N_S] =
            map (\<lambda>s. map (\<lambda>j. map (\<lambda>k. real (position_of (map (\<lambda>i. ss ! s ! i ! k) [0..<N]) (int j)))
                                     [0..<n]) [0..<N]) [0..<N_S]"
    by (rule map_cong [OF refl]) (simp add: col)
  have Ncase: "(case ss of [] \<Rightarrow> 0 | plane # x \<Rightarrow> length plane) = N"
    by (simp add: ss pl)
  have Dcase: "(case ss of [] \<Rightarrow> 0 | plane # x \<Rightarrow> shape1 plane) = n"
    by (simp add: ss pl)
  show ?thesis
    unfolding samples_position_def Let_def Ncase Dcase pp eq
    using len by simp
qed

lemma tuning_pass_chain:
  fixes ops :: "('d, 'r) sustain_methods"
  assumes "chain_of_permutations (length seq_init) N n_iterations_MCMC_optimisation
             (mcmc_samples_sequence
                (perform_mcmc ops d seq_init f_init n_iterations_MCMC_optimisation seq_sigma f_sigma r))"
  shows "tuning_pass ops d seq_init f_init (seq_sigma, f_sigma, r) =
     Inr (Inr (tuned_seq_sigma (length seq_init) N n_iterations_MCMC_optimisation
                 (mcmc_samples_sequence
                    (perform_mcmc ops d seq_init f_init n_iterations_MCMC_optimisation
                       seq_sigma f_sigma r))),
          Inr (tuned_f_sigma
                 (mcmc_samples_f
                    (perform_mcmc ops d seq_init f_init n_iterations_MCMC_optimisation
                       seq_sigma f_sigma r))),
          snd (perform_mcmc ops d seq_init f_init n_iterations_MCMC_optimisation seq_sigma f_sigma r))"
proof -
  obtain mlS mlf mll ss sf sl r' where
    res: "perform_mcmc ops d seq_init f_init n_iterations_MCMC_optimisation seq_sigma f_sigma r =
            ((mlS, mlf, mll, ss, sf, sl), r')"
    by (metis prod_cases3 surj_pair)
  from assms have ch: "chain_of_permutations (length seq_init) N n_iterations_MCMC_optimisation ss"
    by (simp add: res mcmc_samples_sequence_def)
  show ?thesis
    unfolding tuning_pass_def
    by (simp add: res samples_position_chain [OF ch] mcmc_samples_sequence_def mcmc_samples_f_def
        tuned_seq_sigma_def tuned_f_sigma_def comp_def)
qed

text \<open>
  Claim C7. When \<^verbatim>\<open>_perform_mcmc\<close> returns, for \<open>10000\<close> iterations, chains of \<open>10000\<close>
  draws in which every sequence is a permutation of the stages,
  \<^verbatim>\<open>_optimise_mcmc_settings\<close> makes exactly three calls of it, each of \<open>10000\<close>
  iterations, the first at the scales \<open>1\<close> and \<open>0.01\<close> and each later one at the scales
  estimated from the call before; it returns the scales estimated from the third, and
  \<^verbatim>\<open>_estimate_uncertainty_sustain_model\<close> hands these to the production chain. The
  sequence scale of a subtype \<open>s\<close> and a stage \<open>j\<close> is the standard deviation with
  denominator \<open>n - 1\<close>, across the draws \<open>k\<close>, of the position of the stage in the
  sequence drawn at \<open>k\<close>, whose entries are \<open>ss ! s ! i ! k\<close> over the positions \<open>i\<close>; it is
  replaced by \<open>0.01\<close> when it is below. The fraction scale of a subtype is that standard
  deviation of its drawn fractions.
\<close>

theorem C7_tuned_proposal_scales:
  fixes ops :: "('d, 'r) sustain_methods"
  assumes contract:
    "\<And>seq_sigma f_sigma r0.
       chain_of_permutations (length seq_init) (getNumStages ops d) 10000
         (mcmc_samples_sequence (perform_mcmc ops d seq_init f_init 10000 seq_sigma f_sigma r0))"
  shows
    "(let seq_scale = (\<lambda>res. Inr (tuned_seq_sigma (length seq_init) (getNumStages ops d) 10000
                                     (mcmc_samples_sequence res)));
          f_scale = (\<lambda>res. Inr (tuned_f_sigma (mcmc_samples_f res)));
          pass1 = perform_mcmc ops d seq_init f_init 10000 (Inl 1) (Inl (1 / 100)) r;
          pass2 = perform_mcmc ops d seq_init f_init 10000 (seq_scale pass1) (f_scale pass1) (snd pass1);
          pass3 = perform_mcmc ops d seq_init f_init 10000 (seq_scale pass2) (f_scale pass2) (snd pass2)
      in optimise_mcmc_settings ops d seq_init f_init r =
           Inr (seq_scale pass3, f_scale pass3, snd pass3) \<and>
         estimate_uncertainty_sustain_model ops N_iterations_MCMC d seq_init f_init r =
           Inr (perform_mcmc ops d seq_init f_init N_iterations_MCMC
                  (seq_scale pass3) (f_scale pass3) (snd pass3))) \<and>
     (\<forall>N_S N n ss. \<forall>s<N_S. \<forall>j<N.
        tuned_seq_sigma N_S N n ss ! s ! j =
          (let x = np_std_ddof1
                     (map (\<lambda>k. real (position_of (map (\<lambda>i. ss ! s ! i ! k) [0..<N]) (int j))) [0..<n])
           in if x < 1 / 100 then 1 / 100 else x)) \<and>
     (\<forall>sf. \<forall>s<length sf. tuned_f_sigma sf ! s = np_std_ddof1 (sf ! s)) \<and>
     (\<forall>xs. np_std_ddof1 xs =
        sqrt ((\<Sum>x\<leftarrow>xs. (x - (\<Sum>y\<leftarrow>xs. y) / real (length xs))\<^sup>2) / (real (length xs) - 1)))"
proof (intro conjI)
  let ?n = "n_iterations_MCMC_optimisation"
  let ?seq = "\<lambda>res :: (int list list \<times> real list \<times> real \<times> int list list list \<times> real list list \<times> real list) \<times> 'r.
     (Inr (tuned_seq_sigma (length seq_init) (getNumStages ops d) ?n (mcmc_samples_sequence res))
        :: real + real list list)"
  let ?f = "\<lambda>res :: (int list list \<times> real list \<times> real \<times> int list list list \<times> real list list \<times> real list) \<times> 'r.
     (Inr (tuned_f_sigma (mcmc_samples_f res)) :: real + real list)"
  let ?p1 = "perform_mcmc ops d seq_init f_init ?n (Inl 1) (Inl (1 / 100)) r"
  let ?p2 = "perform_mcmc ops d seq_init f_init ?n (?seq ?p1) (?f ?p1) (snd ?p1)"
  let ?p3 = "perform_mcmc ops d seq_init f_init ?n (?seq ?p2) (?f ?p2) (snd ?p2)"
  have n: "?n = 10000"
    by (simp add: n_iterations_MCMC_optimisation_def)
  have c: "chain_of_permutations (length seq_init) (getNumStages ops d) ?n
         (mcmc_samples_sequence (perform_mcmc ops d seq_init f_init ?n seq_sigma f_sigma r0))"
    for seq_sigma f_sigma r0
    unfolding n by (rule contract)
  have t1: "tuning_pass ops d seq_init f_init (Inl 1, Inl (1 / 100), r) = Inr (?seq ?p1, ?f ?p1, snd ?p1)"
    by (rule tuning_pass_chain [OF c])
  have t2: "tuning_pass ops d seq_init f_init (?seq ?p1, ?f ?p1, snd ?p1) =
              Inr (?seq ?p2, ?f ?p2, snd ?p2)"
    by (rule tuning_pass_chain [OF c])
  have t3: "tuning_pass ops d seq_init f_init (?seq ?p2, ?f ?p2, snd ?p2) =
              Inr (?seq ?p3, ?f ?p3, snd ?p3)"
    by (rule tuning_pass_chain [OF c])
  have opt: "optimise_mcmc_settings ops d seq_init f_init r = Inr (?seq ?p3, ?f ?p3, snd ?p3)"
    unfolding optimise_mcmc_settings_def n_passes_optimisation_def upt_0_3
    by (simp only: tuning_passes.simps t1 t2 t3 sum.case)
  have est: "estimate_uncertainty_sustain_model ops N_iterations_MCMC d seq_init f_init r =
           Inr (perform_mcmc ops d seq_init f_init N_iterations_MCMC (?seq ?p3) (?f ?p3) (snd ?p3))"
    unfolding estimate_uncertainty_sustain_model_def opt by simp
  from opt est show "let seq_scale = (\<lambda>res. Inr (tuned_seq_sigma (length seq_init) (getNumStages ops d) 10000
                                     (mcmc_samples_sequence res)));
          f_scale = (\<lambda>res. Inr (tuned_f_sigma (mcmc_samples_f res)));
          pass1 = perform_mcmc ops d seq_init f_init 10000 (Inl 1) (Inl (1 / 100)) r;
          pass2 = perform_mcmc ops d seq_init f_init 10000 (seq_scale pass1) (f_scale pass1) (snd pass1);
          pass3 = perform_mcmc ops d seq_init f_init 10000 (seq_scale pass2) (f_scale pass2) (snd pass2)
      in optimise_mcmc_settings ops d seq_init f_init r =
           Inr (seq_scale pass3, f_scale pass3, snd pass3) \<and>
         estimate_uncertainty_sustain_model ops N_iterations_MCMC d seq_init f_init r =
           Inr (perform_mcmc ops d seq_init f_init N_iterations_MCMC
                  (seq_scale pass3) (f_scale pass3) (snd pass3))"
    unfolding Let_def n by (rule conjI)
  show "\<forall>N_S N n ss. \<forall>s<N_S. \<forall>j<N.
        tuned_seq_sigma N_S N n ss ! s ! j =
          (let x = np_std_ddof1
                     (map (\<lambda>k. real (position_of (map (\<lambda>i. ss ! s ! i ! k) [0..<N]) (int j))) [0..<n])
           in if x < 1 / 100 then 1 / 100 else x)"
    by (simp add: tuned_seq_sigma_def floor_sigma_def Let_def)
  show "\<forall>sf. \<forall>s<length sf. tuned_f_sigma sf ! s = np_std_ddof1 (sf ! s)"
    by (simp add: tuned_f_sigma_def)
  show "\<forall>xs. np_std_ddof1 xs =
        sqrt ((\<Sum>x\<leftarrow>xs. (x - (\<Sum>y\<leftarrow>xs. y) / real (length xs))\<^sup>2) / (real (length xs) - 1))"
    by (simp add: np_std_ddof1_def Let_def)
qed

lemma sum_list_alternating:
  "sum_list (map (\<lambda>k. if even k then a else b) [0..<2 * m]) = real m * (a + b)"
proof (induction m)
  case 0
  show ?case by simp
next
  case (Suc m)
  have "[0..<2 * Suc m] = [0..<2 * m] @ [2 * m, Suc (2 * m)]"
    by simp
  then have "sum_list (map (\<lambda>k. if even k then a else b) [0..<2 * Suc m]) =
      sum_list (map (\<lambda>k. if even k then a else b) [0..<2 * m]) + (a + b)"
    by simp
  also have "\<dots> = real m * (a + b) + (a + b)"
    by (simp only: Suc.IH)
  also have "\<dots> = real (Suc m) * (a + b)"
    by (simp add: algebra_simps)
  finally show ?case .
qed

lemma np_std_alternating:
  assumes "0 < m"
  shows "np_std_ddof1 (map (\<lambda>k. if even k then a else b) [0..<2 * m]) =
           sqrt (real (2 * m) * ((a - b) / 2)\<^sup>2 / (real (2 * m) - 1))"
proof -
  let ?xs = "map (\<lambda>k. if even k then a else b) [0..<2 * m]"
  have mean: "sum_list ?xs / real (length ?xs) = (a + b) / 2"
    using assms by (simp add: sum_list_alternating)
  have dev: "map (\<lambda>x. (x - (a + b) / 2)\<^sup>2) ?xs = replicate (2 * m) (((a - b) / 2)\<^sup>2)"
  proof -
    have "(a - (a + b) / 2)\<^sup>2 = ((a - b) / 2)\<^sup>2" "(b - (a + b) / 2)\<^sup>2 = ((a - b) / 2)\<^sup>2"
      by (simp_all add: power2_eq_square field_simps)
    then have "map (\<lambda>x. (x - (a + b) / 2)\<^sup>2) ?xs = map (\<lambda>k. ((a - b) / 2)\<^sup>2) [0..<2 * m]"
      by (simp add: comp_def if_distrib [of "\<lambda>x. (x - (a + b) / 2)\<^sup>2"] cong: if_cong)
    then show ?thesis
      by (simp add: map_replicate_const)
  qed
  show ?thesis
    unfolding np_std_ddof1_def Let_def mean dev
    by (simp add: sum_list_replicate)
qed


lemma ex3_mcmc:
  "perform_mcmc ex3_ops () [[0, 1]] [1] n seq_sigma f_sigma r0 =
     (([[0, 1]], [1], - (1 / 2),
       [[map (\<lambda>k. if even k then 0 else 1) [0..<n], map (\<lambda>k. if even k then 1 else 0) [0..<n]]],
       [map (\<lambda>k. if even k then 1 else 1 / 2) [0..<n]], replicate n (- (1 / 2))),
      Suc r0)"
  by (simp add: ex3_ops_def upt_0_2)

lemma ex3_draw:
  assumes "k < n"
  shows "map (\<lambda>i. [[map (\<lambda>k. if even k then 0 else 1) [0..<n],
                     map (\<lambda>k. if even k then 1 else (0 :: int)) [0..<n]]] ! 0 ! i ! k) [0..<2] =
           (if even k then [0, 1] else [1, 0])"
  using assms by (simp add: upt_0_2)

lemma ex3_chain:
  "chain_of_permutations (length [[0, 1 :: int]]) (getNumStages ex3_ops ()) n
     (mcmc_samples_sequence (perform_mcmc ex3_ops () [[0, 1]] [1] n seq_sigma f_sigma r0))"
proof -
  have g: "getNumStages ex3_ops () = 2"
    by (simp add: ex3_ops_def)
  have p: "is_stage_permutation
             (map (\<lambda>i. [[map (\<lambda>k. if even k then 0 else 1) [0..<n],
                          map (\<lambda>k. if even k then 1 else (0 :: int)) [0..<n]]] ! 0 ! i ! k) [0..<2]) 2"
    if "k < n" for k
    unfolding ex3_draw [OF that]
    by (auto simp: is_stage_permutation_def lessThan_2)
  have len: "\<forall>j<2. length ([map (\<lambda>k. if even k then 0 else 1) [0..<n],
                              map (\<lambda>k. if even k then 1 else (0 :: int)) [0..<n]] ! j) = n"
    by (simp add: less_2_cases_iff)
  show ?thesis
    unfolding ex3_mcmc g mcmc_samples_sequence_def chain_of_permutations_def
    using p len by simp
qed

lemma ex3_tuned_seq:
  "tuned_seq_sigma (length [[0, 1 :: int]]) (getNumStages ex3_ops ()) 10000
     [[map (\<lambda>k. if even k then 0 else 1) [0..<10000],
       map (\<lambda>k. if even k then 1 else 0) [0..<10000]]] =
     [[sqrt (2500 / 9999), sqrt (2500 / 9999)]]"
proof -
  let ?ss = "[[map (\<lambda>k. if even k then 0 else 1) [0..<10000],
               map (\<lambda>k. if even k then 1 else (0 :: int)) [0..<10000]]]"
  have g: "getNumStages ex3_ops () = 2"
    by (simp add: ex3_ops_def)
  have n: "[0..<10000] = [0..<2 * 5000]"
    by simp
  have p0: "map (\<lambda>k. real (position_of (map (\<lambda>i. ?ss ! 0 ! i ! k) [0..<2]) (int 0))) [0..<10000] =
            map (\<lambda>k. if even k then 0 else 1) [0..<10000]"
  proof (rule map_cong [OF refl])
    fix k
    assume "k \<in> set [0..<10000]"
    then have k: "k < 10000" by simp
    show "real (position_of (map (\<lambda>i. ?ss ! 0 ! i ! k) [0..<2]) (int 0)) = (if even k then 0 else 1)"
      unfolding ex3_draw [OF k] by simp
  qed
  have p1: "map (\<lambda>k. real (position_of (map (\<lambda>i. ?ss ! 0 ! i ! k) [0..<2]) (int 1))) [0..<10000] =
            map (\<lambda>k. if even k then 1 else 0) [0..<10000]"
  proof (rule map_cong [OF refl])
    fix k
    assume "k \<in> set [0..<10000]"
    then have k: "k < 10000" by simp
    show "real (position_of (map (\<lambda>i. ?ss ! 0 ! i ! k) [0..<2]) (int 1)) = (if even k then 1 else 0)"
      unfolding ex3_draw [OF k] by simp
  qed
  have s0: "np_std_ddof1 (map (\<lambda>k. if even k then 0 else 1) [0..<10000]) = sqrt (2500 / 9999)"
    unfolding n by (subst np_std_alternating) (simp_all add: power2_eq_square)
  have s1: "np_std_ddof1 (map (\<lambda>k. if even k then 1 else 0) [0..<10000]) = sqrt (2500 / 9999)"
    unfolding n by (subst np_std_alternating) (simp_all add: power2_eq_square)
  have fl: "floor_sigma (sqrt (2500 / 9999)) = sqrt (2500 / 9999)"
  proof -
    have "sqrt ((1 / 100)\<^sup>2) \<le> sqrt (2500 / 9999)"
      by (rule real_sqrt_le_mono) (simp add: power2_eq_square)
    then have "1 / 100 \<le> sqrt (2500 / 9999)"
      by simp
    then show ?thesis
      by (simp add: floor_sigma_def)
  qed
  have len: "length [[0, 1 :: int]] = 1"
    by simp
  define Q where "Q s j = np_std_ddof1
      (map (\<lambda>k. real (position_of (map (\<lambda>i. ?ss ! s ! i ! k) [0..<2]) (int j))) [0..<10000])"
    for s j
  have q0: "Q 0 0 = sqrt (2500 / 9999)"
    unfolding Q_def p0 s0 ..
  have "Q 0 1 = sqrt (2500 / 9999)"
    unfolding Q_def p1 s1 ..
  then have q1: "Q 0 (Suc 0) = sqrt (2500 / 9999)"
    by simp
  have t: "tuned_seq_sigma (length [[0, 1 :: int]]) (getNumStages ex3_ops ()) 10000 ?ss =
      map (\<lambda>s. map (\<lambda>j. floor_sigma (Q s j)) [0..<2]) [0..<1]"
    unfolding tuned_seq_sigma_def g len Q_def ..
  show ?thesis
    unfolding t by (simp add: upt_0_2 q0 q1 fl)
qed

lemma ex3_tuned_f:
  "tuned_f_sigma [map (\<lambda>k. if even k then 1 else 1 / 2) [0..<10000]] = [sqrt (625 / 9999)]"
proof -
  have n: "[0..<10000] = [0..<2 * 5000]"
    by simp
  have "np_std_ddof1 (map (\<lambda>k. if even k then 1 else 1 / 2) [0..<10000]) = sqrt (625 / 9999)"
    unfolding n by (subst np_std_alternating) (simp_all add: power2_eq_square)
  then show ?thesis
    by (simp add: tuned_f_sigma_def)
qed


text \<open>
  The example model, whose chain alternates between the sequence \<open>[0, 1]\<close> and its
  reverse and between the fractions \<open>1\<close> and \<open>1/2\<close>: the position of either stage is \<open>0\<close>
  in half of the \<open>10000\<close> draws and \<open>1\<close> in the others, so both sequence scales are
  \<open>sqrt (2500 / 9999)\<close>, about \<open>0.50003\<close>, and the fraction scale is \<open>sqrt (625 / 9999)\<close>,
  about \<open>0.25001\<close>.
\<close>

theorem C7_tuned_scales_witness:
  "optimise_mcmc_settings ex3_ops () [[0, 1]] [1] 0 =
     Inr (Inr [[sqrt (2500 / 9999), sqrt (2500 / 9999)]], Inr [sqrt (625 / 9999)], 3) \<and>
   estimate_uncertainty_sustain_model ex3_ops 5 () [[0, 1]] [1] 0 =
     Inr (perform_mcmc ex3_ops () [[0, 1]] [1] 5
            (Inr [[sqrt (2500 / 9999), sqrt (2500 / 9999)]]) (Inr [sqrt (625 / 9999)]) 3)"
proof -
  note t = C7_tuned_proposal_scales [of "[[0, 1]]" ex3_ops "()" "[1]" 0 5, OF ex3_chain, THEN conjunct1]
  let ?res = "\<lambda>q :: nat. (([[0, 1]], [1], - (1 / 2),
       [[map (\<lambda>k. if even k then 0 else 1) [0..<10000], map (\<lambda>k. if even k then 1 else 0) [0..<10000]]],
       [map (\<lambda>k. if even k then 1 else 1 / 2) [0..<10000]], replicate 10000 (- (1 / 2))), q)"
  have s: "mcmc_samples_sequence (?res q) =
             [[map (\<lambda>k. if even k then 0 else 1) [0..<10000],
               map (\<lambda>k. if even k then 1 else 0) [0..<10000]]]" for q
    by (simp add: mcmc_samples_sequence_def)
  have f: "mcmc_samples_f (?res q) = [map (\<lambda>k. if even k then 1 else 1 / 2) [0..<10000]]" for q
    by (simp add: mcmc_samples_f_def)
  have three: "Suc (Suc (Suc 0)) = 3"
    by simp
  from t show ?thesis
    unfolding Let_def ex3_mcmc s f ex3_tuned_seq ex3_tuned_f snd_conv three .
qed

subsection \<open>The driver\<close>

lemma run_subtypes_append:
  "run_subtypes ops cfg d (xs @ ys) st =
     (case run_subtypes ops cfg d xs st of
        None \<Rightarrow> None
      | Some (Inl e) \<Rightarrow> Some (Inl e)
      | Some (Inr st') \<Rightarrow> run_subtypes ops cfg d ys st')"
  by (induction xs arbitrary: st) (simp_all split: option.split sum.split)

lemma run_subtype_effects:
  assumes "run_subtype ops cfg d s st = Some (Inr st')"
  shows "run_plots st' = run_plots st @ [s]"
    and "dom (run_files st') = insert (pickle_filename_s cfg s) (dom (run_files st))"
    and "\<forall>name \<in> dom (run_files st). run_files st' name = run_files st name"
  using assms
  by (auto simp: run_subtype_def Let_def split: option.splits sum.splits prod.splits)

lemma run_subtypes_effects:
  assumes "run_subtypes ops cfg d ss st = Some (Inr st')"
  shows "run_plots st' = run_plots st @ ss \<and>
         dom (run_files st') = pickle_filename_s cfg ` set ss \<union> dom (run_files st) \<and>
         (\<forall>name \<in> dom (run_files st). run_files st' name = run_files st name)"
  using assms
proof (induction ss arbitrary: st)
  case Nil
  then show ?case by simp
next
  case (Cons s ss)
  from Cons.prems obtain st1 where
    one: "run_subtype ops cfg d s st = Some (Inr st1)" and
    rest: "run_subtypes ops cfg d ss st1 = Some (Inr st')"
    by (auto split: option.splits sum.splits)
  note e = run_subtype_effects [OF one]
  note ih = Cons.IH [OF rest]
  from e ih show ?case
    by auto
qed

lemma run_subtype_vars:
  assumes "run_subtype ops cfg d s st = Some (Inr st')"
  shows "\<exists>v. run_vars st' = Some v \<and>
           load_or_fit ops cfg d s st =
             Some (Inr ((sv_samples_sequence v, sv_samples_f v, sv_samples_likelihood v,
                         sv_ml_sequence_EM v, sv_ml_f_EM v),
                        run_ml_sequence_prev_EM st', run_ml_f_prev_EM st', run_rng st')) \<and>
           subtype_and_stage_individuals ops d (sv_samples_sequence v)
               (sv_samples_f v) 1000 =
             Inr (sv_ml_subtype v, sv_prob_ml_subtype v, sv_ml_stage v, sv_prob_ml_stage v)"
  using assms
  by (auto simp: run_subtype_def Let_def split: option.splits sum.splits prod.splits)

text \<open>
  With no subtype count to fit, the loop makes no iteration and the return statement
  reads an unbound variable.
\<close>

lemma run_no_subtypes:
  assumes "cfg_N_S_max cfg = 0"
  shows "run_sustain_algorithm ops cfg d files r =
           Some (Inl (UnboundLocalError ''samples_sequence''))"
  using assms by (simp add: run_sustain_algorithm_def run_return_def)


lemma upt_Suc_last: "[0..<Suc n] = [0..<n] @ [n]"
  by simp

text \<open>
  Claim C10. When \<^verbatim>\<open>run_sustain_algorithm\<close> returns, \<^verbatim>\<open>N_S_max\<close> is positive and the six
  values returned are those of the last iteration of the loop, for the subtype count
  \<open>s = N_S_max - 1\<close>: the draws \<^verbatim>\<open>samples_sequence\<close> and \<^verbatim>\<open>samples_f\<close> that this
  iteration loaded from its pickle file or obtained from its fit, and the assignment of
  the subjects computed from these draws. The iterations for the smaller subtype counts
  pass on to it only the files, the previous model and the generator's state. Every
  subtype count below \<^verbatim>\<open>N_S_max\<close> has been plotted, in order, and has its pickle file
  when the function returns.
\<close>

theorem C10_run_returns_last_subtype_count:
  fixes ops :: "('d, 'r) sustain_methods"
  assumes "run_sustain_algorithm ops cfg d files r = Some (Inr (out, fin))"
  shows "\<exists>n st samples_sequence samples_f samples_likelihood ml_sequence_EM ml_f_EM
            ml_subtype prob_ml_subtype ml_stage prob_ml_stage.
           cfg_N_S_max cfg = Suc n \<and>
           run_subtypes ops cfg d [0..<n]
               \<lparr> run_files = files, run_ml_sequence_prev_EM = [], run_ml_f_prev_EM = [],
                 run_vars = None, run_plots = [], run_rng = r \<rparr> = Some (Inr st) \<and>
           run_subtype ops cfg d n st = Some (Inr fin) \<and>
           load_or_fit ops cfg d n st =
             Some (Inr ((samples_sequence, samples_f, samples_likelihood, ml_sequence_EM, ml_f_EM),
                        run_ml_sequence_prev_EM fin, run_ml_f_prev_EM fin, run_rng fin)) \<and>
           subtype_and_stage_individuals ops d samples_sequence samples_f 1000 =
             Inr (ml_subtype, prob_ml_subtype, ml_stage, prob_ml_stage) \<and>
           out = (samples_sequence, samples_f, ml_subtype, prob_ml_subtype, ml_stage, prob_ml_stage) \<and>
           run_plots fin = [0..<cfg_N_S_max cfg] \<and>
           dom (run_files fin) = pickle_filename_s cfg ` {..<cfg_N_S_max cfg} \<union> dom files"
proof -
  let ?init = "\<lparr> run_files = files, run_ml_sequence_prev_EM = [], run_ml_f_prev_EM = [],
                 run_vars = None, run_plots = [], run_rng = r \<rparr>"
  from assms have loop: "run_subtypes ops cfg d [0..<cfg_N_S_max cfg] ?init = Some (Inr fin)"
    and ret: "run_return fin = Inr out"
    by (auto simp: run_sustain_algorithm_def split: option.splits sum.splits)
  have "cfg_N_S_max cfg \<noteq> 0"
  proof
    assume "cfg_N_S_max cfg = 0"
    with loop have "fin = ?init" by simp
    with ret show False by (simp add: run_return_def)
  qed
  then obtain n where n: "cfg_N_S_max cfg = Suc n"
    by (cases "cfg_N_S_max cfg") auto
  from loop obtain st where
    before: "run_subtypes ops cfg d [0..<n] ?init = Some (Inr st)" and
    last: "run_subtype ops cfg d n st = Some (Inr fin)"
    unfolding n upt_Suc_last run_subtypes_append
    by (auto split: option.splits sum.splits)
  from run_subtype_vars [OF last] obtain v where
    v: "run_vars fin = Some v" and
    lf: "load_or_fit ops cfg d n st =
             Some (Inr ((sv_samples_sequence v, sv_samples_f v, sv_samples_likelihood v,
                         sv_ml_sequence_EM v, sv_ml_f_EM v),
                        run_ml_sequence_prev_EM fin, run_ml_f_prev_EM fin, run_rng fin))" and
    sa: "subtype_and_stage_individuals ops d (sv_samples_sequence v)
               (sv_samples_f v) 1000 =
             Inr (sv_ml_subtype v, sv_prob_ml_subtype v, sv_ml_stage v, sv_prob_ml_stage v)"
    by blast
  from ret v have out: "out = (sv_samples_sequence v, sv_samples_f v, sv_ml_subtype v,
      sv_prob_ml_subtype v, sv_ml_stage v, sv_prob_ml_stage v)"
    by (simp add: run_return_def)
  from run_subtypes_effects [OF loop] have
    pl: "run_plots fin = [0..<cfg_N_S_max cfg]" and
    fl: "dom (run_files fin) = pickle_filename_s cfg ` {..<cfg_N_S_max cfg} \<union> dom files"
    by (simp_all add: atLeast0LessThan)
  from n before last lf sa out pl fl show ?thesis
    by blast
qed

end
